theory Spec2Isabelle
  imports Complex_Main
begin

section \<open>Conventions of the embedding\<close>

text \<open>
  The program is the calculation core of a reinforced-concrete beam package written in
  Python: the domain model (\<^verbatim>\<open>app/models/entities.py\<close>) and the engines
  (\<^verbatim>\<open>app/engines/*.py\<close>).

  \<^item> Python \<^verbatim>\<open>float\<close> values are modelled by \<^typ>\<open>real\<close>: the formulas are the
    source's formulas, evaluated exactly. Rounding error, overflow and NaN of IEEE
    arithmetic are outside the model; a Python exception that a float operation raises
    on a real-valued argument (division by zero, square root of a negative number) is a
    branch of the model. The one place where the outcome of the code, and not only its
    last digits, depends on rounding is the singularity test of the solver; there the
    solver is evaluated a second time with every operation rounded to double precision.
  \<^item> Python objects that the code mutates or shares live in an explicit heap, one partial
    map per class, addressed by references (natural numbers). A reference is the
    identity of the Python object.
  \<^item> A raised exception is a value \<open>Inl e\<close> of the result type \<open>exn + 'a\<close>.
\<close>

type_synonym ref = nat

datatype exn =
    ValueError
  | ZeroDivisionError
  | IndexError
  | KeyError
  | TypeError
  | AttributeError
  | UnboundLocalError
  | SingularMatrixException
  | DanglingRef

text \<open>
  \<open>SingularMatrixException\<close> is the \<^verbatim>\<open>Exception("Matriz Singular. ...")\<close> of
  \<^verbatim>\<open>MatrixSolver._solve_system\<close>. \<open>DanglingRef\<close> is not a Python exception: it is the
  answer of the model on a heap in which a reference points to no object, a state that
  no Python state corresponds to.
\<close>

definition bindE :: "exn + 'a \<Rightarrow> ('a \<Rightarrow> exn + 'b) \<Rightarrow> exn + 'b" where
  "bindE m f = (case m of Inl e \<Rightarrow> Inl e | Inr x \<Rightarrow> f x)"

definition deref :: "(ref \<rightharpoonup> 'a) \<Rightarrow> ref \<Rightarrow> exn + 'a" where
  "deref m r = (case m r of None \<Rightarrow> Inl DanglingRef | Some v \<Rightarrow> Inr v)"

text \<open>Python list indexing with a non-negative index.\<close>

definition py_index :: "'a list \<Rightarrow> nat \<Rightarrow> exn + 'a" where
  "py_index xs i = (if i < length xs then Inr (xs ! i) else Inl IndexError)"

text \<open>Float division: a zero divisor raises.\<close>

definition py_div :: "real \<Rightarrow> real \<Rightarrow> exn + real" where
  "py_div a b = (if b = 0 then Inl ZeroDivisionError else Inr (a / b))"

text \<open>Sequential composition of a loop body over a list, stopping at the first exception.\<close>

fun foldE :: "('s \<Rightarrow> 'a \<Rightarrow> exn + 's) \<Rightarrow> 's \<Rightarrow> 'a list \<Rightarrow> exn + 's" where
  "foldE f s [] = Inr s"
| "foldE f s (x # xs) = (case f s x of Inl e \<Rightarrow> Inl e | Inr s' \<Rightarrow> foldE f s' xs)"

section \<open>Domain model (entities.py)\<close>

datatype MaterialType = CONCRETE | STEEL

datatype LoadType = DISTRIBUTED | POINT | MOMENT | TORSION

datatype SupportType = PINNED | FIXED | FREE

record Material =
  mat_name :: string
  mat_type :: MaterialType
  fck :: real
  fyk :: real
  Ecs :: real

definition get_fcd :: "Material \<Rightarrow> real" where
  "get_fcd m = (fck m / 1.4) / 10.0"

record CrossSection =
  sec_bw :: real
  sec_h :: real
  sec_bf :: real
  sec_hf :: real

definition area :: "CrossSection \<Rightarrow> real" where
  "area s = (let area_web = sec_bw s * sec_h s;
                 area_flange = (if sec_bf s > sec_bw s then (sec_bf s - sec_bw s) * sec_hf s else 0)
             in area_web + area_flange)"

definition inertia :: "CrossSection \<Rightarrow> real" where
  "inertia s = (sec_bw s * (sec_h s ^ 3)) / 12"

record Load =
  load_type :: LoadType
  load_value :: real
  position_start :: real
  position_end :: real
  source :: string

record Node =
  node_id :: int
  node_x :: real
  node_y :: real
  node_z :: real
  support_conditions :: "bool list"

text \<open>
  Values stored in the result dictionaries of a span: numbers and status texts
  (\<^verbatim>\<open>design_results\<close>), bar and stirrup options (\<^verbatim>\<open>detailing_results\<close>).
\<close>

datatype dval = Num real | Str string

record BarOption =
  diameter_mm :: real
  bar_count :: int
  area_provided_cm2 :: real
  spacing_mm :: real
  bar_status :: string
  anchorage_length_cm :: real

record StirrupOption =
  st_diameter_mm :: real
  spacing_cm :: real
  legs :: int
  st_status :: string

datatype detval = Bars BarOption | Stirrups StirrupOption

record ServiceabilityResult =
  wk_calc :: real
  wk_limit :: real
  deflection_inst :: real
  deflection_total :: real
  deflection_limit :: real
  status_crack :: string
  status_deflection :: string

text \<open>
  A span refers to its section, its loads and its two nodes (references into the heap);
  the material is never assigned to after construction and is held by value.
  \<open>design_results\<close> is \<open>None\<close> when the instance has no attribute of that name, the state
  that \<^verbatim>\<open>hasattr(span, "design_results")\<close> tests for; the dataclass constructor always
  creates the attribute, as an empty dictionary.
\<close>

record BeamSpan =
  span_id :: int
  span_length :: real
  span_section :: ref
  material :: Material
  loads :: "ref list"
  start_node :: "ref option"
  end_node :: "ref option"
  moment_left :: real
  moment_right :: real
  shear_left :: real
  shear_right :: real
  design_results :: "(string \<rightharpoonup> dval) option"
  detailing_results :: "string \<rightharpoonup> detval"
  els_results :: "ServiceabilityResult option"

record Beam =
  beam_id :: string
  spans :: "ref list"
  nodes :: "ref list"
  direction_vector :: "real \<times> real"

record heap =
  next_ref :: ref
  node_objs :: "ref \<rightharpoonup> Node"
  section_objs :: "ref \<rightharpoonup> CrossSection"
  load_objs :: "ref \<rightharpoonup> Load"
  span_objs :: "ref \<rightharpoonup> BeamSpan"
  beam_objs :: "ref \<rightharpoonup> Beam"

text \<open>The constructors: a new object gets the next unused reference.\<close>

definition new_Node :: "heap \<Rightarrow> Node \<Rightarrow> heap \<times> ref" where
  "new_Node hp n = (hp\<lparr>next_ref := Suc (next_ref hp),
                        node_objs := (node_objs hp)(next_ref hp \<mapsto> n)\<rparr>, next_ref hp)"

definition new_CrossSection :: "heap \<Rightarrow> CrossSection \<Rightarrow> heap \<times> ref" where
  "new_CrossSection hp s = (hp\<lparr>next_ref := Suc (next_ref hp),
                        section_objs := (section_objs hp)(next_ref hp \<mapsto> s)\<rparr>, next_ref hp)"

definition new_Load :: "heap \<Rightarrow> Load \<Rightarrow> heap \<times> ref" where
  "new_Load hp l = (hp\<lparr>next_ref := Suc (next_ref hp),
                        load_objs := (load_objs hp)(next_ref hp \<mapsto> l)\<rparr>, next_ref hp)"

definition new_BeamSpan :: "heap \<Rightarrow> BeamSpan \<Rightarrow> heap \<times> ref" where
  "new_BeamSpan hp s = (hp\<lparr>next_ref := Suc (next_ref hp),
                        span_objs := (span_objs hp)(next_ref hp \<mapsto> s)\<rparr>, next_ref hp)"

definition new_Beam :: "heap \<Rightarrow> string \<Rightarrow> heap \<times> ref" where
  "new_Beam hp bid = (hp\<lparr>next_ref := Suc (next_ref hp),
        beam_objs := (beam_objs hp)(next_ref hp \<mapsto>
           \<lparr>beam_id = bid, spans = [], nodes = [], direction_vector = (1.0, 0.0)\<rparr>)\<rparr>,
      next_ref hp)"

definition empty_heap :: heap where
  "empty_heap = \<lparr>next_ref = 0, node_objs = Map.empty, section_objs = Map.empty,
                 load_objs = Map.empty, span_objs = Map.empty, beam_objs = Map.empty\<rparr>"

text \<open>Every object of the heap was created by a constructor.\<close>

definition heap_ok :: "heap \<Rightarrow> bool" where
  "heap_ok hp \<longleftrightarrow>
     (\<forall>r. r \<in> dom (node_objs hp) \<longrightarrow> r < next_ref hp) \<and>
     (\<forall>r. r \<in> dom (section_objs hp) \<longrightarrow> r < next_ref hp) \<and>
     (\<forall>r. r \<in> dom (load_objs hp) \<longrightarrow> r < next_ref hp) \<and>
     (\<forall>r. r \<in> dom (span_objs hp) \<longrightarrow> r < next_ref hp) \<and>
     (\<forall>r. r \<in> dom (beam_objs hp) \<longrightarrow> r < next_ref hp)"

subsection \<open>Beam.add\_span\<close>

definition get_conditions :: "SupportType \<Rightarrow> bool list" where
  "get_conditions stype =
     (if stype = FIXED then [True, True]
      else if stype = PINNED then [True, False]
      else if stype = FREE then [False, False]
      else [True, False])"

text \<open>
  The first half of \<^verbatim>\<open>add_span\<close>: the start node is created when the beam has no node
  yet, otherwise it is the last node of the beam, made fully fixed when the new span
  asks for a fixed start.
\<close>

definition add_span_start :: "heap \<Rightarrow> ref \<Rightarrow> real \<times> real \<Rightarrow> SupportType \<Rightarrow> exn + (heap \<times> ref)" where
  "add_span_start hp self start_coord start_support =
     bindE (deref (beam_objs hp) self) (\<lambda>b.
       if nodes b = [] then
         (let conds = get_conditions start_support;
              (hp1, start_node) = new_Node hp \<lparr>node_id = 0, node_x = fst start_coord,
                   node_y = snd start_coord, node_z = 0.0, support_conditions = conds\<rparr>
          in Inr (hp1\<lparr>beam_objs := (beam_objs hp1)(self \<mapsto> b\<lparr>nodes := nodes b @ [start_node]\<rparr>)\<rparr>,
                  start_node))
       else
         (let start_node = last (nodes b)
          in if start_support = FIXED then
               bindE (deref (node_objs hp) start_node) (\<lambda>n.
                 Inr (hp\<lparr>node_objs := (node_objs hp)(start_node \<mapsto>
                            n\<lparr>support_conditions := [True, True]\<rparr>)\<rparr>, start_node))
             else Inr (hp, start_node)))"

definition add_span ::
  "heap \<Rightarrow> ref \<Rightarrow> real \<Rightarrow> ref \<Rightarrow> Material \<Rightarrow> real \<times> real \<Rightarrow> real \<times> real \<Rightarrow>
   SupportType \<Rightarrow> SupportType \<Rightarrow> exn + (heap \<times> ref)" where
  "add_span hp self len sec mat start_coord direction start_support end_support =
     bindE (deref (beam_objs hp) self) (\<lambda>b0.
       let sid = int (length (spans b0)) + 1;
           hp0 = hp\<lparr>beam_objs := (beam_objs hp)(self \<mapsto> b0\<lparr>direction_vector := direction\<rparr>)\<rparr>
       in bindE (add_span_start hp0 self start_coord start_support) (\<lambda>(hp1, start_node).
          bindE (deref (node_objs hp1) start_node) (\<lambda>sn.
          bindE (deref (beam_objs hp1) self) (\<lambda>b1.
            let delta_x = len * fst direction;
                delta_y = len * snd direction;
                new_x = node_x sn + delta_x;
                new_y = node_y sn + delta_y;
                conds_end = get_conditions end_support;
                end_node_id = int (length (nodes b1));
                (hp2, end_node) = new_Node hp1 \<lparr>node_id = end_node_id, node_x = new_x,
                     node_y = new_y, node_z = 0.0, support_conditions = conds_end\<rparr>;
                b2 = b1\<lparr>nodes := nodes b1 @ [end_node]\<rparr>;
                (hp3, new_span) = new_BeamSpan hp2 \<lparr>span_id = sid, span_length = len,
                     span_section = sec, material = mat, loads = [],
                     start_node = Some start_node, end_node = Some end_node,
                     moment_left = 0.0, moment_right = 0.0, shear_left = 0.0, shear_right = 0.0,
                     design_results = Some Map.empty, detailing_results = Map.empty,
                     els_results = None\<rparr>;
                b3 = b2\<lparr>spans := spans b2 @ [new_span]\<rparr>
            in Inr (hp3\<lparr>beam_objs := (beam_objs hp3)(self \<mapsto> b3)\<rparr>, new_span)))))"

text \<open>A sequence of \<^verbatim>\<open>add_span\<close> calls on one beam, each with its own arguments.\<close>

record add_span_args =
  arg_length :: real
  arg_section :: ref
  arg_mat :: Material
  arg_start_coord :: "real \<times> real"
  arg_direction :: "real \<times> real"
  arg_start_support :: SupportType
  arg_end_support :: SupportType

definition add_span_call :: "ref \<Rightarrow> heap \<Rightarrow> add_span_args \<Rightarrow> exn + heap" where
  "add_span_call self hp a =
     bindE (add_span hp self (arg_length a) (arg_section a) (arg_mat a) (arg_start_coord a)
              (arg_direction a) (arg_start_support a) (arg_end_support a))
       (\<lambda>(hp', new_span). Inr hp')"

definition add_spans :: "heap \<Rightarrow> ref \<Rightarrow> add_span_args list \<Rightarrow> exn + heap" where
  "add_spans hp self calls = foldE (add_span_call self) hp calls"

text \<open>
  Reading and writing the restraint flags of a node the way the callers do:
  \<^verbatim>\<open>span.start_node.support_conditions\<close>, \<^verbatim>\<open>span.end_node.support_conditions\<close>
  (report exporter) and \<^verbatim>\<open>node.support_conditions[k] = v\<close> (manual update).
\<close>

definition start_node_conditions :: "heap \<Rightarrow> ref \<Rightarrow> exn + bool list" where
  "start_node_conditions hp s =
     bindE (deref (span_objs hp) s) (\<lambda>sp.
       case start_node sp of
         None \<Rightarrow> Inl AttributeError
       | Some r \<Rightarrow> bindE (deref (node_objs hp) r) (\<lambda>n. Inr (support_conditions n)))"

definition end_node_conditions :: "heap \<Rightarrow> ref \<Rightarrow> exn + bool list" where
  "end_node_conditions hp s =
     bindE (deref (span_objs hp) s) (\<lambda>sp.
       case end_node sp of
         None \<Rightarrow> Inl AttributeError
       | Some r \<Rightarrow> bindE (deref (node_objs hp) r) (\<lambda>n. Inr (support_conditions n)))"

definition set_support_condition :: "heap \<Rightarrow> ref \<Rightarrow> nat \<Rightarrow> bool \<Rightarrow> exn + heap" where
  "set_support_condition hp r k v =
     bindE (deref (node_objs hp) r) (\<lambda>n.
       if k < length (support_conditions n)
       then Inr (hp\<lparr>node_objs := (node_objs hp)(r \<mapsto>
                   n\<lparr>support_conditions := (support_conditions n)[k := v]\<rparr>)\<rparr>)
       else Inl IndexError)"

text \<open>
  The topology of a beam object \<open>B\<close> with \<open>N\<close> spans: \<open>N + 1\<close> distinct nodes carrying the
  identifiers \<open>0..N\<close>, span \<open>i\<close> running from node \<open>i\<close> to node \<open>i + 1\<close>.
\<close>

definition beam_chain :: "heap \<Rightarrow> Beam \<Rightarrow> nat \<Rightarrow> bool" where
  "beam_chain hp B N \<longleftrightarrow>
     length (spans B) = N \<and> length (nodes B) = N + 1 \<and> distinct (nodes B) \<and>
     (\<forall>i\<le>N. \<exists>n. node_objs hp (nodes B ! i) = Some n \<and> node_id n = int i) \<and>
     (\<forall>i<N. \<exists>s. span_objs hp (spans B ! i) = Some s \<and>
              start_node s = Some (nodes B ! i) \<and> end_node s = Some (nodes B ! Suc i))"

text \<open>
  The invariant of a beam that is only ever extended by \<^verbatim>\<open>add_span\<close>: it is either still
  empty or a chain.
\<close>

definition beam_inv :: "heap \<Rightarrow> ref \<Rightarrow> bool" where
  "beam_inv hp self \<longleftrightarrow> heap_ok hp \<and> (\<exists>B. beam_objs hp self = Some B \<and>
      ((spans B = [] \<and> nodes B = []) \<or> beam_chain hp B (length (spans B))))"

text \<open>A concrete material, section and call used to run the model.\<close>

definition mat_C30 :: Material where
  "mat_C30 = \<lparr>mat_name = ''C30'', mat_type = CONCRETE, fck = 30, fyk = 500, Ecs = 26000\<rparr>"

definition sec_20x50 :: CrossSection where
  "sec_20x50 = \<lparr>sec_bw = 20, sec_h = 50, sec_bf = 0, sec_hf = 0\<rparr>"

definition call_6m :: add_span_args where
  "call_6m = \<lparr>arg_length = 6, arg_section = 0, arg_mat = mat_C30, arg_start_coord = (0, 0),
     arg_direction = (1, 0), arg_start_support = PINNED, arg_end_support = PINNED\<rparr>"

text \<open>A heap holding the section (reference 0) and an empty beam (reference 1).\<close>

definition hp_fresh :: heap where
  "hp_fresh = fst (new_Beam (fst (new_CrossSection empty_heap sec_20x50)) ''V1'')"

section \<open>Numeric helpers\<close>

text \<open>
  \<^verbatim>\<open>round(x, nd)\<close> of Python: the nearest multiple of \<open>10^(-nd)\<close>, ties to the even one.
\<close>

definition round_half_even :: "real \<Rightarrow> int" where
  "round_half_even y =
     (let f = \<lfloor>y\<rfloor>; d = y - of_int f
      in if d < 1/2 then f else if d > 1/2 then f + 1 else if even f then f else f + 1)"

definition py_round :: "real \<Rightarrow> nat \<Rightarrow> real" where
  "py_round x nd = of_int (round_half_even (x * 10 ^ nd)) / 10 ^ nd"

text \<open>
  \<^verbatim>\<open>x ** (2/3)\<close> on floats: a negative base gives a complex number in Python 3, and the
  first ordering comparison or \<^verbatim>\<open>max\<close> on it raises \<^verbatim>\<open>TypeError\<close>; every use in the
  engines is followed by one, so the negative base is modelled as that exception.
\<close>

definition pow_two_thirds :: "real \<Rightarrow> exn + real" where
  "pow_two_thirds x = (if x < 0 then Inl TypeError else Inr (x powr (2/3)))"

section \<open>Bar selection (bar\_selector.py)\<close>

definition longitudinal_bars :: "real list" where
  "longitudinal_bars = [8.0, 10.0, 12.5, 16.0, 20.0, 25.0]"

definition transversal_bars :: "real list" where
  "transversal_bars = [5.0, 6.3, 8.0, 10.0]"

text \<open>The bond condition is the text \<^verbatim>\<open>"good"\<close> or \<^verbatim>\<open>"bad"\<close>.\<close>

definition calc_anchorage :: "real \<Rightarrow> real \<Rightarrow> string \<Rightarrow> exn + real" where
  "calc_anchorage phi_mm fck_mpa condition =
     (let eta1 = 2.25;
          eta2 = (if condition = ''good'' then 1.0 else 0.7);
          eta3 = 1.0
      in bindE (pow_two_thirds fck_mpa) (\<lambda>p.
         let fctd = (0.21 * p) / 1.4;
             fbd = eta1 * eta2 * eta3 * fctd;
             fyd = 500 / 1.15
         in bindE (py_div fyd fbd) (\<lambda>q.
            let lb = (phi_mm / 4) * q;
                lb_min = max (max (0.3 * lb) (10 * phi_mm)) 100.0
            in Inr (max lb lb_min / 10.0))))"

text \<open>
  The quantities of one pass of the loop of \<^verbatim>\<open>select_longitudinal\<close>: the area of one bar,
  the bar count (at least 2), the width the bars need and the width there is.
\<close>

definition area_bar :: "real \<Rightarrow> real" where
  "area_bar phi = pi * ((phi / 10) / 2) ^ 2"

definition bar_count_for :: "real \<Rightarrow> real \<Rightarrow> int" where
  "bar_count_for as_req phi = (let n = \<lceil>as_req / area_bar phi\<rceil> in if n < 2 then 2 else n)"

definition ah_min :: real where
  "ah_min = 20.0"

definition space_required :: "int \<Rightarrow> real \<Rightarrow> real" where
  "space_required n phi = (of_int n * phi) + ((of_int n - 1) * ah_min)"

definition width_available :: "real \<Rightarrow> real \<Rightarrow> real" where
  "width_available bw_cm cover_mm = (let estribo_est = 5.0; bw_mm = bw_cm * 10
                                    in bw_mm - 2 * (cover_mm + estribo_est))"

definition bar_fits :: "real \<Rightarrow> real \<Rightarrow> real \<Rightarrow> real \<Rightarrow> bool" where
  "bar_fits as_req bw_cm cover_mm phi \<longleftrightarrow>
     space_required (bar_count_for as_req phi) phi \<le> width_available bw_cm cover_mm"

text \<open>
  The loop state is \<^verbatim>\<open>(best_option, min_overdesign)\<close>; \<open>None\<close> stands for Python's
  \<^verbatim>\<open>None\<close> in the first component and for \<^verbatim>\<open>float('inf')\<close> in the second.
\<close>

definition below_min :: "real \<Rightarrow> real option \<Rightarrow> bool" where
  "below_min x m = (case m of None \<Rightarrow> True | Some y \<Rightarrow> x < y)"

definition select_step ::
  "real \<Rightarrow> real \<Rightarrow> real \<Rightarrow> real \<Rightarrow> string \<Rightarrow> BarOption option \<times> real option \<Rightarrow> real \<Rightarrow>
   exn + (BarOption option \<times> real option)" where
  "select_step as_req bw_cm cover_mm fck_mpa bond_cond st phi =
     bindE (py_div as_req (area_bar phi)) (\<lambda>q.
       let n = bar_count_for as_req phi
       in if space_required n phi \<le> width_available bw_cm cover_mm then
            (let area_total = of_int n * area_bar phi;
                 overdesign = area_total - as_req
             in if below_min overdesign (snd st) then
                  bindE (calc_anchorage phi fck_mpa bond_cond) (\<lambda>lb.
                    Inr (Some \<lparr>diameter_mm = phi, bar_count = n, area_provided_cm2 = area_total,
                               spacing_mm = 0.0, bar_status = ''OK'',
                               anchorage_length_cm = py_round lb 1\<rparr>,
                         Some overdesign))
                else Inr st)
          else Inr st)"

text \<open>The failure texts contain non-ASCII letters, written here as their UTF-8 bytes.\<close>

definition status_nao_cabe :: string where
  "status_nao_cabe = ''Erro: N'' @ [CHR 0xC3, CHR 0xA3] @ ''o cabe (Camada Dupla nec.)''"

definition status_espacamento :: string where
  "status_espacamento = ''Erro: Espa'' @ [CHR 0xC3, CHR 0xA7] @ ''amento < 5cm''"

definition no_bars :: "string \<Rightarrow> BarOption" where
  "no_bars st = \<lparr>diameter_mm = 0, bar_count = 0, area_provided_cm2 = 0, spacing_mm = 0,
                 bar_status = st, anchorage_length_cm = 0.0\<rparr>"

definition select_longitudinal :: "real \<Rightarrow> real \<Rightarrow> real \<Rightarrow> bool \<Rightarrow> real \<Rightarrow> exn + BarOption" where
  "select_longitudinal as_req bw_cm cover_mm is_top fck_mpa =
     (if as_req \<le> 0.01 then Inr (no_bars ''Dispensado'')
      else
        let bond_cond = (if is_top then ''bad'' else ''good'')
        in bindE (foldE (select_step as_req bw_cm cover_mm fck_mpa bond_cond) (None, None)
                    longitudinal_bars)
             (\<lambda>(best_option, min_overdesign).
                case best_option of
                  Some b \<Rightarrow> Inr b
                | None \<Rightarrow> Inr (no_bars status_nao_cabe)))"

fun select_stirrup_loop :: "real \<Rightarrow> real \<Rightarrow> real list \<Rightarrow> StirrupOption" where
  "select_stirrup_loop asw_s_req h_cm [] =
     \<lparr>st_diameter_mm = 0, spacing_cm = 0, legs = 2, st_status = status_espacamento\<rparr>"
| "select_stirrup_loop asw_s_req h_cm (phi # rest) =
     (let area_leg = area_bar phi;
          area_total = 2 * area_leg;
          s_calc = area_total / asw_s_req;
          s_max = min (0.6 * (h_cm - 4)) 30.0;
          s_adopt = \<lfloor>min s_calc s_max\<rfloor>
      in if s_adopt \<ge> 5 then
           \<lparr>st_diameter_mm = phi, spacing_cm = of_int s_adopt, legs = 2, st_status = ''OK''\<rparr>
         else select_stirrup_loop asw_s_req h_cm rest)"

definition select_stirrup :: "real \<Rightarrow> real \<Rightarrow> real \<Rightarrow> StirrupOption" where
  "select_stirrup asw_s_req0 bw_cm h_cm =
     (let asw_s_req = (if asw_s_req0 \<le> 0.0001 then 0.001 else asw_s_req0)
      in select_stirrup_loop asw_s_req h_cm transversal_bars)"

text \<open>
  The loop invariant of \<^verbatim>\<open>select_longitudinal\<close> after the diameters \<open>seen\<close>: nothing is
  selected exactly when none of them fits, and a selected option is one of them, fits, and
  has the least excess area among those that fit.
\<close>

definition sel_inv :: "real \<Rightarrow> real \<Rightarrow> real \<Rightarrow> real list \<Rightarrow> BarOption option \<times> real option \<Rightarrow> bool" where
  "sel_inv as_req bw cover seen st \<longleftrightarrow>
     (snd st = None \<longrightarrow> fst st = None \<and> (\<forall>phi\<in>set seen. \<not> bar_fits as_req bw cover phi)) \<and>
     (\<forall>m. snd st = Some m \<longrightarrow>
        (\<exists>phi\<in>set seen. \<exists>lb. bar_fits as_req bw cover phi \<and>
           fst st = Some \<lparr>diameter_mm = phi, bar_count = bar_count_for as_req phi,
                          area_provided_cm2 = of_int (bar_count_for as_req phi) * area_bar phi,
                          spacing_mm = 0, bar_status = ''OK'', anchorage_length_cm = lb\<rparr> \<and>
           m = of_int (bar_count_for as_req phi) * area_bar phi - as_req) \<and>
        (\<forall>phi\<in>set seen. bar_fits as_req bw cover phi \<longrightarrow>
           m \<le> of_int (bar_count_for as_req phi) * area_bar phi - as_req))"

section \<open>Ultimate-limit-state design (elu\_design.py)\<close>

record ELUDesignEngine =
  gamma_c :: real
  gamma_s :: real
  gamma_f :: real

text \<open>The constructor defaults.\<close>

definition ELUDesignEngine_default :: ELUDesignEngine where
  "ELUDesignEngine_default = \<lparr>gamma_c = 1.4, gamma_s = 1.15, gamma_f = 1.4\<rparr>"

definition kmd_of :: "real \<Rightarrow> real \<Rightarrow> real \<Rightarrow> real \<Rightarrow> real" where
  "kmd_of Md_kNm b_cm d_cm fcd_kNcm2 = (Md_kNm * 100) / (b_cm * (d_cm ^ 2) * fcd_kNcm2)"

text \<open>
  \<^verbatim>\<open>_calc_reinforcement_area\<close>. The warning printed in the over-reinforced branch is not
  modelled. The \<^verbatim>\<open>try\<close> block catches the \<^verbatim>\<open>ValueError\<close> of \<^verbatim>\<open>math.sqrt\<close> on a negative
  argument and continues with \<^verbatim>\<open>beta_x = 0.5\<close>.
\<close>

definition calc_reinforcement_area :: "real \<Rightarrow> real \<Rightarrow> real \<Rightarrow> real \<Rightarrow> real \<Rightarrow> exn + real" where
  "calc_reinforcement_area Md_kNm b_cm d_cm fcd_kNcm2 fyd_kNcm2 =
     (if Md_kNm \<le> 0.01 then Inr 0.0
      else
        let Md_kNcm = Md_kNm * 100
        in bindE (py_div Md_kNcm (b_cm * (d_cm ^ 2) * fcd_kNcm2)) (\<lambda>kmd.
           if kmd > 0.251 then
             bindE (py_div Md_kNcm (0.9 * d_cm * fyd_kNcm2)) (\<lambda>q. Inr (q * 1.5))
           else
             let val_sqrt = 1 - (4 * 0.272 * kmd) / (0.68 ^ 2)
             in if val_sqrt < 0 then Inr 999.0
                else
                  let beta_x = (if 0.68 ^ 2 - 4 * 0.272 * kmd < 0 then 0.5
                                else (0.68 - sqrt (0.68 ^ 2 - 4 * 0.272 * kmd)) / (2 * 0.272));
                      z = d_cm * (1 - 0.4 * beta_x)
                  in py_div Md_kNcm (z * fyd_kNcm2)))"

definition q_total_of :: "Load list \<Rightarrow> real" where
  "q_total_of ls = sum_list (map load_value (filter (\<lambda>l. load_type l = DISTRIBUTED) ls))"

text \<open>
  The midspan moment estimate before amplification: the isostatic moment less the mean
  magnitude of the end moments, not below zero.
\<close>

definition midspan_moment :: "BeamSpan \<Rightarrow> Load list \<Rightarrow> real" where
  "midspan_moment sp ls =
     (let q_total = q_total_of ls;
          L = span_length sp;
          M0 = (q_total * L ^ 2) / 8
      in max 0 (M0 - (\<bar>moment_left sp\<bar> + \<bar>moment_right sp\<bar>) / 2))"

definition as_min_of :: "CrossSection \<Rightarrow> real" where
  "as_min_of sec = 0.0015 * sec_bw sec * sec_h sec"

text \<open>
  \<^verbatim>\<open>_design_flexure\<close>: the dictionary it stores, from the span, its section and its loads.
\<close>

definition flexure_results ::
  "ELUDesignEngine \<Rightarrow> BeamSpan \<Rightarrow> CrossSection \<Rightarrow> Load list \<Rightarrow> exn + (string \<rightharpoonup> dval)" where
  "flexure_results eng sp sec ls =
     (let fcd = get_fcd (material sp)
      in bindE (py_div (fyk (material sp)) (gamma_s eng)) (\<lambda>fyd10.
         let fyd = fyd10 / 10.0;
             b = sec_bw sec;
             h = sec_h sec;
             d = h - 4.0;
             Md_neg_esq = \<bar>moment_left sp\<bar> * gamma_f eng;
             Md_neg_dir = \<bar>moment_right sp\<bar> * gamma_f eng;
             Md_pos_vao = midspan_moment sp ls * gamma_f eng
         in bindE (calc_reinforcement_area Md_neg_esq b d fcd fyd) (\<lambda>as_sup_esq.
            bindE (calc_reinforcement_area Md_neg_dir b d fcd fyd) (\<lambda>as_sup_dir.
            bindE (calc_reinforcement_area Md_pos_vao b d fcd fyd) (\<lambda>as_inf_vao.
              let as_min = as_min_of sec
              in Inr [''As_sup_esq'' \<mapsto> Num (if Md_neg_esq > 0.1 then max as_sup_esq as_min else 0),
                      ''As_sup_dir'' \<mapsto> Num (if Md_neg_dir > 0.1 then max as_sup_dir as_min else 0),
                      ''As_inf_vao'' \<mapsto> Num (max as_inf_vao as_min),
                      ''Md_max'' \<mapsto> Num (max (max Md_neg_esq Md_neg_dir) Md_pos_vao)])))))"

text \<open>Reading the objects a list of references points to.\<close>

fun deref_list :: "(ref \<rightharpoonup> 'a) \<Rightarrow> ref list \<Rightarrow> exn + 'a list" where
  "deref_list m [] = Inr []"
| "deref_list m (r # rs) =
     bindE (deref m r) (\<lambda>v. bindE (deref_list m rs) (\<lambda>vs. Inr (v # vs)))"

definition design_flexure :: "ELUDesignEngine \<Rightarrow> heap \<Rightarrow> ref \<Rightarrow> exn + heap" where
  "design_flexure eng hp s =
     bindE (deref (span_objs hp) s) (\<lambda>sp.
     bindE (deref (section_objs hp) (span_section sp)) (\<lambda>sec.
     bindE (deref_list (load_objs hp) (loads sp)) (\<lambda>ls.
     bindE (flexure_results eng sp sec ls) (\<lambda>dr.
       Inr (hp\<lparr>span_objs := (span_objs hp)(s \<mapsto> sp\<lparr>design_results := Some dr\<rparr>)\<rparr>)))))"

text \<open>
  \<^verbatim>\<open>_design_shear\<close>: the three entries it adds to the dictionary of the span.
\<close>

definition status_falha_biela :: string where
  "status_falha_biela = ''FALHA (Esmagamento Biela)''"

definition shear_results ::
  "ELUDesignEngine \<Rightarrow> BeamSpan \<Rightarrow> CrossSection \<Rightarrow> exn + (real \<times> real \<times> string)" where
  "shear_results eng sp sec =
     (let Vd_max = max \<bar>shear_left sp\<bar> \<bar>shear_right sp\<bar> * gamma_f eng;
          fcd = get_fcd (material sp)
      in if gamma_c eng = 0 then Inl ZeroDivisionError
         else bindE (pow_two_thirds (fck (material sp))) (\<lambda>p.
           let fctd = (0.21 * p) / gamma_c eng / 10.0;
               b = sec_bw sec;
               d = sec_h sec - 4.0;
               alpha_v2 = 1 - (fck (material sp) / 250);
               V_rd2 = 0.27 * alpha_v2 * fcd * b * d;
               status_biela = (if Vd_max > V_rd2 then status_falha_biela else ''OK'');
               V_c = 0.6 * fctd * b * d;
               V_sw = max 0 (Vd_max - V_c);
               fyd_transv = 43.5
           in bindE (py_div V_sw (0.9 * d * fyd_transv)) (\<lambda>Asw_s_calc.
              let fctm = 0.3 * p / 10.0;
                  Asw_s_min = (0.2 * fctm / 50.0) * b;
                  Asw_s_final = max Asw_s_calc Asw_s_min
              in Inr (Vd_max, Asw_s_final, status_biela))))"

definition design_shear :: "ELUDesignEngine \<Rightarrow> heap \<Rightarrow> ref \<Rightarrow> exn + heap" where
  "design_shear eng hp s =
     bindE (deref (span_objs hp) s) (\<lambda>sp.
     bindE (deref (section_objs hp) (span_section sp)) (\<lambda>sec.
     bindE (shear_results eng sp sec) (\<lambda>(Vd_max, Asw_s_final, status_biela).
       let dr0 = (case design_results sp of None \<Rightarrow> Map.empty | Some dr \<Rightarrow> dr)
       in Inr (hp\<lparr>span_objs := (span_objs hp)(s \<mapsto>
                 sp\<lparr>design_results := Some (dr0(''V_sd'' \<mapsto> Num Vd_max,
                                                   ''Asw_s_req'' \<mapsto> Num Asw_s_final,
                                                   ''Status_Biela'' \<mapsto> Str status_biela))\<rparr>)\<rparr>))))"

definition design_span :: "ELUDesignEngine \<Rightarrow> heap \<Rightarrow> ref \<Rightarrow> exn + heap" where
  "design_span eng hp s = bindE (design_flexure eng hp s) (\<lambda>hp1. design_shear eng hp1 s)"

definition run_design :: "ELUDesignEngine \<Rightarrow> heap \<Rightarrow> ref \<Rightarrow> exn + heap" where
  "run_design eng hp beam =
     bindE (deref (beam_objs hp) beam) (\<lambda>B. foldE (design_span eng) hp (spans B))"

text \<open>
  The lever arm that \<^verbatim>\<open>_calc_reinforcement_area\<close> computes from \<open>kmd\<close> below the ductility
  limit.
\<close>

definition lever_arm :: "real \<Rightarrow> real \<Rightarrow> real" where
  "lever_arm d_cm kmd =
     d_cm * (1 - 0.4 * ((0.68 - sqrt (0.68 ^ 2 - 4 * 0.272 * kmd)) / (2 * 0.272)))"

text \<open>
  What the stored dictionary \<open>dr\<close> of a span says about the three longitudinal areas: the
  midspan area is at least the floor; a support area is at least the floor when its
  design moment exceeds 0.1 and is 0 otherwise.
\<close>

definition flexure_floor_ok :: "ELUDesignEngine \<Rightarrow> BeamSpan \<Rightarrow> CrossSection \<Rightarrow> (string \<rightharpoonup> dval) \<Rightarrow> bool" where
  "flexure_floor_ok eng sp sec dr \<longleftrightarrow>
     (\<exists>a_inf a_esq a_dir.
        dr ''As_inf_vao'' = Some (Num a_inf) \<and> as_min_of sec \<le> a_inf \<and>
        dr ''As_sup_esq'' = Some (Num a_esq) \<and>
        (if \<bar>moment_left sp\<bar> * gamma_f eng > 0.1 then as_min_of sec \<le> a_esq else a_esq = 0) \<and>
        dr ''As_sup_dir'' = Some (Num a_dir) \<and>
        (if \<bar>moment_right sp\<bar> * gamma_f eng > 0.1 then as_min_of sec \<le> a_dir else a_dir = 0))"

text \<open>
  The design stage writes nothing but the \<^verbatim>\<open>design_results\<close> of spans.
\<close>

definition design_frame :: "heap \<Rightarrow> heap \<Rightarrow> bool" where
  "design_frame hp hp' \<longleftrightarrow>
     next_ref hp' = next_ref hp \<and> node_objs hp' = node_objs hp \<and>
     section_objs hp' = section_objs hp \<and> load_objs hp' = load_objs hp \<and>
     beam_objs hp' = beam_objs hp \<and>
     (\<forall>r. case span_objs hp r of
             None \<Rightarrow> span_objs hp' r = None
           | Some sp \<Rightarrow> (\<exists>dr. span_objs hp' r = Some (sp\<lparr>design_results := dr\<rparr>)))"

definition span_floor_ok :: "ELUDesignEngine \<Rightarrow> heap \<Rightarrow> ref \<Rightarrow> heap \<Rightarrow> bool" where
  "span_floor_ok eng hp s hp' \<longleftrightarrow>
     (\<exists>sp sec sp' dr. span_objs hp s = Some sp \<and> section_objs hp (span_section sp) = Some sec \<and>
        span_objs hp' s = Some sp' \<and> design_results sp' = Some dr \<and>
        flexure_floor_ok eng sp sec dr)"

text \<open>
  The scenario of the test block of \<^verbatim>\<open>elu_design.py\<close>: a 5 m span of section 20x50 in C25
  with end moments of -25 and -30 kNm, end shears of 45 and -45 kN and a distributed load
  of 15 kN/m, in a beam without nodes. The section is object 0, the load 1, the span 2 and
  the beam 3.
\<close>

definition mat_C25 :: Material where
  "mat_C25 = \<lparr>mat_name = ''C25'', mat_type = CONCRETE, fck = 25, fyk = 500, Ecs = 23800\<rparr>"

definition span_elu_test :: BeamSpan where
  "span_elu_test = \<lparr>span_id = 1, span_length = 5, span_section = 0, material = mat_C25,
      loads = [1], start_node = None, end_node = None,
      moment_left = - 25, moment_right = - 30, shear_left = 45, shear_right = - 45,
      design_results = Some Map.empty, detailing_results = Map.empty, els_results = None\<rparr>"

definition load_15 :: Load where
  "load_15 = \<lparr>load_type = DISTRIBUTED, load_value = 15, position_start = 0, position_end = 5,
               source = ''Manual''\<rparr>"

definition hp_elu_test :: heap where
  "hp_elu_test = \<lparr>next_ref = 4, node_objs = Map.empty,
      section_objs = [0 \<mapsto> sec_20x50], load_objs = [1 \<mapsto> load_15],
      span_objs = [2 \<mapsto> span_elu_test],
      beam_objs = [3 \<mapsto> \<lparr>beam_id = ''Test'', spans = [2], nodes = [],
                             direction_vector = (1, 0)\<rparr>]\<rparr>"

section \<open>Serviceability checks (els\_checker.py)\<close>

record ELSCheckerEngine =
  caa :: int
  time_months :: int

definition ELSCheckerEngine_default :: ELSCheckerEngine where
  "ELSCheckerEngine_default = \<lparr>caa = 2, time_months = 70\<rparr>"

definition crack_limits :: "int \<rightharpoonup> real" where
  "crack_limits = [1 \<mapsto> 0.4, 2 \<mapsto> 0.3, 3 \<mapsto> 0.2, 4 \<mapsto> 0.2]"

text \<open>
  \<^verbatim>\<open>d.get(key, default)\<close> read as a number: a text under the key makes the arithmetic or
  comparison that follows raise \<^verbatim>\<open>TypeError\<close>.
\<close>

definition get_num :: "(string \<rightharpoonup> dval) \<Rightarrow> string \<Rightarrow> real \<Rightarrow> exn + real" where
  "get_num d k dflt =
     (case d k of None \<Rightarrow> Inr dflt | Some (Num x) \<Rightarrow> Inr x | Some (Str s) \<Rightarrow> Inl TypeError)"

text \<open>
  The Stage II quantities of \<^verbatim>\<open>_check_cracking\<close>, as functions of the web width \<open>b\<close>, the
  effective depth \<open>d\<close> and the adopted steel area: the discriminant of the neutral-axis
  quadratic, its positive root, the cracked inertia, the steel stress under the service
  moment, and the crack width in mm before rounding. \<open>alpha_e\<close> is 10 and \<open>Es\<close> 21000.
\<close>

definition alpha_e :: real where
  "alpha_e = 10.0"

definition delta_II :: "real \<Rightarrow> real \<Rightarrow> real \<Rightarrow> real" where
  "delta_II b d As_adopt =
     (let A_eq = b / 2; B_eq = alpha_e * As_adopt; C_eq = - alpha_e * As_adopt * d
      in B_eq ^ 2 - 4 * A_eq * C_eq)"

definition x_II :: "real \<Rightarrow> real \<Rightarrow> real \<Rightarrow> real" where
  "x_II b d As_adopt =
     (let A_eq = b / 2; B_eq = alpha_e * As_adopt
      in (- B_eq + sqrt (delta_II b d As_adopt)) / (2 * A_eq))"

definition I_II :: "real \<Rightarrow> real \<Rightarrow> real \<Rightarrow> real" where
  "I_II b d As_adopt =
     (b * x_II b d As_adopt ^ 3) / 3 + alpha_e * As_adopt * (d - x_II b d As_adopt) ^ 2"

definition sigma_s_of :: "real \<Rightarrow> real \<Rightarrow> real \<Rightarrow> real \<Rightarrow> real" where
  "sigma_s_of M_serv b d As_adopt =
     alpha_e * (M_serv * (d - x_II b d As_adopt) / I_II b d As_adopt)"

definition phi_estimate :: "real \<Rightarrow> real" where
  "phi_estimate As_adopt = (if As_adopt > 10.0 then 1.6 else if As_adopt > 5.0 then 1.25 else 1.0)"

definition wk_mm_of :: "real \<Rightarrow> real \<Rightarrow> real \<Rightarrow> real" where
  "wk_mm_of As_adopt sigma_s fctm =
     (let Es = 21000.0;
          eta1 = 2.25;
          term_1 = phi_estimate As_adopt / (12.5 * eta1);
          term_2 = sigma_s / Es;
          term_3 = max (0.6 * sigma_s / fctm) (3 * sigma_s / fctm);
          wk_cm = term_1 * term_2 * term_3
      in wk_cm * 10.0)"

record crack_result =
  cr_wk :: real
  cr_limit :: real
  cr_status :: string

text \<open>
  \<^verbatim>\<open>_check_cracking\<close> on the dictionary \<open>dr\<close> of the span. The exceptions of the source, in
  its order: the missing class key in the early return, \<^verbatim>\<open>math.sqrt\<close> of a negative
  discriminant, the divisions by \<open>2 A_eq\<close>, by \<open>I_II\<close> and by \<open>fctm\<close>, and the comparison in
  \<^verbatim>\<open>max\<close> of the complex values that a negative \<open>fck\<close> produces.
\<close>

definition check_cracking ::
  "ELSCheckerEngine \<Rightarrow> BeamSpan \<Rightarrow> CrossSection \<Rightarrow> (string \<rightharpoonup> dval) \<Rightarrow> exn + crack_result" where
  "check_cracking eng sp sec dr =
     (let h = sec_h sec; b = sec_bw sec; d = h - 4.0
      in bindE (get_num dr ''As_inf_vao'' 0.0) (\<lambda>As_adopt.
         if As_adopt \<le> 0.001 then
           (case crack_limits (caa eng) of
              None \<Rightarrow> Inl KeyError
            | Some lmt \<Rightarrow> Inr \<lparr>cr_wk = 0.0, cr_limit = lmt, cr_status = ''OK''\<rparr>)
         else
           bindE (get_num dr ''Md_max'' 0.0) (\<lambda>Md_max.
             let M_serv = (Md_max / 1.4) * 100
             in if delta_II b d As_adopt < 0 then Inl ValueError
                else if 2 * (b / 2) = 0 then Inl ZeroDivisionError
                else if I_II b d As_adopt = 0 then Inl ZeroDivisionError
                else
                  let sigma_s = sigma_s_of M_serv b d As_adopt
                  in bindE (pow_two_thirds (fck (material sp))) (\<lambda>p.
                     let fctm = 0.3 * p / 10.0
                     in if fctm = 0 then Inl ZeroDivisionError
                        else
                          let wk_mm = wk_mm_of As_adopt sigma_s fctm;
                              limit = (case crack_limits (caa eng) of None \<Rightarrow> 0.3 | Some l \<Rightarrow> l)
                          in Inr \<lparr>cr_wk = py_round wk_mm 3, cr_limit = limit,
                                  cr_status = (if wk_mm \<le> limit then ''OK'' else ''FALHA'')\<rparr>))))"

record deflection_result =
  df_inst :: real
  df_total :: real
  df_limit :: real
  df_status :: string

definition check_deflection :: "BeamSpan \<Rightarrow> CrossSection \<Rightarrow> Load list \<Rightarrow> exn + deflection_result" where
  "check_deflection sp sec ls =
     (let L_m = span_length sp;
          L_cm = L_m * 100;
          limit = (L_cm * 10) / 250;
          q_elu = q_total_of ls;
          q_serv = q_elu / 1.4;
          q_line = q_serv / 100;
          E_cs = Ecs (material sp) / 10.0;
          I_c = inertia sec
      in bindE (py_div (5 * q_line * (L_cm ^ 4)) (384 * E_cs * I_c)) (\<lambda>f_imediata.
         let f_imediata_fissurada = f_imediata * 1.5;
             delta_csi = 2.0;
             alpha_f = delta_csi;
             f_total = f_imediata_fissurada * (1 + alpha_f);
             f_inst_mm = f_imediata_fissurada * 10;
             f_total_mm = f_total * 10
         in Inr \<lparr>df_inst = py_round f_inst_mm 2, df_total = py_round f_total_mm 2,
                 df_limit = limit,
                 df_status = (if f_total_mm \<le> limit then ''OK'' else ''FALHA'')\<rparr>))"

text \<open>
  \<^verbatim>\<open>run_checks\<close>. The state of the loop is the heap and the lines printed so far.
  \<^verbatim>\<open>hasattr(span, "design_results")\<close> is the test that the field is not \<open>None\<close>.
\<close>

definition aviso_sem_elu :: "string \<Rightarrow> string" where
  "aviso_sem_elu bid = ''AVISO: Viga '' @ bid @ '' n'' @ [CHR 0xC3, CHR 0xA3]
       @ ''o possui dimensionamento ELU. Pulando ELS.''"

definition check_span ::
  "ELSCheckerEngine \<Rightarrow> string \<Rightarrow> heap \<times> string list \<Rightarrow> ref \<Rightarrow> exn + (heap \<times> string list)" where
  "check_span eng bid st s =
     (let hp = fst st; out = snd st
      in bindE (deref (span_objs hp) s) (\<lambda>sp.
         case design_results sp of
           None \<Rightarrow> Inr (hp, out @ [aviso_sem_elu bid])
         | Some dr \<Rightarrow>
             bindE (deref (section_objs hp) (span_section sp)) (\<lambda>sec.
             bindE (check_cracking eng sp sec dr) (\<lambda>res_crack.
             bindE (deref_list (load_objs hp) (loads sp)) (\<lambda>ls.
             bindE (check_deflection sp sec ls) (\<lambda>res_deflection.
               Inr (hp\<lparr>span_objs := (span_objs hp)(s \<mapsto> sp\<lparr>els_results := Some
                       \<lparr>wk_calc = cr_wk res_crack, wk_limit = cr_limit res_crack,
                        deflection_inst = df_inst res_deflection,
                        deflection_total = df_total res_deflection,
                        deflection_limit = df_limit res_deflection,
                        status_crack = cr_status res_crack,
                        status_deflection = df_status res_deflection\<rparr>\<rparr>)\<rparr>, out)))))))"

definition run_checks :: "ELSCheckerEngine \<Rightarrow> heap \<Rightarrow> ref \<Rightarrow> exn + (heap \<times> string list)" where
  "run_checks eng hp beam =
     bindE (deref (beam_objs hp) beam) (\<lambda>B. foldE (check_span eng (beam_id B)) (hp, []) (spans B))"




text \<open>
  The beam of one 6 m span that \<^verbatim>\<open>add_span\<close> builds on the fresh heap: the section is
  object 0, the beam 1, the two pinned nodes 2 and 3, the span 4.
\<close>

definition span_6m :: BeamSpan where
  "span_6m = \<lparr>span_id = 1, span_length = 6, span_section = 0, material = mat_C30,
      loads = [], start_node = Some 2, end_node = Some 3,
      moment_left = 0, moment_right = 0, shear_left = 0, shear_right = 0,
      design_results = Some Map.empty, detailing_results = Map.empty, els_results = None\<rparr>"

definition hp_one_span :: heap where
  "hp_one_span = \<lparr>next_ref = 5,
      node_objs = [2 \<mapsto> \<lparr>node_id = 0, node_x = 0, node_y = 0, node_z = 0,
                           support_conditions = [True, False]\<rparr>,
                   3 \<mapsto> \<lparr>node_id = 1, node_x = 6, node_y = 0, node_z = 0,
                           support_conditions = [True, False]\<rparr>],
      section_objs = [0 \<mapsto> sec_20x50], load_objs = Map.empty,
      span_objs = [4 \<mapsto> span_6m],
      beam_objs = [1 \<mapsto> \<lparr>beam_id = ''V1'', spans = [4], nodes = [2, 3],
                             direction_vector = (1, 0)\<rparr>]\<rparr>"

section \<open>Structural solver (matrix\_solver.py)\<close>

text \<open>
  A numpy vector is a list of reals, a matrix a list of rows. \<^verbatim>\<open>np.zeros\<close>, the dot
  product and the matrix-vector product:
\<close>

definition zeros :: "nat \<Rightarrow> real list" where
  "zeros n = replicate n 0"

definition zeros2 :: "nat \<Rightarrow> nat \<Rightarrow> real list list" where
  "zeros2 m n = replicate m (zeros n)"

fun dot :: "real list \<Rightarrow> real list \<Rightarrow> real" where
  "dot (x # xs) (y # ys) = x * y + dot xs ys"
| "dot xs ys = 0"

definition mat_vec :: "real list list \<Rightarrow> real list \<Rightarrow> real list" where
  "mat_vec A v = map (\<lambda>row. dot row v) A"

subsection \<open>The linear solve\<close>

text \<open>
  \<^verbatim>\<open>np.linalg.solve\<close> is LAPACK's \<^verbatim>\<open>gesv\<close>: elimination with partial pivoting, which
  fails (\<^verbatim>\<open>LinAlgError\<close>) when a pivot is exactly zero. It is not code of this repository;
  it is modelled by Gaussian elimination on the rows \<open>(coefficients, right-hand side)\<close>:
  the pivot is the first row whose leading coefficient has the largest magnitude, the
  other rows are reduced by it, and the remaining system is solved first. \<open>None\<close> is
  \<^verbatim>\<open>LinAlgError\<close>. Here the elimination is exact, over the reals: it gives the solution that
  numpy approximates when the matrix is regular, and it fails on every singular matrix,
  which numpy in double arithmetic does not. What \<^verbatim>\<open>solve\<close> does on a singular structure is
  therefore evaluated with rounded operations, by \<open>linalg_solve_fl\<close> in the section on
  double precision.
\<close>

fun pivot_split :: "(real list \<times> real) list \<Rightarrow> ((real list \<times> real) \<times> (real list \<times> real) list) option" where
  "pivot_split [] = None"
| "pivot_split (r # rs) =
     (case pivot_split rs of
        None \<Rightarrow> Some (r, [])
      | Some (p, rest) \<Rightarrow>
          if \<bar>hd (fst r)\<bar> \<ge> \<bar>hd (fst p)\<bar> then Some (r, rs) else Some (p, r # rest))"

definition eliminate :: "real list \<times> real \<Rightarrow> real list \<times> real \<Rightarrow> real list \<times> real" where
  "eliminate p r =
     (let m = hd (fst r) / hd (fst p)
      in (map (\<lambda>(a, b). a - m * b) (zip (tl (fst r)) (tl (fst p))), snd r - m * snd p))"

fun gauss :: "nat \<Rightarrow> (real list \<times> real) list \<Rightarrow> real list option" where
  "gauss 0 rows = Some []"
| "gauss (Suc n) rows =
     (case pivot_split rows of
        None \<Rightarrow> None
      | Some (p, rest) \<Rightarrow>
          if hd (fst p) = 0 then None
          else (case gauss n (map (eliminate p) rest) of
                  None \<Rightarrow> None
                | Some xs \<Rightarrow> Some ((snd p - dot (tl (fst p)) xs) / hd (fst p) # xs)))"

definition linalg_solve :: "real list list \<Rightarrow> real list \<Rightarrow> real list option" where
  "linalg_solve A b = gauss (length A) (zip A b)"

text \<open>A matrix is singular when it sends some non-zero vector to zero.\<close>

definition singular :: "real list list \<Rightarrow> bool" where
  "singular A \<longleftrightarrow>
     (\<exists>v. length v = length A \<and> v \<noteq> zeros (length A) \<and> (\<forall>row\<in>set A. dot row v = 0))"

subsection \<open>Assembly\<close>

definition indices_of :: "nat \<Rightarrow> nat list" where
  "indices_of idx_i = (let idx_j = idx_i + 1 in [2 * idx_i, 2 * idx_i + 1, 2 * idx_j, 2 * idx_j + 1])"

definition local_stiffness :: "real \<Rightarrow> real \<Rightarrow> real \<Rightarrow> exn + real list list" where
  "local_stiffness E I L =
     bindE (py_div (E * I) (L ^ 3)) (\<lambda>c.
       Inr (map (map (\<lambda>x. c * x))
              [[12, 6 * L, - 12, 6 * L],
               [6 * L, 4 * L ^ 2, - 6 * L, 2 * L ^ 2],
               [- 12, - 6 * L, 12, - 6 * L],
               [6 * L, 2 * L ^ 2, - 6 * L, 4 * L ^ 2]]))"

text \<open>\<^verbatim>\<open>K[i, j] += a\<close> and \<^verbatim>\<open>F[i] -= a\<close>; an index out of bounds raises.\<close>

definition mat_add_at :: "real list list \<Rightarrow> nat \<Rightarrow> nat \<Rightarrow> real \<Rightarrow> exn + real list list" where
  "mat_add_at K i j a =
     (if i < length K \<and> j < length (K ! i)
      then Inr (K[i := (K ! i)[j := K ! i ! j + a]])
      else Inl IndexError)"

definition vec_sub_at :: "real list \<Rightarrow> nat \<Rightarrow> real \<Rightarrow> exn + real list" where
  "vec_sub_at F i a = (if i < length F then Inr (F[i := F ! i - a]) else Inl IndexError)"

text \<open>The two nested loops over \<^verbatim>\<open>range(4)\<close> that add a local matrix into the global one.\<close>

definition add_row :: "nat list \<Rightarrow> real list list \<Rightarrow> nat \<Rightarrow> real list list \<Rightarrow> nat \<Rightarrow> exn + real list list" where
  "add_row idx k i K j = mat_add_at K (idx ! i) (idx ! j) (k ! i ! j)"

definition add_local :: "nat list \<Rightarrow> real list list \<Rightarrow> real list list \<Rightarrow> exn + real list list" where
  "add_local idx k K = foldE (\<lambda>K i. foldE (add_row idx k i) K [0, 1, 2, 3]) K [0, 1, 2, 3]"

definition span_EIL :: "BeamSpan \<Rightarrow> CrossSection \<Rightarrow> real \<times> real \<times> real" where
  "span_EIL sp sec = (Ecs (material sp) * 1000, inertia sec * (1 / 10 ^ 8), span_length sp)"

definition stiffness_step :: "heap \<Rightarrow> real list list \<times> nat \<Rightarrow> ref \<Rightarrow> exn + (real list list \<times> nat)" where
  "stiffness_step hp st s =
     (let K = fst st; current_node_idx = snd st
      in bindE (deref (span_objs hp) s) (\<lambda>sp.
         bindE (deref (section_objs hp) (span_section sp)) (\<lambda>sec.
           case span_EIL sp sec of (E, I, L) \<Rightarrow>
             bindE (local_stiffness E I L) (\<lambda>k.
             bindE (add_local (indices_of current_node_idx) k K) (\<lambda>K'.
               Inr (K', current_node_idx + 1))))))"

definition assemble_stiffness_matrix :: "heap \<Rightarrow> Beam \<Rightarrow> exn + real list list" where
  "assemble_stiffness_matrix hp B =
     (let n_dofs = length (nodes B) * 2
      in bindE (foldE (stiffness_step hp) (zeros2 n_dofs n_dofs, 0) (spans B)) (\<lambda>st. Inr (fst st)))"

text \<open>
  The fixed-end reactions of a span: every distributed load adds
  \<open>[qL/2, qL^2/12, qL/2, -qL^2/12]\<close>; the other load kinds add nothing.
\<close>

definition add_fixed_end :: "real \<Rightarrow> real list \<Rightarrow> Load \<Rightarrow> real list" where
  "add_fixed_end L f l =
     (if load_type l = DISTRIBUTED then
        (let q = load_value l
         in [f ! 0 + q * L / 2, f ! 1 + q * (L ^ 2) / 12, f ! 2 + q * L / 2,
             f ! 3 + (- q * (L ^ 2) / 12)])
      else f)"

definition fixed_end_reactions :: "real \<Rightarrow> Load list \<Rightarrow> real list" where
  "fixed_end_reactions L ls = foldl (add_fixed_end L) (zeros 4) ls"

definition load_step :: "heap \<Rightarrow> real list \<times> nat \<Rightarrow> ref \<Rightarrow> exn + (real list \<times> nat)" where
  "load_step hp st s =
     (let F = fst st; current_node_idx = snd st
      in bindE (deref (span_objs hp) s) (\<lambda>sp.
         bindE (deref_list (load_objs hp) (loads sp)) (\<lambda>ls.
           let L = span_length sp;
               f_local = fixed_end_reactions L ls;
               indices = indices_of current_node_idx
           in bindE (foldE (\<lambda>F i. vec_sub_at F (indices ! i) (f_local ! i)) F [0, 1, 2, 3]) (\<lambda>F'.
                Inr (F', current_node_idx + 1)))))"

definition assemble_load_vector :: "heap \<Rightarrow> Beam \<Rightarrow> exn + real list" where
  "assemble_load_vector hp B =
     (let n_dofs = length (nodes B) * 2
      in bindE (foldE (load_step hp) (zeros n_dofs, 0) (spans B)) (\<lambda>st. Inr (fst st)))"

subsection \<open>Boundary conditions and solution\<close>

definition free_dofs_step :: "heap \<Rightarrow> nat \<times> nat list \<Rightarrow> ref \<Rightarrow> exn + (nat \<times> nat list)" where
  "free_dofs_step hp st nref =
     (let i = fst st; free_dofs = snd st
      in bindE (deref (node_objs hp) nref) (\<lambda>node.
         bindE (py_index (support_conditions node) 0) (\<lambda>c0.
           let free1 = (if \<not> c0 then free_dofs @ [2 * i] else free_dofs)
           in bindE (py_index (support_conditions node) 1) (\<lambda>c1.
                let free2 = (if \<not> c1 then free1 @ [2 * i + 1] else free1)
                in Inr (i + 1, free2)))))"

definition free_dofs_of :: "heap \<Rightarrow> Beam \<Rightarrow> exn + nat list" where
  "free_dofs_of hp B = bindE (foldE (free_dofs_step hp) (0, []) (nodes B)) (\<lambda>st. Inr (snd st))"

text \<open>
  \<^verbatim>\<open>K_global[np.ix_(free_dofs, free_dofs)]\<close> and \<^verbatim>\<open>F_global[free_dofs]\<close>. The free degrees
  of freedom are below \<open>2 * len(nodes)\<close>, the size of the global matrix, so the reads are
  in range.
\<close>

definition K_reduced_of :: "real list list \<Rightarrow> nat list \<Rightarrow> real list list" where
  "K_reduced_of K free_dofs = map (\<lambda>i. map (\<lambda>j. K ! i ! j) free_dofs) free_dofs"

definition F_reduced_of :: "real list \<Rightarrow> nat list \<Rightarrow> real list" where
  "F_reduced_of F free_dofs = map (\<lambda>i. F ! i) free_dofs"

text \<open>\<^verbatim>\<open>np.put(displacements, free_dofs, u_reduced)\<close>.\<close>

definition np_put :: "real list \<Rightarrow> nat list \<Rightarrow> real list \<Rightarrow> real list" where
  "np_put d free_dofs u = foldl (\<lambda>d (i, x). d[i := x]) d (zip free_dofs u)"

text \<open>
  The system the solver hands to \<^verbatim>\<open>np.linalg.solve\<close>: the reduced matrix, the reduced
  load vector and the free degrees of freedom, after the checks of the constructor and
  of \<^verbatim>\<open>solve\<close> and the two assemblies.
\<close>

definition reduced_system :: "heap \<Rightarrow> ref \<Rightarrow> exn + (real list list \<times> real list \<times> nat list)" where
  "reduced_system hp beam =
     bindE (deref (beam_objs hp) beam) (\<lambda>B.
       if nodes B = [] then Inl ValueError
       else if spans B = [] then Inl ValueError
       else
         bindE (assemble_stiffness_matrix hp B) (\<lambda>K_global.
         bindE (assemble_load_vector hp B) (\<lambda>F_global.
         bindE (free_dofs_of hp B) (\<lambda>free_dofs.
           Inr (K_reduced_of K_global free_dofs, F_reduced_of F_global free_dofs, free_dofs)))))"

definition solve_system :: "nat \<Rightarrow> real list list \<times> real list \<times> nat list \<Rightarrow> exn + real list" where
  "solve_system n_dofs sys =
     (case sys of (K_reduced, F_reduced, free_dofs) \<Rightarrow>
        (case linalg_solve K_reduced F_reduced of
           None \<Rightarrow> Inl SingularMatrixException
         | Some u_reduced \<Rightarrow> Inr (np_put (zeros n_dofs) free_dofs u_reduced)))"

subsection \<open>Internal forces\<close>

fun index_list :: "real list \<Rightarrow> nat list \<Rightarrow> exn + real list" where
  "index_list d [] = Inr []"
| "index_list d (i # is) =
     bindE (py_index d i) (\<lambda>x. bindE (index_list d is) (\<lambda>xs. Inr (x # xs)))"

definition internal_step :: "real list \<Rightarrow> heap \<times> nat \<Rightarrow> ref \<Rightarrow> exn + (heap \<times> nat)" where
  "internal_step displacements st s =
     (let hp = fst st; current_node_idx = snd st
      in bindE (deref (span_objs hp) s) (\<lambda>sp.
         bindE (deref (section_objs hp) (span_section sp)) (\<lambda>sec.
           case span_EIL sp sec of (E, I, L) \<Rightarrow>
             bindE (local_stiffness E I L) (\<lambda>k_local.
             bindE (index_list displacements (indices_of current_node_idx)) (\<lambda>u_elem.
             bindE (deref_list (load_objs hp) (loads sp)) (\<lambda>ls.
               let f_disp = mat_vec k_local u_elem;
                   f_fixed = fixed_end_reactions L ls;
                   f_final = map (\<lambda>(a, b). a + b) (zip f_disp f_fixed)
               in Inr (hp\<lparr>span_objs := (span_objs hp)(s \<mapsto>
                         sp\<lparr>shear_left := f_final ! 0, moment_left := f_final ! 1,
                            shear_right := - (f_final ! 2), moment_right := - (f_final ! 3)\<rparr>)\<rparr>,
                       current_node_idx + 1)))))))"

definition compute_internal_forces :: "heap \<Rightarrow> Beam \<Rightarrow> real list \<Rightarrow> exn + heap" where
  "compute_internal_forces hp B displacements =
     bindE (foldE (internal_step displacements) (hp, 0) (spans B)) (\<lambda>st. Inr (fst st))"

text \<open>\<^verbatim>\<open>MatrixSolver(beam).solve()\<close>: the constructor and the four steps.\<close>

definition MatrixSolver_solve :: "heap \<Rightarrow> ref \<Rightarrow> exn + heap" where
  "MatrixSolver_solve hp beam =
     bindE (reduced_system hp beam) (\<lambda>sys.
     bindE (deref (beam_objs hp) beam) (\<lambda>B.
     bindE (solve_system (length (nodes B) * 2) sys) (\<lambda>displacements.
       compute_internal_forces hp B displacements)))"

section \<open>The end-to-end scenario\<close>

text \<open>
  \<^verbatim>\<open>span.loads.append(Load(...))\<close>, the way the importer attaches a load to a span.
\<close>

definition append_load :: "heap \<Rightarrow> ref \<Rightarrow> Load \<Rightarrow> exn + heap" where
  "append_load hp s l =
     bindE (deref (span_objs hp) s) (\<lambda>sp.
       let (hp1, r) = new_Load hp l
       in Inr (hp1\<lparr>span_objs := (span_objs hp1)(s \<mapsto> sp\<lparr>loads := loads sp @ [r]\<rparr>)\<rparr>))"

text \<open>
  The end-to-end scenario: the beam of one 6 m span with a distributed load of 15 kN/m
  (object 5) on it.
\<close>

definition load_15_6m :: Load where
  "load_15_6m = \<lparr>load_type = DISTRIBUTED, load_value = 15, position_start = 0, position_end = 6,
                 source = ''Manual''\<rparr>"

definition hp_loaded :: heap where
  "hp_loaded = hp_one_span\<lparr>next_ref := 6, load_objs := [5 \<mapsto> load_15_6m],
                  span_objs := [4 \<mapsto> span_6m\<lparr>loads := [5]\<rparr>]\<rparr>"

definition B_one :: Beam where
  "B_one = \<lparr>beam_id = ''V1'', spans = [4], nodes = [2, 3], direction_vector = (1, 0)\<rparr>"

definition span_solved :: BeamSpan where
  "span_solved = span_6m\<lparr>loads := [5], shear_left := 45, moment_left := 0,
                         shear_right := - 45, moment_right := 0\<rparr>"

definition hp_solved :: heap where
  "hp_solved = hp_loaded\<lparr>span_objs := [4 \<mapsto> span_solved]\<rparr>"

definition As_6m :: real where
  "As_6m = (94.5 * 100) / (lever_arm 46 (kmd_of 94.5 20 46 (15/7)) * (1000/23))"

section \<open>Programs that keep the heap when they raise\<close>

text \<open>
  A \<^verbatim>\<open>try\<close> block observes the heap as the exception left it. A program is a function from
  the heap to the heap it leaves and either the exception raised or the value returned.
\<close>

type_synonym 'a prog = "heap \<Rightarrow> heap \<times> (exn + 'a)"

definition returnS :: "'a \<Rightarrow> 'a prog" where
  "returnS x hp = (hp, Inr x)"

definition bindS :: "'a prog \<Rightarrow> ('a \<Rightarrow> 'b prog) \<Rightarrow> 'b prog" where
  "bindS m f hp = (case m hp of (hp', Inl e) \<Rightarrow> (hp', Inl e) | (hp', Inr x) \<Rightarrow> f x hp')"

text \<open>A computation that only reads the heap.\<close>

definition readS :: "(heap \<Rightarrow> exn + 'a) \<Rightarrow> 'a prog" where
  "readS f hp = (hp, f hp)"

text \<open>
  A step that raises before it writes: on an exception the heap is the one it started
  from. The steps of the engines have this form, a computation followed by one
  assignment.
\<close>

definition stepS :: "(heap \<Rightarrow> exn + (heap \<times> 'a)) \<Rightarrow> 'a prog" where
  "stepS f hp = (case f hp of Inl e \<Rightarrow> (hp, Inl e) | Inr (hp', x) \<Rightarrow> (hp', Inr x))"

definition writeS :: "(heap \<Rightarrow> exn + heap) \<Rightarrow> unit prog" where
  "writeS f = stepS (\<lambda>hp. bindE (f hp) (\<lambda>hp'. Inr (hp', ())))"

fun foldS :: "('b \<Rightarrow> 'a \<Rightarrow> 'b prog) \<Rightarrow> 'b \<Rightarrow> 'a list \<Rightarrow> 'b prog" where
  "foldS f acc [] = returnS acc"
| "foldS f acc (x # xs) = bindS (f acc x) (\<lambda>acc'. foldS f acc' xs)"

text \<open>\<^verbatim>\<open>try: body  except Exception as e: handler(e)\<close>.\<close>

definition catchS :: "'a prog \<Rightarrow> (exn \<Rightarrow> 'a prog) \<Rightarrow> 'a prog" where
  "catchS body handler hp =
     (case body hp of (hp', Inl e) \<Rightarrow> handler e hp' | (hp', Inr x) \<Rightarrow> (hp', Inr x))"

subsection \<open>The three stages as programs\<close>

text \<open>
  The stages of the pipeline again, built from the same steps as above, now leaving the
  heap of the moment when a step raises.
\<close>

definition compute_internal_forces_S :: "Beam \<Rightarrow> real list \<Rightarrow> unit prog" where
  "compute_internal_forces_S B displacements =
     bindS (foldS (\<lambda>idx s. stepS (\<lambda>hp. internal_step displacements (hp, idx) s)) 0 (spans B))
       (\<lambda>idx. returnS ())"

definition MatrixSolver_solve_S :: "ref \<Rightarrow> unit prog" where
  "MatrixSolver_solve_S beam =
     bindS (readS (\<lambda>hp. reduced_system hp beam)) (\<lambda>sys.
     bindS (readS (\<lambda>hp. deref (beam_objs hp) beam)) (\<lambda>B.
     bindS (readS (\<lambda>hp. solve_system (length (nodes B) * 2) sys)) (\<lambda>displacements.
       compute_internal_forces_S B displacements)))"

definition design_span_S :: "ELUDesignEngine \<Rightarrow> ref \<Rightarrow> unit prog" where
  "design_span_S eng s =
     bindS (writeS (\<lambda>hp. design_flexure eng hp s)) (\<lambda>u. writeS (\<lambda>hp. design_shear eng hp s))"

definition run_design_S :: "ELUDesignEngine \<Rightarrow> ref \<Rightarrow> unit prog" where
  "run_design_S eng beam =
     bindS (readS (\<lambda>hp. deref (beam_objs hp) beam)) (\<lambda>B.
       foldS (\<lambda>u s. design_span_S eng s) () (spans B))"

definition run_checks_S :: "ELSCheckerEngine \<Rightarrow> ref \<Rightarrow> (string list) prog" where
  "run_checks_S eng beam =
     bindS (readS (\<lambda>hp. deref (beam_objs hp) beam)) (\<lambda>B.
       foldS (\<lambda>out s. stepS (\<lambda>hp. check_span eng (beam_id B) (hp, out) s)) [] (spans B))"

section \<open>Optimizer (optimizer.py)\<close>

subsection \<open>copy.deepcopy of a beam\<close>

text \<open>
  \<^verbatim>\<open>copy.deepcopy\<close> is Python's library. It creates a new object for every object reachable
  from its argument and keeps a memo from old to new objects, so that an object reached
  twice (the node between two spans, a section or a load that several spans refer to) is
  copied once. The order in which the copies are created is not observable and is taken
  children first. The result dictionaries and the material of a span are held by value
  in the span and are copied with it.
\<close>

record memo =
  m_nodes :: "ref \<rightharpoonup> ref"
  m_sections :: "ref \<rightharpoonup> ref"
  m_loads :: "ref \<rightharpoonup> ref"
  m_spans :: "ref \<rightharpoonup> ref"

definition empty_memo :: memo where
  "empty_memo = \<lparr>m_nodes = Map.empty, m_sections = Map.empty, m_loads = Map.empty,
                 m_spans = Map.empty\<rparr>"

definition copy_node :: "memo \<Rightarrow> ref \<Rightarrow> (memo \<times> ref) prog" where
  "copy_node m r =
     (case m_nodes m r of
        Some r' \<Rightarrow> returnS (m, r')
      | None \<Rightarrow> stepS (\<lambda>hp. bindE (deref (node_objs hp) r) (\<lambda>n.
                  let (hp', r') = new_Node hp n
                  in Inr (hp', (m\<lparr>m_nodes := (m_nodes m)(r \<mapsto> r')\<rparr>, r')))))"

definition copy_section :: "memo \<Rightarrow> ref \<Rightarrow> (memo \<times> ref) prog" where
  "copy_section m r =
     (case m_sections m r of
        Some r' \<Rightarrow> returnS (m, r')
      | None \<Rightarrow> stepS (\<lambda>hp. bindE (deref (section_objs hp) r) (\<lambda>s.
                  let (hp', r') = new_CrossSection hp s
                  in Inr (hp', (m\<lparr>m_sections := (m_sections m)(r \<mapsto> r')\<rparr>, r')))))"

definition copy_load :: "memo \<Rightarrow> ref \<Rightarrow> (memo \<times> ref) prog" where
  "copy_load m r =
     (case m_loads m r of
        Some r' \<Rightarrow> returnS (m, r')
      | None \<Rightarrow> stepS (\<lambda>hp. bindE (deref (load_objs hp) r) (\<lambda>l.
                  let (hp', r') = new_Load hp l
                  in Inr (hp', (m\<lparr>m_loads := (m_loads m)(r \<mapsto> r')\<rparr>, r')))))"

text \<open>Copying a list of references, and an optional reference.\<close>

definition copy_list :: "(memo \<Rightarrow> ref \<Rightarrow> (memo \<times> ref) prog) \<Rightarrow> memo \<Rightarrow> ref list \<Rightarrow> (memo \<times> ref list) prog" where
  "copy_list cp m rs =
     foldS (\<lambda>(m1, acc) r. bindS (cp m1 r) (\<lambda>(m2, r'). returnS (m2, acc @ [r']))) (m, []) rs"

definition copy_opt :: "(memo \<Rightarrow> ref \<Rightarrow> (memo \<times> ref) prog) \<Rightarrow> memo \<Rightarrow> ref option \<Rightarrow> (memo \<times> ref option) prog" where
  "copy_opt cp m ro =
     (case ro of
        None \<Rightarrow> returnS (m, None)
      | Some r \<Rightarrow> bindS (cp m r) (\<lambda>(m2, r'). returnS (m2, Some r')))"

definition copy_span :: "memo \<Rightarrow> ref \<Rightarrow> (memo \<times> ref) prog" where
  "copy_span m r =
     (case m_spans m r of
        Some r' \<Rightarrow> returnS (m, r')
      | None \<Rightarrow>
          bindS (readS (\<lambda>hp. deref (span_objs hp) r)) (\<lambda>sp.
          bindS (copy_section m (span_section sp)) (\<lambda>(m1, sec').
          bindS (copy_list copy_load m1 (loads sp)) (\<lambda>(m2, ls').
          bindS (copy_opt copy_node m2 (start_node sp)) (\<lambda>(m3, sn').
          bindS (copy_opt copy_node m3 (end_node sp)) (\<lambda>(m4, en').
            (\<lambda>hp. let (hp', r') = new_BeamSpan hp (sp\<lparr>span_section := sec', loads := ls',
                                                      start_node := sn', end_node := en'\<rparr>)
                  in (hp', Inr (m4\<lparr>m_spans := (m_spans m4)(r \<mapsto> r')\<rparr>, r')))))))))"

definition alloc_Beam :: "heap \<Rightarrow> Beam \<Rightarrow> heap \<times> ref" where
  "alloc_Beam hp B = (hp\<lparr>next_ref := Suc (next_ref hp),
                          beam_objs := (beam_objs hp)(next_ref hp \<mapsto> B)\<rparr>, next_ref hp)"

definition deepcopy_beam :: "ref \<Rightarrow> ref prog" where
  "deepcopy_beam beam =
     bindS (readS (\<lambda>hp. deref (beam_objs hp) beam)) (\<lambda>B.
     bindS (copy_list copy_span empty_memo (spans B)) (\<lambda>(m1, ss').
     bindS (copy_list copy_node m1 (nodes B)) (\<lambda>(m2, ns').
       (\<lambda>hp. let (hp', b') = alloc_Beam hp (B\<lparr>spans := ss', nodes := ns'\<rparr>)
             in (hp', Inr b')))))"

section \<open>The solver in double precision\<close>

text \<open>
  The model above evaluates the solver over the reals. Whether \<^verbatim>\<open>np.linalg.solve\<close> finds a
  matrix singular is decided in IEEE double arithmetic, where it depends on the rounding
  of the entries, so this section evaluates \<^verbatim>\<open>solve\<close> once more with every float operation
  rounded. \<open>fl x\<close> is the double nearest to \<open>x\<close>, ties to the even mantissa; 53 bits of
  mantissa, the exponent range taken unbounded (no overflow, no subnormal numbers).
\<close>

definition fl :: "real \<Rightarrow> real" where
  "fl x = (if x = 0 then 0
           else (let e = \<lfloor>log 2 \<bar>x\<bar>\<rfloor> - 52
                 in of_int (round_half_even (x / 2 powr (of_int e))) * 2 powr (of_int e)))"

text \<open>
  \<^verbatim>\<open>CrossSection.inertia\<close>, \<^verbatim>\<open>(self.bw * (self.h ** 3)) / 12\<close>, and the three quantities
  \<^verbatim>\<open>E = span.material.Ecs * 1000\<close>, \<^verbatim>\<open>I = span.section.inertia * 1e-8\<close>, \<^verbatim>\<open>L = span.length\<close>. The
  literal \<^verbatim>\<open>1e-8\<close> is the double nearest to \<open>10^-8\<close>.
\<close>

definition inertia_fl :: "CrossSection \<Rightarrow> real" where
  "inertia_fl s = fl (fl (sec_bw s * fl (sec_h s ^ 3)) / 12)"

definition span_EIL_fl :: "BeamSpan \<Rightarrow> CrossSection \<Rightarrow> real \<times> real \<times> real" where
  "span_EIL_fl sp sec =
     (fl (Ecs (material sp) * 1000), fl (inertia_fl sec * fl (1 / 10 ^ 8)), span_length sp)"

text \<open>
  \<^verbatim>\<open>(E * I / (L**3)) * np.array([...])\<close>: the scalar is computed first, from left to right,
  then multiplied into every entry of the array.
\<close>

definition local_stiffness_fl :: "real \<Rightarrow> real \<Rightarrow> real \<Rightarrow> exn + real list list" where
  "local_stiffness_fl E I L =
     (if fl (L ^ 3) = 0 then Inl ZeroDivisionError
      else
        (let c = fl (fl (E * I) / fl (L ^ 3))
         in Inr (map (map (\<lambda>x. fl (c * x)))
              [[12, fl (6 * L), - 12, fl (6 * L)],
               [fl (6 * L), fl (4 * fl (L ^ 2)), fl (- 6 * L), fl (2 * fl (L ^ 2))],
               [- 12, fl (- 6 * L), 12, fl (- 6 * L)],
               [fl (6 * L), fl (2 * fl (L ^ 2)), fl (- 6 * L), fl (4 * fl (L ^ 2))]])))"

definition mat_add_at_fl :: "real list list \<Rightarrow> nat \<Rightarrow> nat \<Rightarrow> real \<Rightarrow> exn + real list list" where
  "mat_add_at_fl K i j a =
     (if i < length K \<and> j < length (K ! i)
      then Inr (K[i := (K ! i)[j := fl (K ! i ! j + a)]])
      else Inl IndexError)"

definition vec_sub_at_fl :: "real list \<Rightarrow> nat \<Rightarrow> real \<Rightarrow> exn + real list" where
  "vec_sub_at_fl F i a = (if i < length F then Inr (F[i := fl (F ! i - a)]) else Inl IndexError)"

definition add_row_fl :: "nat list \<Rightarrow> real list list \<Rightarrow> nat \<Rightarrow> real list list \<Rightarrow> nat \<Rightarrow> exn + real list list" where
  "add_row_fl idx k i K j = mat_add_at_fl K (idx ! i) (idx ! j) (k ! i ! j)"

definition add_local_fl :: "nat list \<Rightarrow> real list list \<Rightarrow> real list list \<Rightarrow> exn + real list list" where
  "add_local_fl idx k K = foldE (\<lambda>K i. foldE (add_row_fl idx k i) K [0, 1, 2, 3]) K [0, 1, 2, 3]"

definition stiffness_step_fl :: "heap \<Rightarrow> real list list \<times> nat \<Rightarrow> ref \<Rightarrow> exn + (real list list \<times> nat)" where
  "stiffness_step_fl hp st s =
     (let K = fst st; current_node_idx = snd st
      in bindE (deref (span_objs hp) s) (\<lambda>sp.
         bindE (deref (section_objs hp) (span_section sp)) (\<lambda>sec.
           case span_EIL_fl sp sec of (E, I, L) \<Rightarrow>
             bindE (local_stiffness_fl E I L) (\<lambda>k.
             bindE (add_local_fl (indices_of current_node_idx) k K) (\<lambda>K'.
               Inr (K', current_node_idx + 1))))))"

definition assemble_stiffness_matrix_fl :: "heap \<Rightarrow> Beam \<Rightarrow> exn + real list list" where
  "assemble_stiffness_matrix_fl hp B =
     (let n_dofs = length (nodes B) * 2
      in bindE (foldE (stiffness_step_fl hp) (zeros2 n_dofs n_dofs, 0) (spans B)) (\<lambda>st. Inr (fst st)))"

text \<open>
  The fixed-end reactions \<^verbatim>\<open>q * L / 2\<close>, \<^verbatim>\<open>q * (L**2) / 12\<close> and \<^verbatim>\<open>-q * (L**2) / 12\<close>, added to
  \<^verbatim>\<open>f_local\<close>.
\<close>

definition add_fixed_end_fl :: "real \<Rightarrow> real list \<Rightarrow> Load \<Rightarrow> real list" where
  "add_fixed_end_fl L f l =
     (if load_type l = DISTRIBUTED then
        (let q = load_value l
         in [fl (f ! 0 + fl (fl (q * L) / 2)), fl (f ! 1 + fl (fl (q * fl (L ^ 2)) / 12)),
             fl (f ! 2 + fl (fl (q * L) / 2)), fl (f ! 3 + fl (fl (- q * fl (L ^ 2)) / 12))])
      else f)"

definition fixed_end_reactions_fl :: "real \<Rightarrow> Load list \<Rightarrow> real list" where
  "fixed_end_reactions_fl L ls = foldl (add_fixed_end_fl L) (zeros 4) ls"

definition load_step_fl :: "heap \<Rightarrow> real list \<times> nat \<Rightarrow> ref \<Rightarrow> exn + (real list \<times> nat)" where
  "load_step_fl hp st s =
     (let F = fst st; current_node_idx = snd st
      in bindE (deref (span_objs hp) s) (\<lambda>sp.
         bindE (deref_list (load_objs hp) (loads sp)) (\<lambda>ls.
           let L = span_length sp;
               f_local = fixed_end_reactions_fl L ls;
               indices = indices_of current_node_idx
           in bindE (foldE (\<lambda>F i. vec_sub_at_fl F (indices ! i) (f_local ! i)) F [0, 1, 2, 3]) (\<lambda>F'.
                Inr (F', current_node_idx + 1)))))"

definition assemble_load_vector_fl :: "heap \<Rightarrow> Beam \<Rightarrow> exn + real list" where
  "assemble_load_vector_fl hp B =
     (let n_dofs = length (nodes B) * 2
      in bindE (foldE (load_step_fl hp) (zeros n_dofs, 0) (spans B)) (\<lambda>st. Inr (fst st)))"

definition reduced_system_fl :: "heap \<Rightarrow> ref \<Rightarrow> exn + (real list list \<times> real list \<times> nat list)" where
  "reduced_system_fl hp beam =
     bindE (deref (beam_objs hp) beam) (\<lambda>B.
       if nodes B = [] then Inl ValueError
       else if spans B = [] then Inl ValueError
       else
         bindE (assemble_stiffness_matrix_fl hp B) (\<lambda>K_global.
         bindE (assemble_load_vector_fl hp B) (\<lambda>F_global.
         bindE (free_dofs_of hp B) (\<lambda>free_dofs.
           Inr (K_reduced_of K_global free_dofs, F_reduced_of F_global free_dofs, free_dofs)))))"

text \<open>
  The linear solve in doubles: the elimination of \<open>gauss\<close> with every quotient, product
  and difference rounded. It fails, as LAPACK does, when the pivot it arrives at is
  exactly zero. LAPACK is not code of this repository and the order of its operations is
  not fixed by it; the sums are taken from left to right.
\<close>

fun dot_fl :: "real list \<Rightarrow> real list \<Rightarrow> real" where
  "dot_fl (x # xs) (y # ys) = fl (fl (x * y) + dot_fl xs ys)"
| "dot_fl xs ys = 0"

definition eliminate_fl :: "real list \<times> real \<Rightarrow> real list \<times> real \<Rightarrow> real list \<times> real" where
  "eliminate_fl p r =
     (let m = fl (hd (fst r) / hd (fst p))
      in (map (\<lambda>(a, b). fl (a - fl (m * b))) (zip (tl (fst r)) (tl (fst p))),
          fl (snd r - fl (m * snd p))))"

fun gauss_fl :: "nat \<Rightarrow> (real list \<times> real) list \<Rightarrow> real list option" where
  "gauss_fl 0 rows = Some []"
| "gauss_fl (Suc n) rows =
     (case pivot_split rows of
        None \<Rightarrow> None
      | Some (p, rest) \<Rightarrow>
          if hd (fst p) = 0 then None
          else (case gauss_fl n (map (eliminate_fl p) rest) of
                  None \<Rightarrow> None
                | Some xs \<Rightarrow> Some (fl (fl (snd p - dot_fl (tl (fst p)) xs) / hd (fst p)) # xs)))"

definition linalg_solve_fl :: "real list list \<Rightarrow> real list \<Rightarrow> real list option" where
  "linalg_solve_fl A b = gauss_fl (length A) (zip A b)"

definition solve_system_fl :: "nat \<Rightarrow> real list list \<times> real list \<times> nat list \<Rightarrow> exn + real list" where
  "solve_system_fl n_dofs sys =
     (case sys of (K_reduced, F_reduced, free_dofs) \<Rightarrow>
        (case linalg_solve_fl K_reduced F_reduced of
           None \<Rightarrow> Inl SingularMatrixException
         | Some u_reduced \<Rightarrow> Inr (np_put (zeros n_dofs) free_dofs u_reduced)))"

text \<open>\<^verbatim>\<open>np.dot(k_local, u_elem)\<close> and \<^verbatim>\<open>f_final = f_disp + f_fixed\<close>.\<close>

definition internal_step_fl :: "real list \<Rightarrow> heap \<times> nat \<Rightarrow> ref \<Rightarrow> exn + (heap \<times> nat)" where
  "internal_step_fl displacements st s =
     (let hp = fst st; current_node_idx = snd st
      in bindE (deref (span_objs hp) s) (\<lambda>sp.
         bindE (deref (section_objs hp) (span_section sp)) (\<lambda>sec.
           case span_EIL_fl sp sec of (E, I, L) \<Rightarrow>
             bindE (local_stiffness_fl E I L) (\<lambda>k_local.
             bindE (index_list displacements (indices_of current_node_idx)) (\<lambda>u_elem.
             bindE (deref_list (load_objs hp) (loads sp)) (\<lambda>ls.
               let f_disp = map (\<lambda>row. dot_fl row u_elem) k_local;
                   f_fixed = fixed_end_reactions_fl L ls;
                   f_final = map (\<lambda>(a, b). fl (a + b)) (zip f_disp f_fixed)
               in Inr (hp\<lparr>span_objs := (span_objs hp)(s \<mapsto>
                         sp\<lparr>shear_left := f_final ! 0, moment_left := f_final ! 1,
                            shear_right := - (f_final ! 2), moment_right := - (f_final ! 3)\<rparr>)\<rparr>,
                       current_node_idx + 1)))))))"

definition compute_internal_forces_fl :: "heap \<Rightarrow> Beam \<Rightarrow> real list \<Rightarrow> exn + heap" where
  "compute_internal_forces_fl hp B displacements =
     bindE (foldE (internal_step_fl displacements) (hp, 0) (spans B)) (\<lambda>st. Inr (fst st))"

definition MatrixSolver_solve_fl :: "heap \<Rightarrow> ref \<Rightarrow> exn + heap" where
  "MatrixSolver_solve_fl hp beam =
     bindE (reduced_system_fl hp beam) (\<lambda>sys.
     bindE (deref (beam_objs hp) beam) (\<lambda>B.
     bindE (solve_system_fl (length (nodes B) * 2) sys) (\<lambda>displacements.
       compute_internal_forces_fl hp B displacements)))"

text \<open>
  A span of 5 m, pinned at its start and free at its end, with a distributed load of
  15 kN/m: a mechanism, the span turns about the pin. \<^verbatim>\<open>add_span\<close> with
  \<^verbatim>\<open>end_support=SupportType.FREE\<close> and a load append build it.
\<close>

definition call_pinned_free :: add_span_args where
  "call_pinned_free = call_6m\<lparr>arg_length := 5, arg_end_support := FREE\<rparr>"

definition load_15_5m :: Load where
  "load_15_5m = \<lparr>load_type = DISTRIBUTED, load_value = 15, position_start = 0, position_end = 5,
                 source = ''Manual''\<rparr>"

definition span_5m :: BeamSpan where
  "span_5m = span_6m\<lparr>span_length := 5\<rparr>"

definition hp_pinned_free :: heap where
  "hp_pinned_free = \<lparr>next_ref = 6,
      node_objs = [2 \<mapsto> \<lparr>node_id = 0, node_x = 0, node_y = 0, node_z = 0,
                           support_conditions = [True, False]\<rparr>,
                   3 \<mapsto> \<lparr>node_id = 1, node_x = 5, node_y = 0, node_z = 0,
                           support_conditions = [False, False]\<rparr>],
      section_objs = [0 \<mapsto> sec_20x50], load_objs = [5 \<mapsto> load_15_5m],
      span_objs = [4 \<mapsto> span_5m\<lparr>loads := [5]\<rparr>],
      beam_objs = [1 \<mapsto> B_one]\<rparr>"

text \<open>
  The state in which \<^verbatim>\<open>solve\<close> leaves that span in double arithmetic: a left shear of
  133.5 kN under a total load of 75 kN.
\<close>

definition span_5m_solved :: BeamSpan where
  "span_5m_solved = span_5m\<lparr>loads := [5], shear_left := 133.5, moment_left := 31.25,
                            shear_right := 58.5, moment_right := - 96.75\<rparr>"

definition hp_pinned_free_solved :: heap where
  "hp_pinned_free_solved = hp_pinned_free\<lparr>span_objs := [4 \<mapsto> span_5m_solved]\<rparr>"

subsection \<open>OptimizerEngine\<close>

record OptimizerEngine =
  cost_concrete_m3 :: real
  cost_steel_kg :: real
  cost_formwork_m2 :: real

definition OptimizerEngine_default :: OptimizerEngine where
  "OptimizerEngine_default = \<lparr>cost_concrete_m3 = 450.0, cost_steel_kg = 12.0,
                               cost_formwork_m2 = 80.0\<rparr>"

text \<open>\<^verbatim>\<open>[h for h in range(30, 85, 5)]\<close>\<close>

definition test_heights :: "int list" where
  "test_heights = [30, 35, 40, 45, 50, 55, 60, 65, 70, 75, 80]"

text \<open>
  An entry of \<^verbatim>\<open>results\<close>: a dictionary with the keys \<^verbatim>\<open>h\<close>, \<^verbatim>\<open>status\<close> and \<^verbatim>\<open>cost\<close>, and for a
  trial that went through also \<^verbatim>\<open>steel_kg\<close>, \<^verbatim>\<open>conc_m3\<close> and \<^verbatim>\<open>as_pos\<close>.
\<close>

record trial =
  t_h :: int
  t_status :: string
  t_cost :: real
  t_steel_kg :: "real option"
  t_conc_m3 :: "real option"
  t_as_pos :: "dval option"

definition peso_proprio :: string where
  "peso_proprio = ''Peso Pr'' @ [CHR 0xC3, CHR 0xB3] @ ''prio''"

text \<open>Step 2 of a trial: \<^verbatim>\<open>span.section.h = float(h_test)\<close> and the self-weight loads.\<close>

definition set_height :: "real \<Rightarrow> ref \<Rightarrow> unit prog" where
  "set_height h s =
     writeS (\<lambda>hp.
       bindE (deref (span_objs hp) s) (\<lambda>sp.
       bindE (deref (section_objs hp) (span_section sp)) (\<lambda>sec.
         Inr (hp\<lparr>section_objs := (section_objs hp)(span_section sp \<mapsto> sec\<lparr>sec_h := h\<rparr>)\<rparr>))))"

definition update_self_weight :: "ref \<Rightarrow> ref \<Rightarrow> unit prog" where
  "update_self_weight s l =
     writeS (\<lambda>hp.
       bindE (deref (load_objs hp) l) (\<lambda>ld.
         if source ld = peso_proprio then
           bindE (deref (span_objs hp) s) (\<lambda>sp.
           bindE (deref (section_objs hp) (span_section sp)) (\<lambda>sec.
             let new_pp = (sec_bw sec / 100) * (sec_h sec / 100) * 25.0
             in Inr (hp\<lparr>load_objs := (load_objs hp)(l \<mapsto> ld\<lparr>load_value := new_pp\<rparr>)\<rparr>)))
         else Inr hp))"

definition apply_geometry :: "int \<Rightarrow> ref \<Rightarrow> unit prog" where
  "apply_geometry h_test trial_beam =
     bindS (readS (\<lambda>hp. deref (beam_objs hp) trial_beam)) (\<lambda>B.
       foldS (\<lambda>u s.
           bindS (set_height (of_int h_test) s) (\<lambda>u.
           bindS (readS (\<lambda>hp. deref (span_objs hp) s)) (\<lambda>sp.
             foldS (\<lambda>u l. update_self_weight s l) () (loads sp))))
         () (spans B))"

text \<open>
  Step D, the quantities of one span that passed the serviceability check. \<open>bw\<close> is the
  web width read from the first span of the original beam, \<open>h_test\<close> the height under
  test; the selector is called with its default cover (25 mm) and concrete (25 MPa).
\<close>

record quantities =
  total_steel_kg :: real
  total_conc_vol :: real
  total_form_area :: real

definition span_quantities ::
  "int \<Rightarrow> real \<Rightarrow> BeamSpan \<Rightarrow> CrossSection \<Rightarrow> (string \<rightharpoonup> dval) \<Rightarrow> quantities \<Rightarrow> exn + quantities" where
  "span_quantities h_test bw sp sec res q =
     bindE (get_num res ''As_inf_vao'' 0) (\<lambda>as_inf.
     bindE (select_longitudinal as_inf (sec_bw sec) 25.0 False 25.0) (\<lambda>det_pos.
     bindE (get_num res ''As_sup_esq'' 0) (\<lambda>as_esq.
     bindE (select_longitudinal as_esq (sec_bw sec) 25.0 True 25.0) (\<lambda>det_neg_esq.
     bindE (get_num res ''As_sup_dir'' 0) (\<lambda>as_dir.
     bindE (select_longitudinal as_dir (sec_bw sec) 25.0 True 25.0) (\<lambda>det_neg_dir.
     bindE (get_num res ''Asw_s_req'' 0) (\<lambda>asw.
       let det_shear = select_stirrup asw (sec_bw sec) (sec_h sec);
           L = span_length sp;
           steel0 = total_steel_kg q;
           steel1 = (if bar_count det_pos > 0
                     then steel0 + area_provided_cm2 det_pos * L * 0.785 else steel0);
           steel2 = (if bar_count det_neg_esq > 0
                     then steel1 + area_provided_cm2 det_neg_esq * (L / 4) * 0.785 else steel1);
           steel3 = (if bar_count det_neg_dir > 0
                     then steel2 + area_provided_cm2 det_neg_dir * (L / 4) * 0.785 else steel2)
       in bindE (if st_status det_shear = ''OK'' then
                   (let len_st = 2 * ((of_int h_test - 4) + (bw - 4)) + 15.0
                    in bindE (py_div (L * 100) (spacing_cm det_shear)) (\<lambda>num_st.
                       let area_st_unit = 2 * 3.1416 * ((st_diameter_mm det_shear / 10) / 2)\<^sup>2
                       in Inr (steel3 + (num_st * len_st / 100) * (area_st_unit * 0.785))))
                 else Inr steel3) (\<lambda>steel4.
            Inr \<lparr>total_steel_kg = steel4,
                 total_conc_vol = total_conc_vol q + (bw / 100) * (of_int h_test / 100) * L,
                 total_form_area = total_form_area q
                                   + (2 * (of_int h_test / 100) + (bw / 100)) * L\<rparr>))))))))"

text \<open>
  The loop over the spans of the trial beam. It stops (\<^verbatim>\<open>break\<close>) with \<open>valid_design = False\<close>
  at the first span whose crack or deflection status is not \<^verbatim>\<open>"OK"\<close>. A span without
  serviceability result has \<^verbatim>\<open>els_results = None\<close>, and reading \<^verbatim>\<open>status_crack\<close> from it
  raises.
\<close>

fun detail_loop ::
  "heap \<Rightarrow> int \<Rightarrow> real \<Rightarrow> quantities \<Rightarrow> ref list \<Rightarrow> exn + (bool \<times> quantities)" where
  "detail_loop hp h_test bw q [] = Inr (True, q)"
| "detail_loop hp h_test bw q (s # ss) =
     bindE (deref (span_objs hp) s) (\<lambda>sp.
       case els_results sp of
         None \<Rightarrow> Inl AttributeError
       | Some els \<Rightarrow>
           if status_crack els \<noteq> ''OK'' \<or> status_deflection els \<noteq> ''OK''
           then Inr (False, q)
           else (case design_results sp of
                   None \<Rightarrow> Inl AttributeError
                 | Some res \<Rightarrow>
                     bindE (deref (section_objs hp) (span_section sp)) (\<lambda>sec.
                     bindE (span_quantities h_test bw sp sec res q) (\<lambda>q'.
                       detail_loop hp h_test bw q' ss))))"

definition trial_failed :: "int \<Rightarrow> string \<Rightarrow> trial" where
  "trial_failed h_test st = \<lparr>t_h = h_test, t_status = st, t_cost = 99999,
                             t_steel_kg = None, t_conc_m3 = None, t_as_pos = None\<rparr>"

definition trial_ok :: "OptimizerEngine \<Rightarrow> int \<Rightarrow> quantities \<Rightarrow> dval \<Rightarrow> trial" where
  "trial_ok opt h_test q as_pos =
     (let cost_conc = total_conc_vol q * cost_concrete_m3 opt;
          cost_steel = total_steel_kg q * cost_steel_kg opt;
          cost_form = total_form_area q * cost_formwork_m2 opt;
          total_cost = cost_conc + cost_steel + cost_form
      in \<lparr>t_h = h_test, t_status = ''OK'', t_cost = py_round total_cost 2,
          t_steel_kg = Some (py_round (total_steel_kg q) 1),
          t_conc_m3 = Some (py_round (total_conc_vol q) 2),
          t_as_pos = Some as_pos\<rparr>)"

text \<open>
  \<^verbatim>\<open>span.design_results.get("As_inf_vao", 0)\<close> after the loop: \<^verbatim>\<open>span\<close> is the last span the loop
  went through. With no span the name is unbound.
\<close>

definition last_as_pos :: "heap \<Rightarrow> ref list \<Rightarrow> exn + dval" where
  "last_as_pos hp ss =
     (if ss = [] then Inl UnboundLocalError
      else bindE (deref (span_objs hp) (last ss)) (\<lambda>sp.
             case design_results sp of
               None \<Rightarrow> Inl AttributeError
             | Some res \<Rightarrow> (case res ''As_inf_vao'' of None \<Rightarrow> Inr (Num 0) | Some v \<Rightarrow> Inr v)))"

definition detailing :: "OptimizerEngine \<Rightarrow> int \<Rightarrow> real \<Rightarrow> ref \<Rightarrow> heap \<Rightarrow> exn + trial" where
  "detailing opt h_test bw trial_beam hp =
     bindE (deref (beam_objs hp) trial_beam) (\<lambda>B.
     bindE (detail_loop hp h_test bw
              \<lparr>total_steel_kg = 0.0, total_conc_vol = 0.0, total_form_area = 0.0\<rparr> (spans B))
       (\<lambda>(valid_design, q).
          if \<not> valid_design then Inr (trial_failed h_test ''Falha ELS'')
          else bindE (last_as_pos hp (spans B)) (\<lambda>as_pos. Inr (trial_ok opt h_test q as_pos))))"

text \<open>The body of the \<^verbatim>\<open>try\<close> statement: solver, design, checks, detailing.\<close>

definition try_body :: "OptimizerEngine \<Rightarrow> int \<Rightarrow> real \<Rightarrow> ref \<Rightarrow> trial prog" where
  "try_body opt h_test bw trial_beam =
     bindS (MatrixSolver_solve_S trial_beam) (\<lambda>u.
     bindS (run_design_S ELUDesignEngine_default trial_beam) (\<lambda>u.
     bindS (run_checks_S ELSCheckerEngine_default trial_beam) (\<lambda>out.
       readS (detailing opt h_test bw trial_beam))))"

text \<open>
  \<^verbatim>\<open>except Exception as e\<close> records the trial with the text of the exception, which is
  Python's and numpy's; \<open>exn_text\<close> stands for \<^verbatim>\<open>str\<close> on exceptions.
\<close>

definition run_trial ::
  "(exn \<Rightarrow> string) \<Rightarrow> OptimizerEngine \<Rightarrow> int \<Rightarrow> real \<Rightarrow> ref \<Rightarrow> trial prog" where
  "run_trial exn_text opt h_test bw trial_beam =
     catchS (try_body opt h_test bw trial_beam)
            (\<lambda>e. returnS (trial_failed h_test (''Erro Calc: '' @ exn_text e)))"

text \<open>One pass of the loop over the heights: clone, new geometry, trial.\<close>

definition height_step ::
  "(exn \<Rightarrow> string) \<Rightarrow> OptimizerEngine \<Rightarrow> ref \<Rightarrow> real \<Rightarrow> trial list \<Rightarrow> int \<Rightarrow> (trial list) prog" where
  "height_step exn_text opt original_beam bw results h_test =
     bindS (deepcopy_beam original_beam) (\<lambda>trial_beam.
     bindS (apply_geometry h_test trial_beam) (\<lambda>u.
     bindS (run_trial exn_text opt h_test bw trial_beam) (\<lambda>r.
       returnS (results @ [r]))))"

text \<open>\<^verbatim>\<open>min(valid_results, key=...)\<close> returns the first entry of least cost.\<close>

fun min_by_cost :: "trial \<Rightarrow> trial list \<Rightarrow> trial" where
  "min_by_cost b [] = b"
| "min_by_cost b (r # rs) = min_by_cost (if t_cost r < t_cost b then r else b) rs"

text \<open>\<^verbatim>\<open>next((r for r in results if r["h"] == h_orig), None)\<close>\<close>

definition original_of :: "real \<Rightarrow> trial list \<Rightarrow> trial option" where
  "original_of h_orig results = List.find (\<lambda>r. of_int (t_h r) = h_orig) results"

text \<open>
  The recommendation is a text; the model keeps the three numbers that the first form
  prints (the original height, the best height and the saving) and leaves their
  formatting out.
\<close>

datatype recommendation = Alterar real int real | Manter

record report =
  original :: "trial option"
  best :: trial
  all_trials :: "trial list"
  recommendation :: recommendation

datatype optimizer_result = NoViableSection | Report report

text \<open>\<open>NoViableSection\<close> is \<^verbatim>\<open>{"error": "Nenhuma secao viavel encontrada."}\<close>.\<close>

definition select_best :: "real \<Rightarrow> trial list \<Rightarrow> optimizer_result" where
  "select_best h_orig results =
     (case filter (\<lambda>r. t_status r = ''OK'') results of
        [] \<Rightarrow> NoViableSection
      | v # vs \<Rightarrow>
          (let best = min_by_cost v vs;
               original_res = original_of h_orig results
           in Report \<lparr>original = original_res, best = best, all_trials = results,
                      recommendation =
                        (case original_res of
                           Some r \<Rightarrow> if of_int (t_h best) \<noteq> h_orig
                                     then Alterar h_orig (t_h best) (t_cost r - t_cost best)
                                     else Manter
                         | None \<Rightarrow> Manter)\<rparr>))"

definition optimize_beam ::
  "(exn \<Rightarrow> string) \<Rightarrow> OptimizerEngine \<Rightarrow> ref \<Rightarrow> optimizer_result prog" where
  "optimize_beam exn_text opt original_beam =
     bindS (readS (\<lambda>hp.
         bindE (deref (beam_objs hp) original_beam) (\<lambda>B.
         bindE (py_index (spans B) 0) (\<lambda>s0.
         bindE (deref (span_objs hp) s0) (\<lambda>sp0.
         bindE (deref (section_objs hp) (span_section sp0)) (\<lambda>sec0.
           Inr (sec_h sec0, sec_bw sec0))))))) (\<lambda>(h_orig, bw).
     bindS (foldS (height_step exn_text opt original_beam bw) [] test_heights) (\<lambda>results.
       returnS (select_best h_orig results)))"

section \<open>Verification\<close>

subsection \<open>Basic facts about the result type and the heap\<close>

lemma bindE_Inr_iff: "bindE m f = Inr y \<longleftrightarrow> (\<exists>x. m = Inr x \<and> f x = Inr y)"
  by (cases m) (simp_all add: bindE_def)

lemma deref_Inr_iff: "deref m r = Inr v \<longleftrightarrow> m r = Some v"
  by (simp add: deref_def split: option.splits)

lemma foldE_Cons_Inr: "f s x = Inr s' \<Longrightarrow> foldE f s (x # xs) = foldE f s' xs"
  by simp


section \<open>Topology of a beam built by add\_span\<close>



lemma last_nth_Suc: "length xs = Suc n \<Longrightarrow> last xs = xs ! n"
  by (cases xs rule: rev_cases) (auto simp: nth_append)

lemma heap_okD:
  "heap_ok hp \<Longrightarrow> node_objs hp r = Some n \<Longrightarrow> r < next_ref hp"
  "heap_ok hp \<Longrightarrow> span_objs hp r = Some s \<Longrightarrow> r < next_ref hp"
  "heap_ok hp \<Longrightarrow> beam_objs hp r = Some b \<Longrightarrow> r < next_ref hp"
  by (auto simp: heap_ok_def)

lemma heap_ok_beam_upd:
  "heap_ok hp \<Longrightarrow> beam_objs hp self = Some B \<Longrightarrow> heap_ok (hp\<lparr>beam_objs := (beam_objs hp)(self \<mapsto> B')\<rparr>)"
  by (auto simp: heap_ok_def)

lemma heap_ok_node_upd:
  "heap_ok hp \<Longrightarrow> node_objs hp r = Some n \<Longrightarrow> heap_ok (hp\<lparr>node_objs := (node_objs hp)(r \<mapsto> n')\<rparr>)"
  by (auto simp: heap_ok_def)

lemma heap_ok_new_Node:
  "heap_ok hp \<Longrightarrow> heap_ok (fst (new_Node hp n))"
  by (auto simp: heap_ok_def new_Node_def less_Suc_eq split: if_splits)

lemma heap_ok_new_BeamSpan:
  "heap_ok hp \<Longrightarrow> heap_ok (fst (new_BeamSpan hp n))"
  by (auto simp: heap_ok_def new_BeamSpan_def less_Suc_eq split: if_splits)

lemma beam_chain_cong:
  assumes "beam_chain hp B N"
    and "\<And>r n. r \<in> set (nodes B) \<Longrightarrow> node_objs hp r = Some n \<Longrightarrow> \<exists>n'. node_objs hp' r = Some n' \<and> node_id n' = node_id n"
    and "\<And>r. r \<in> set (spans B) \<Longrightarrow> span_objs hp' r = span_objs hp r"
    and "spans B' = spans B" "nodes B' = nodes B"
  shows "beam_chain hp' B' N"
proof -
  have n: "\<exists>n. node_objs hp' (nodes B' ! i) = Some n \<and> node_id n = int i" if "i \<le> N" for i
  proof -
    from assms(1) that obtain n where "node_objs hp (nodes B ! i) = Some n" "node_id n = int i"
      unfolding beam_chain_def by blast
    moreover have "nodes B ! i \<in> set (nodes B)"
      using assms(1) that by (simp add: beam_chain_def)
    ultimately show ?thesis using assms(2) assms(5) by fastforce
  qed
  have s: "\<exists>s. span_objs hp' (spans B' ! i) = Some s \<and>
              start_node s = Some (nodes B' ! i) \<and> end_node s = Some (nodes B' ! Suc i)" if "i < N" for i
  proof -
    have "spans B ! i \<in> set (spans B)"
      using assms(1) that by (simp add: beam_chain_def)
    then show ?thesis using assms(1) assms(3) assms(4) assms(5) that
      unfolding beam_chain_def by auto
  qed
  show ?thesis unfolding beam_chain_def
    using assms(1) assms(4) assms(5) n s by (simp add: beam_chain_def)
qed

lemma start_ok:
  assumes "beam_inv hp self"
  shows "\<exists>hp1 sref B1. add_span_start hp self sc ss = Inr (hp1, sref) \<and> heap_ok hp1 \<and>
           beam_objs hp1 self = Some B1 \<and> beam_chain hp1 B1 (length (spans B1)) \<and>
           (\<forall>B. beam_objs hp self = Some B \<longrightarrow> spans B1 = spans B) \<and> sref = last (nodes B1)"
proof -
  from assms obtain B where ok: "heap_ok hp" and B: "beam_objs hp self = Some B"
    and dis: "(spans B = [] \<and> nodes B = []) \<or> beam_chain hp B (length (spans B))"
    by (auto simp: beam_inv_def)
  show ?thesis
  proof (cases "nodes B = []")
    case True
    with dis have sp: "spans B = []" by (auto simp: beam_chain_def)
    let ?n = "\<lparr>node_id = 0, node_x = fst sc, node_y = snd sc, node_z = 0.0, support_conditions = get_conditions ss\<rparr>"
    let ?hp1 = "fst (new_Node hp ?n)"
    let ?B1 = "B\<lparr>nodes := nodes B @ [next_ref hp]\<rparr>"
    let ?hp2 = "?hp1\<lparr>beam_objs := (beam_objs ?hp1)(self \<mapsto> ?B1)\<rparr>"
    have r: "add_span_start hp self sc ss = Inr (?hp2, next_ref hp)"
      using True B by (simp add: add_span_start_def bindE_def deref_def new_Node_def Let_def)
    have b1: "beam_objs ?hp1 self = Some B" using B by (simp add: new_Node_def)
    have ok2: "heap_ok ?hp2"
      using heap_ok_beam_upd[OF heap_ok_new_Node[OF ok] b1] .
    have ch: "beam_chain ?hp2 ?B1 (length (spans ?B1))"
      using True sp by (simp add: beam_chain_def new_Node_def)
    show ?thesis using r ok2 ch True B by (auto simp: new_Node_def)
  next
    case False
    with dis have ch: "beam_chain hp B (length (spans B))" by auto
    hence len: "length (nodes B) = length (spans B) + 1" by (simp add: beam_chain_def)
    have "\<exists>n. node_objs hp (nodes B ! length (spans B)) = Some n"
      using ch unfolding beam_chain_def by blast
    moreover have "last (nodes B) = nodes B ! length (spans B)"
      using False len by (simp add: last_conv_nth)
    ultimately obtain n where n: "node_objs hp (last (nodes B)) = Some n" by auto
    show ?thesis
    proof (cases "ss = FIXED")
      case True
      let ?hp1 = "hp\<lparr>node_objs := (node_objs hp)(last (nodes B) \<mapsto> n\<lparr>support_conditions := [True, True]\<rparr>)\<rparr>"
      have r: "add_span_start hp self sc ss = Inr (?hp1, last (nodes B))"
        using True False B n by (simp add: add_span_start_def bindE_def deref_def Let_def)
      have ok1: "heap_ok ?hp1" using heap_ok_node_upd[OF ok n] .
      have ch1: "beam_chain ?hp1 B (length (spans B))"
        by (rule beam_chain_cong[OF ch]) (use n in auto)
      show ?thesis using r ok1 ch1 B by auto
    next
      case F2: False
      have r: "add_span_start hp self sc ss = Inr (hp, last (nodes B))"
        using F2 False B n by (simp add: add_span_start_def bindE_def deref_def Let_def)
      show ?thesis using r ok ch B by auto
    qed
  qed
qed


lemma beam_inv_direction:
  assumes "beam_inv hp self" "beam_objs hp self = Some B"
  shows "beam_inv (hp\<lparr>beam_objs := (beam_objs hp)(self \<mapsto> B\<lparr>direction_vector := d\<rparr>)\<rparr>) self"
proof -
  let ?hp = "hp\<lparr>beam_objs := (beam_objs hp)(self \<mapsto> B\<lparr>direction_vector := d\<rparr>)\<rparr>"
  from assms have ok: "heap_ok hp"
    and dis: "(spans B = [] \<and> nodes B = []) \<or> beam_chain hp B (length (spans B))"
    by (auto simp: beam_inv_def)
  have "heap_ok ?hp" using heap_ok_beam_upd[OF ok assms(2)] .
  moreover have "beam_chain ?hp (B\<lparr>direction_vector := d\<rparr>) (length (spans B))"
    if "beam_chain hp B (length (spans B))"
    by (rule beam_chain_cong[OF that]) auto
  ultimately show ?thesis using dis by (auto simp: beam_inv_def)
qed

lemma finish_ok:
  assumes ok: "heap_ok hp1" and B1: "beam_objs hp1 self = Some B1"
    and ch: "beam_chain hp1 B1 N"
  defines "e \<equiv> next_ref hp1"
  assumes hp3: "hp3 = hp1\<lparr>next_ref := Suc (Suc e), node_objs := (node_objs hp1)(e \<mapsto> nn),
                      span_objs := (span_objs hp1)(Suc e \<mapsto> sp),
                      beam_objs := (beam_objs hp1)(self \<mapsto> B3)\<rparr>"
    and B3: "nodes B3 = nodes B1 @ [e]" "spans B3 = spans B1 @ [Suc e]"
    and nn: "node_id nn = int (length (nodes B1))"
    and sp: "start_node sp = Some (last (nodes B1))" "end_node sp = Some e"
  shows "heap_ok hp3 \<and> beam_objs hp3 self = Some B3 \<and> beam_chain hp3 B3 (Suc N)"
proof -
  have len: "length (spans B1) = N" "length (nodes B1) = N + 1" and dist: "distinct (nodes B1)"
    using ch by (auto simp: beam_chain_def)
  have nodes_lt: "r < e" if "r \<in> set (nodes B1)" for r
  proof -
    from that obtain i where "i < length (nodes B1)" "nodes B1 ! i = r"
      by (auto simp: in_set_conv_nth)
    with ch len obtain n where "node_objs hp1 r = Some n"
      unfolding beam_chain_def by (metis Suc_eq_plus1 less_Suc_eq_le)
    thus ?thesis using heap_okD(1)[OF ok] by (simp add: e_def)
  qed
  have spans_lt: "r < e" if "r \<in> set (spans B1)" for r
  proof -
    from that obtain i where "i < length (spans B1)" "spans B1 ! i = r"
      by (auto simp: in_set_conv_nth)
    with ch len obtain s where "span_objs hp1 r = Some s"
      unfolding beam_chain_def by metis
    thus ?thesis using heap_okD(2)[OF ok] by (simp add: e_def)
  qed
  have ok3: "heap_ok hp3"
    using ok B1 unfolding hp3 heap_ok_def e_def
    by (auto simp: less_Suc_eq split: if_splits)
  have b3: "beam_objs hp3 self = Some B3" by (simp add: hp3)
  have d3: "distinct (nodes B3)"
    using dist nodes_lt by (auto simp: B3)
  have n3: "\<exists>n. node_objs hp3 (nodes B3 ! i) = Some n \<and> node_id n = int i" if "i \<le> Suc N" for i
  proof (cases "i \<le> N")
    case True
    hence il: "i < length (nodes B1)" using len by simp
    hence "nodes B1 ! i \<noteq> e" using nodes_lt[of "nodes B1 ! i"] by auto
    moreover from ch True obtain n where "node_objs hp1 (nodes B1 ! i) = Some n" "node_id n = int i"
      unfolding beam_chain_def by blast
    ultimately show ?thesis using il by (simp add: hp3 B3 nth_append)
  next
    case False
    with that have "i = Suc N" by simp
    thus ?thesis using len nn by (simp add: hp3 B3 nth_append)
  qed
  have s3: "\<exists>s. span_objs hp3 (spans B3 ! i) = Some s \<and>
              start_node s = Some (nodes B3 ! i) \<and> end_node s = Some (nodes B3 ! Suc i)" if "i < Suc N" for i
  proof (cases "i < N")
    case True
    hence il: "i < length (spans B1)" using len by simp
    hence "spans B1 ! i \<noteq> Suc e" using spans_lt[of "spans B1 ! i"] by auto
    moreover from ch True obtain s where "span_objs hp1 (spans B1 ! i) = Some s"
      "start_node s = Some (nodes B1 ! i)" "end_node s = Some (nodes B1 ! Suc i)"
      unfolding beam_chain_def by blast
    ultimately show ?thesis using il True len by (simp add: hp3 B3 nth_append)
  next
    case False
    with that have i: "i = N" by simp
    have "last (nodes B1) = nodes B1 ! N" using len by (simp add: last_nth_Suc)
    thus ?thesis using len sp i by (simp add: hp3 B3 nth_append)
  qed
  have "beam_chain hp3 B3 (Suc N)"
    unfolding beam_chain_def using len d3 n3 s3 by (simp add: B3)
  with ok3 b3 show ?thesis by simp
qed

lemma step:
  assumes inv: "beam_inv hp self" and B: "beam_objs hp self = Some B"
  shows "\<exists>hp' B'. add_span_call self hp a = Inr hp' \<and> heap_ok hp' \<and> beam_objs hp' self = Some B' \<and>
        beam_chain hp' B' (Suc (length (spans B)))"
proof -
  let ?hp0 = "hp\<lparr>beam_objs := (beam_objs hp)(self \<mapsto> B\<lparr>direction_vector := arg_direction a\<rparr>)\<rparr>"
  have inv0: "beam_inv ?hp0 self" using beam_inv_direction[OF inv B] .
  from start_ok[OF inv0, of "arg_start_coord a" "arg_start_support a"]
  obtain hp1 sref B1 where st: "add_span_start ?hp0 self (arg_start_coord a) (arg_start_support a) = Inr (hp1, sref)"
    and ok1: "heap_ok hp1" and B1: "beam_objs hp1 self = Some B1"
    and ch1: "beam_chain hp1 B1 (length (spans B1))"
    and sp1: "spans B1 = spans B" and sref: "sref = last (nodes B1)"
    by auto
  have len: "length (nodes B1) = length (spans B1) + 1" using ch1 by (simp add: beam_chain_def)
  hence "last (nodes B1) = nodes B1 ! length (spans B1)" by (simp add: last_nth_Suc)
  with ch1 obtain sn where sn: "node_objs hp1 sref = Some sn"
    unfolding beam_chain_def sref by (metis order_refl)
  define e where "e = next_ref hp1"
  define nn where "nn = \<lparr>node_id = int (length (nodes B1)),
       node_x = node_x sn + arg_length a * fst (arg_direction a),
       node_y = node_y sn + arg_length a * snd (arg_direction a), node_z = 0.0,
       support_conditions = get_conditions (arg_end_support a)\<rparr>"
  define sp where "sp = \<lparr>span_id = int (length (spans B)) + 1, span_length = arg_length a,
                     span_section = arg_section a, material = arg_mat a, loads = [],
                     start_node = Some sref, end_node = Some e,
                     moment_left = 0.0, moment_right = 0.0, shear_left = 0.0, shear_right = 0.0,
                     design_results = Some Map.empty, detailing_results = Map.empty,
                     els_results = None\<rparr>"
  define B3 where "B3 = B1\<lparr>nodes := nodes B1 @ [e], spans := spans B1 @ [Suc e]\<rparr>"
  define hp3 where "hp3 = hp1\<lparr>next_ref := Suc (Suc e), node_objs := (node_objs hp1)(e \<mapsto> nn),
                      span_objs := (span_objs hp1)(Suc e \<mapsto> sp),
                      beam_objs := (beam_objs hp1)(self \<mapsto> B3)\<rparr>"
  have r: "add_span_call self hp a = Inr hp3"
    using B st sn B1
    by (simp add: add_span_call_def add_span_def bindE_def deref_def Let_def new_Node_def
        new_BeamSpan_def hp3_def B3_def sp_def nn_def e_def)
  have "heap_ok hp3 \<and> beam_objs hp3 self = Some B3 \<and> beam_chain hp3 B3 (Suc (length (spans B1)))"
    by (rule finish_ok[OF ok1 B1 ch1 hp3_def[unfolded e_def]])
       (simp_all add: B3_def nn_def sp_def sref e_def)
  thus ?thesis using r sp1 by auto
qed


lemma add_spans_chain:
  assumes "beam_inv hp self" "beam_objs hp self = Some B" "calls \<noteq> []"
  shows "\<exists>hp' B'. add_spans hp self calls = Inr hp' \<and> heap_ok hp' \<and> beam_objs hp' self = Some B' \<and>
          beam_chain hp' B' (length (spans B) + length calls)"
  using assms
proof (induction calls arbitrary: hp B)
  case Nil
  then show ?case by simp
next
  case (Cons a calls)
  from step[OF Cons.prems(1,2), of a] obtain hp1 B1 where
    r: "add_span_call self hp a = Inr hp1" and ok1: "heap_ok hp1"
    and B1: "beam_objs hp1 self = Some B1" and ch1: "beam_chain hp1 B1 (Suc (length (spans B)))"
    by blast
  have l1: "length (spans B1) = Suc (length (spans B))" using ch1 by (simp add: beam_chain_def)
  show ?case
  proof (cases "calls = []")
    case True
    then show ?thesis using r ok1 B1 ch1 by (simp add: add_spans_def)
  next
    case False
    have "beam_inv hp1 self" using ok1 B1 ch1 l1 by (auto simp: beam_inv_def)
    from Cons.IH[OF this B1 False] l1 r show ?thesis
      by (simp add: add_spans_def)
  qed
qed

lemma junction_shared:
  assumes ch: "beam_chain hp B N" and i: "0 < i" "i < N"
    and upd: "set_support_condition hp (nodes B ! i) k v = Inr hp'"
  shows "start_node_conditions hp' (spans B ! i) = end_node_conditions hp' (spans B ! (i - 1)) \<and>
         (\<exists>c. start_node_conditions hp' (spans B ! i) = Inr c \<and> k < length c \<and> c ! k = v)"
proof -
  from ch i obtain s where s: "span_objs hp (spans B ! i) = Some s" "start_node s = Some (nodes B ! i)"
    unfolding beam_chain_def by blast
  from i have "i - 1 < N" "Suc (i - 1) = i" by auto
  with ch obtain t where t: "span_objs hp (spans B ! (i - 1)) = Some t" "end_node t = Some (nodes B ! i)"
    unfolding beam_chain_def by metis
  from upd obtain n where n: "node_objs hp (nodes B ! i) = Some n" "k < length (support_conditions n)"
    and hp': "hp' = hp\<lparr>node_objs := (node_objs hp)(nodes B ! i \<mapsto>
                   n\<lparr>support_conditions := (support_conditions n)[k := v]\<rparr>)\<rparr>"
    by (auto simp: set_support_condition_def bindE_def deref_def split: option.splits if_splits)
  show ?thesis using s t n
    by (simp add: hp' start_node_conditions_def end_node_conditions_def bindE_def deref_def)
qed

text \<open>
  Claim C9. After a sequence of \<^verbatim>\<open>add_span\<close> calls on a beam created empty, the beam
  with \<open>N\<close> spans has \<open>N + 1\<close> distinct nodes with identifiers \<open>0..N\<close>, span \<open>i\<close>
  starts at node \<open>i\<close> and ends at node \<open>i + 1\<close>; for \<open>i \<ge> 1\<close> the start node of span
  \<open>i\<close> is the same object as the end node of span \<open>i - 1\<close>, so an assignment to one of its
  restraint flags is read through both spans. The sequence has at least one call: a
  beam created empty has no span and no node.
\<close>

theorem add_spans_topology:
  assumes "heap_ok hp" and "beam_objs hp self = Some B0" and "spans B0 = []" and "nodes B0 = []"
    and "calls \<noteq> []"
  shows "\<exists>hp' B. add_spans hp self calls = Inr hp' \<and> beam_objs hp' self = Some B \<and>
           beam_chain hp' B (length calls) \<and>
           (\<forall>i k v hp''. 0 < i \<and> i < length calls \<and>
                 set_support_condition hp' (nodes B ! i) k v = Inr hp'' \<longrightarrow>
               start_node_conditions hp'' (spans B ! i) = end_node_conditions hp'' (spans B ! (i - 1)) \<and>
               (\<exists>c. start_node_conditions hp'' (spans B ! i) = Inr c \<and> k < length c \<and> c ! k = v))"
proof -
  have "beam_inv hp self" using assms(1-4) by (auto simp: beam_inv_def)
  from add_spans_chain[OF this assms(2) assms(5)] assms(3)
  obtain hp' B where r: "add_spans hp self calls = Inr hp'" "beam_objs hp' self = Some B"
    and ch: "beam_chain hp' B (length calls)" by auto
  show ?thesis using r ch junction_shared[OF ch] by blast
qed

text \<open>Two spans of 6 m appended to an empty beam.\<close>

theorem add_spans_topology_witness:
  "\<exists>hp' B. add_spans hp_fresh 1 [call_6m, call_6m] = Inr hp' \<and> beam_objs hp' 1 = Some B \<and>
           beam_chain hp' B (length [call_6m, call_6m]) \<and>
           (\<forall>i k v hp''. 0 < i \<and> i < length [call_6m, call_6m] \<and>
                 set_support_condition hp' (nodes B ! i) k v = Inr hp'' \<longrightarrow>
               start_node_conditions hp'' (spans B ! i) = end_node_conditions hp'' (spans B ! (i - 1)) \<and>
               (\<exists>c. start_node_conditions hp'' (spans B ! i) = Inr c \<and> k < length c \<and> c ! k = v))"
proof -
  have ok: "heap_ok hp_fresh"
    by (auto simp: heap_ok_def hp_fresh_def new_Beam_def new_CrossSection_def empty_heap_def
        split: if_splits)
  have b: "beam_objs hp_fresh 1 = Some \<lparr>beam_id = ''V1'', spans = [], nodes = [], direction_vector = (1.0, 0.0)\<rparr>"
    by (simp add: hp_fresh_def new_Beam_def new_CrossSection_def empty_heap_def)
  show ?thesis
    using add_spans_topology[OF ok b, of "[call_6m, call_6m]"] by simp
qed


section \<open>Bar selection\<close>

lemma area_bar_pos: "0 < phi \<Longrightarrow> 0 < area_bar phi"
  by (simp add: area_bar_def)

lemma calc_anchorage_ok:
  assumes "0 < fck_mpa"
  shows "\<exists>lb. calc_anchorage phi fck_mpa c = Inr lb"
proof -
  have "fck_mpa powr (2/3) > 0" using assms by simp
  hence "calc_anchorage phi fck_mpa c \<noteq> Inl e" for e
    using assms
    by (auto simp: calc_anchorage_def pow_two_thirds_def bindE_def py_div_def Let_def)
  thus ?thesis by (cases "calc_anchorage phi fck_mpa c") auto
qed

lemma select_step_inv:
  assumes inv: "sel_inv as_req bw cover seen st" and phi: "0 < phi" and fck: "0 < fck_mpa"
  shows "\<exists>st'. select_step as_req bw cover fck_mpa c st phi = Inr st' \<and>
               sel_inv as_req bw cover (seen @ [phi]) st'"
proof -
  obtain lb where lb: "calc_anchorage phi fck_mpa c = Inr lb"
    using calc_anchorage_ok[OF fck] by blast
  have a: "area_bar phi \<noteq> 0" using area_bar_pos[OF phi] by simp
  show ?thesis
  proof (cases "bar_fits as_req bw cover phi")
    case False
    hence "select_step as_req bw cover fck_mpa c st phi = Inr st"
      using a by (simp add: select_step_def bindE_def py_div_def bar_fits_def Let_def)
    moreover have "sel_inv as_req bw cover (seen @ [phi]) st"
      using inv False unfolding sel_inv_def by auto
    ultimately show ?thesis by simp
  next
    case True
    let ?n = "bar_count_for as_req phi"
    let ?o = "of_int ?n * area_bar phi - as_req"
    show ?thesis
    proof (cases "below_min ?o (snd st)")
      case b: True
      let ?st' = "(Some \<lparr>diameter_mm = phi, bar_count = ?n, area_provided_cm2 = of_int ?n * area_bar phi,
                               spacing_mm = 0.0, bar_status = ''OK'',
                               anchorage_length_cm = py_round lb 1\<rparr>, Some ?o)"
      have r: "select_step as_req bw cover fck_mpa c st phi = Inr ?st'"
        using a True b lb by (simp add: select_step_def bindE_def py_div_def bar_fits_def Let_def)
      have "sel_inv as_req bw cover (seen @ [phi]) ?st'"
        using inv True b unfolding sel_inv_def below_min_def
        by (cases "snd st") (auto simp: less_imp_le dest: order_less_le_trans)
      with r show ?thesis by blast
    next
      case b: False
      hence r: "select_step as_req bw cover fck_mpa c st phi = Inr st"
        using a True by (simp add: select_step_def bindE_def py_div_def bar_fits_def Let_def)
      from b obtain m where m: "snd st = Some m" "m \<le> ?o"
        by (cases "snd st") (auto simp: below_min_def)
      have "sel_inv as_req bw cover (seen @ [phi]) st"
        using inv m unfolding sel_inv_def by auto
      with r show ?thesis by blast
    qed
  qed
qed

lemma select_fold_inv:
  assumes "sel_inv as_req bw cover seen st" and "\<forall>phi\<in>set xs. 0 < phi" and "0 < fck_mpa"
  shows "\<exists>st'. foldE (select_step as_req bw cover fck_mpa c) st xs = Inr st' \<and>
               sel_inv as_req bw cover (seen @ xs) st'"
  using assms
proof (induction xs arbitrary: st seen)
  case Nil
  then show ?case by simp
next
  case (Cons x xs)
  from select_step_inv[OF Cons.prems(1) _ Cons.prems(3), of x c] Cons.prems(2)
  obtain st1 where s1: "select_step as_req bw cover fck_mpa c st x = Inr st1"
    and i1: "sel_inv as_req bw cover (seen @ [x]) st1" by auto
  from Cons.IH[OF i1 _ Cons.prems(3)] Cons.prems(2) s1 show ?case by auto
qed

lemma longitudinal_bars_pos: "\<forall>phi\<in>set longitudinal_bars. 0 < phi"
  by (simp add: longitudinal_bars_def)

lemma bar_count_for_area:
  assumes "0 < phi"
  shows "as_req \<le> of_int (bar_count_for as_req phi) * area_bar phi"
proof -
  have a: "0 < area_bar phi" using area_bar_pos[OF assms] .
  have "as_req / area_bar phi \<le> of_int \<lceil>as_req / area_bar phi\<rceil>" by (rule le_of_int_ceiling)
  also have "\<dots> \<le> of_int (bar_count_for as_req phi)"
    by (simp add: bar_count_for_def Let_def)
  finally show ?thesis using a by (simp add: pos_divide_le_eq)
qed

lemma bar_count_for_least:
  assumes "0 < phi" and "2 \<le> n" and "as_req \<le> of_int n * area_bar phi"
  shows "bar_count_for as_req phi \<le> n"
proof -
  have a: "0 < area_bar phi" using area_bar_pos[OF assms(1)] .
  hence "as_req / area_bar phi \<le> of_int n" using assms(3) by (simp add: pos_divide_le_eq)
  hence "\<lceil>as_req / area_bar phi\<rceil> \<le> n" by (simp add: ceiling_le_iff)
  thus ?thesis using assms(2) by (simp add: bar_count_for_def Let_def)
qed

lemma space_required_mono:
  assumes "0 < phi" and "m \<le> n"
  shows "space_required m phi \<le> space_required n phi"
proof -
  have "(of_int m :: real) \<le> of_int n" using assms(2) by simp
  hence "of_int m * phi \<le> of_int n * phi" and "(of_int m - 1) * ah_min \<le> (of_int n - 1) * ah_min"
    using assms(1) by (simp_all add: ah_min_def)
  thus ?thesis by (simp add: space_required_def)
qed

lemma bar_count_for_ge2: "2 \<le> bar_count_for as_req phi"
  by (simp add: bar_count_for_def Let_def)

text \<open>
  Claim C8. For a required area above 0.01 (and a positive concrete strength, which the
  anchorage formula divides by): when some catalogue diameter fits the available width
  with its bar count, \<^verbatim>\<open>select_longitudinal\<close> returns an option with status OK whose
  diameter is in the catalogue, whose area is at least the required one and fits the
  width, and no catalogue diameter with any count of at least 2 bars that supplies the
  area and fits the width has less excess area. When no catalogue diameter fits (in
  particular when none fits with 2 bars), the result is the explicit failure option.
\<close>

theorem select_longitudinal_optimal:
  assumes "0.01 < as_req" and "0 < fck_mpa"
  shows "((\<exists>phi\<in>set longitudinal_bars. bar_fits as_req bw cover phi) \<longrightarrow>
           (\<exists>opt. select_longitudinal as_req bw cover is_top fck_mpa = Inr opt \<and>
              bar_status opt = ''OK'' \<and> as_req \<le> area_provided_cm2 opt \<and>
              diameter_mm opt \<in> set longitudinal_bars \<and>
              bar_count opt = bar_count_for as_req (diameter_mm opt) \<and>
              area_provided_cm2 opt = of_int (bar_count opt) * area_bar (diameter_mm opt) \<and>
              space_required (bar_count opt) (diameter_mm opt) \<le> width_available bw cover \<and>
              (\<forall>phi\<in>set longitudinal_bars. \<forall>n\<ge>2.
                  as_req \<le> of_int n * area_bar phi \<and>
                  space_required n phi \<le> width_available bw cover \<longrightarrow>
                  area_provided_cm2 opt - as_req \<le> of_int n * area_bar phi - as_req))) \<and>
         ((\<forall>phi\<in>set longitudinal_bars. \<not> bar_fits as_req bw cover phi) \<longrightarrow>
            select_longitudinal as_req bw cover is_top fck_mpa = Inr (no_bars status_nao_cabe)) \<and>
         ((\<forall>phi\<in>set longitudinal_bars. \<not> space_required 2 phi \<le> width_available bw cover) \<longrightarrow>
            select_longitudinal as_req bw cover is_top fck_mpa = Inr (no_bars status_nao_cabe)) \<and>
         bar_status (no_bars status_nao_cabe) \<noteq> ''OK''"
proof -
  let ?c = "if is_top then ''bad'' else ''good''"
  have i0: "sel_inv as_req bw cover [] (None, None)" by (simp add: sel_inv_def)
  from select_fold_inv[OF i0 longitudinal_bars_pos assms(2), of ?c]
  obtain best m where f: "foldE (select_step as_req bw cover fck_mpa ?c) (None, None) longitudinal_bars
        = Inr (best, m)" and inv: "sel_inv as_req bw cover longitudinal_bars (best, m)"
    by auto
  have sel: "select_longitudinal as_req bw cover is_top fck_mpa =
               (case best of Some b \<Rightarrow> Inr b | None \<Rightarrow> Inr (no_bars status_nao_cabe))"
    using assms(1) f by (simp add: select_longitudinal_def bindE_def Let_def)
  have none: "select_longitudinal as_req bw cover is_top fck_mpa = Inr (no_bars status_nao_cabe)"
    if "\<forall>phi\<in>set longitudinal_bars. \<not> bar_fits as_req bw cover phi"
  proof -
    have "m = None" using inv that unfolding sel_inv_def by (cases m) auto
    hence "best = None" using inv unfolding sel_inv_def by simp
    thus ?thesis using sel by simp
  qed
  have part1: "\<exists>opt. select_longitudinal as_req bw cover is_top fck_mpa = Inr opt \<and>
              bar_status opt = ''OK'' \<and> as_req \<le> area_provided_cm2 opt \<and>
              diameter_mm opt \<in> set longitudinal_bars \<and>
              bar_count opt = bar_count_for as_req (diameter_mm opt) \<and>
              area_provided_cm2 opt = of_int (bar_count opt) * area_bar (diameter_mm opt) \<and>
              space_required (bar_count opt) (diameter_mm opt) \<le> width_available bw cover \<and>
              (\<forall>phi\<in>set longitudinal_bars. \<forall>n\<ge>2.
                  as_req \<le> of_int n * area_bar phi \<and>
                  space_required n phi \<le> width_available bw cover \<longrightarrow>
                  area_provided_cm2 opt - as_req \<le> of_int n * area_bar phi - as_req)"
    if ex: "\<exists>phi\<in>set longitudinal_bars. bar_fits as_req bw cover phi"
  proof -
    from ex inv obtain mv where mv: "m = Some mv" unfolding sel_inv_def by (cases m) auto
    with inv obtain phi lb where phi: "phi \<in> set longitudinal_bars" "bar_fits as_req bw cover phi"
      and best: "best = Some \<lparr>diameter_mm = phi, bar_count = bar_count_for as_req phi,
                          area_provided_cm2 = of_int (bar_count_for as_req phi) * area_bar phi,
                          spacing_mm = 0, bar_status = ''OK'', anchorage_length_cm = lb\<rparr>"
      and mv_eq: "mv = of_int (bar_count_for as_req phi) * area_bar phi - as_req"
      and least: "\<forall>phi'\<in>set longitudinal_bars. bar_fits as_req bw cover phi' \<longrightarrow>
           mv \<le> of_int (bar_count_for as_req phi') * area_bar phi' - as_req"
      unfolding sel_inv_def by auto
    have pos: "0 < phi" using phi(1) longitudinal_bars_pos by blast
    have opt_all: "mv \<le> of_int n * area_bar p - as_req"
      if p: "p \<in> set longitudinal_bars" and n: "2 \<le> n" "as_req \<le> of_int n * area_bar p"
         "space_required n p \<le> width_available bw cover" for p n
    proof -
      have pp: "0 < p" using p longitudinal_bars_pos by blast
      have le: "bar_count_for as_req p \<le> n" using bar_count_for_least[OF pp n(1) n(2)] .
      have "space_required (bar_count_for as_req p) p \<le> space_required n p"
        using space_required_mono[OF pp le] .
      hence "bar_fits as_req bw cover p" using n(3) by (simp add: bar_fits_def)
      hence "mv \<le> of_int (bar_count_for as_req p) * area_bar p - as_req" using least p by blast
      also have "\<dots> \<le> of_int n * area_bar p - as_req"
      proof -
        have "(of_int (bar_count_for as_req p) :: real) \<le> of_int n" using le by simp
        hence "of_int (bar_count_for as_req p) * area_bar p \<le> of_int n * area_bar p"
          using area_bar_pos[OF pp] by simp
        thus ?thesis by simp
      qed
      finally show ?thesis .
    qed
    show ?thesis
      using sel best phi bar_count_for_area[OF pos, of as_req] opt_all mv_eq
      by (simp add: bar_fits_def)
  qed
  have part3: "select_longitudinal as_req bw cover is_top fck_mpa = Inr (no_bars status_nao_cabe)"
    if nf: "\<forall>phi\<in>set longitudinal_bars. \<not> space_required 2 phi \<le> width_available bw cover"
  proof (rule none, rule ballI)
    fix phi assume p: "phi \<in> set longitudinal_bars"
    hence pp: "0 < phi" using longitudinal_bars_pos by blast
    have "space_required 2 phi \<le> space_required (bar_count_for as_req phi) phi"
      using space_required_mono[OF pp bar_count_for_ge2] .
    thus "\<not> bar_fits as_req bw cover phi" using nf p by (auto simp: bar_fits_def)
  qed
  have "bar_status (no_bars status_nao_cabe) \<noteq> ''OK''"
    by (simp add: no_bars_def status_nao_cabe_def)
  thus ?thesis using part1 none part3 by blast
qed

text \<open>
  A required area of 0.5 cm2 in a 20 cm web (two bars of 8 mm fit), and in a 5 cm web
  (nothing fits).
\<close>

theorem select_longitudinal_optimal_witness:
  "(0.01::real) < 1/2 \<and> (0::real) < 25 \<and>
   (\<exists>phi\<in>set longitudinal_bars. bar_fits (1/2) 20 25 phi) \<and>
   (\<exists>opt. select_longitudinal (1/2) 20 25 False 25 = Inr opt \<and>
       bar_status opt = ''OK'' \<and> 1/2 \<le> area_provided_cm2 opt \<and>
       diameter_mm opt \<in> set longitudinal_bars \<and>
       (\<forall>phi\<in>set longitudinal_bars. \<forall>n\<ge>2.
           1/2 \<le> of_int n * area_bar phi \<and> space_required n phi \<le> width_available 20 25 \<longrightarrow>
           area_provided_cm2 opt - 1/2 \<le> of_int n * area_bar phi - 1/2)) \<and>
   \<not> (\<exists>phi\<in>set longitudinal_bars. space_required 2 phi \<le> width_available 5 25) \<and>
   select_longitudinal (1/2) 5 25 False 25 = Inr (no_bars status_nao_cabe)"
proof -
  have h1: "(0.01::real) < 1/2" and h2: "(0::real) < 25" by simp_all
  define q where "q = (1/2) / area_bar 8"
  have "q \<le> 2"
  proof -
    have "q = (25/8) / pi" by (simp add: q_def area_bar_def power2_eq_square)
    also have "\<dots> \<le> (25/8) / 2" using pi_ge_two by (intro divide_left_mono) simp_all
    finally show ?thesis by simp
  qed
  hence "\<lceil>q\<rceil> \<le> 2" by (simp add: ceiling_le_iff)
  moreover have "(let n = k in if n < 2 then 2 else n) = 2" if "k \<le> 2" for k :: int
    using that by (simp add: Let_def)
  ultimately have "(let n = \<lceil>q\<rceil> in if n < 2 then 2 else n) = 2" by blast
  hence n: "bar_count_for (1/2) 8 = 2" unfolding bar_count_for_def q_def .
  have fit: "bar_fits (1/2) 20 25 8"
    by (simp add: bar_fits_def n space_required_def ah_min_def width_available_def)
  have ex: "\<exists>phi\<in>set longitudinal_bars. bar_fits (1/2) 20 25 phi"
    using fit by (auto simp: longitudinal_bars_def)
  have nf: "\<forall>phi\<in>set longitudinal_bars. \<not> space_required 2 phi \<le> width_available 5 25"
    by (simp add: longitudinal_bars_def space_required_def ah_min_def width_available_def)
  from select_longitudinal_optimal[OF h1 h2, of 20 25 False] ex
  have a: "\<exists>opt. select_longitudinal (1/2) 20 25 False 25 = Inr opt \<and>
       bar_status opt = ''OK'' \<and> 1/2 \<le> area_provided_cm2 opt \<and>
       diameter_mm opt \<in> set longitudinal_bars \<and>
       (\<forall>phi\<in>set longitudinal_bars. \<forall>n\<ge>2.
           1/2 \<le> of_int n * area_bar phi \<and> space_required n phi \<le> width_available 20 25 \<longrightarrow>
           area_provided_cm2 opt - 1/2 \<le> of_int n * area_bar phi - 1/2)"
    by blast
  from select_longitudinal_optimal[OF h1 h2, of 5 25 False] nf
  have b: "select_longitudinal (1/2) 5 25 False 25 = Inr (no_bars status_nao_cabe)"
    by blast
  show ?thesis using h1 h2 ex a nf b by blast
qed

section \<open>Monotonicity of the flexural reinforcement\<close>

lemma lever_arm_lower:
  assumes "0 < d" and "k \<le> 0.251"
  shows "d / 2 \<le> lever_arm d k"
proof -
  have "4 * 0.272 * k \<le> 4 * 0.272 * 0.251" using assms(2) by simp
  hence "0 \<le> 0.68 ^ 2 - 4 * 0.272 * k" by (simp add: power2_eq_square)
  hence "0 \<le> sqrt (0.68 ^ 2 - 4 * 0.272 * k)" by (rule real_sqrt_ge_zero)
  hence "(0.68 - sqrt (0.68 ^ 2 - 4 * 0.272 * k)) / (2 * 0.272) \<le> 0.68 / (2 * 0.272)"
    by (intro divide_right_mono) simp_all
  hence "1 - 0.4 * ((0.68 - sqrt (0.68 ^ 2 - 4 * 0.272 * k)) / (2 * 0.272)) \<ge> 1/2"
    by simp
  hence "d * (1/2) \<le> d * (1 - 0.4 * ((0.68 - sqrt (0.68 ^ 2 - 4 * 0.272 * k)) / (2 * 0.272)))"
    using assms by (intro mult_left_mono) simp_all
  thus ?thesis by (simp add: lever_arm_def)
qed

lemma lever_arm_antimono:
  assumes "0 < d" "k1 \<le> k2"
  shows "lever_arm d k2 \<le> lever_arm d k1"
proof -
  have "sqrt (0.68 ^ 2 - 4 * 0.272 * k2) \<le> sqrt (0.68 ^ 2 - 4 * 0.272 * k1)"
    using assms(2) by simp
  hence "(0.68 - sqrt (0.68 ^ 2 - 4 * 0.272 * k1)) / (2 * 0.272)
          \<le> (0.68 - sqrt (0.68 ^ 2 - 4 * 0.272 * k2)) / (2 * 0.272)"
    by (intro divide_right_mono) simp_all
  hence "1 - 0.4 * ((0.68 - sqrt (0.68 ^ 2 - 4 * 0.272 * k2)) / (2 * 0.272))
         \<le> 1 - 0.4 * ((0.68 - sqrt (0.68 ^ 2 - 4 * 0.272 * k1)) / (2 * 0.272))"
    by simp
  thus ?thesis unfolding lever_arm_def using assms(1) by (intro mult_left_mono) simp_all
qed

lemma calc_reinforcement_area_closed:
  assumes "0 < b" "0 < d" "0 < fcd" "0 < fyd" "0.01 < Md" "kmd_of Md b d fcd \<le> 0.251"
  shows "calc_reinforcement_area Md b d fcd fyd
           = Inr ((Md * 100) / (lever_arm d (kmd_of Md b d fcd) * fyd))"
proof -
  let ?k = "kmd_of Md b d fcd"
  have den: "b * d ^ 2 * fcd \<noteq> 0" using assms by simp
  have k: "py_div (Md * 100) (b * d ^ 2 * fcd) = Inr ?k"
    using den by (simp add: py_div_def kmd_of_def)
  have le: "\<not> ?k > 0.251" using assms(6) by simp
  have "4 * 0.272 * ?k \<le> 4 * 0.272 * 0.251" using assms(6) by simp
  hence nn: "\<not> 0.68 ^ 2 - 4 * 0.272 * ?k < 0" by (simp add: power2_eq_square)
  have nv: "\<not> 1 - (4 * 0.272 * ?k) / (0.68 ^ 2) < 0"
    using assms(6) by (simp add: power2_eq_square)
  have "lever_arm d ?k > 0" using lever_arm_lower[OF assms(2) assms(6)] assms(2) by linarith
  hence z: "lever_arm d ?k * fyd \<noteq> 0" using assms(4) by simp
  have "calc_reinforcement_area Md b d fcd fyd = py_div (Md * 100) (lever_arm d ?k * fyd)"
    unfolding calc_reinforcement_area_def Let_def k bindE_def lever_arm_def
    using assms(5) le nn nv by simp
  thus ?thesis using z by (simp add: py_div_def)
qed

lemma kmd_of_mono:
  assumes "0 < b" "0 < d" "0 < fcd" "Md1 \<le> Md2"
  shows "kmd_of Md1 b d fcd \<le> kmd_of Md2 b d fcd"
proof -
  have "0 < b * d ^ 2 * fcd" using assms by simp
  thus ?thesis unfolding kmd_of_def using assms(4) by (intro divide_right_mono) simp_all
qed

text \<open>
  Claim C7. For fixed positive width, effective depth, \<open>fcd\<close> and \<open>fyd\<close>, and two design
  moments \<open>Md1 \<le> Md2\<close> whose \<open>kmd\<close> is at most 0.251, \<^verbatim>\<open>_calc_reinforcement_area\<close>
  returns for both, and the area for \<open>Md2\<close> is not smaller than the area for \<open>Md1\<close>.
\<close>

theorem calc_reinforcement_area_mono:
  assumes "0 < b" and "0 < d" and "0 < fcd" and "0 < fyd" and "Md1 \<le> Md2"
    and "kmd_of Md1 b d fcd \<le> 0.251" and "kmd_of Md2 b d fcd \<le> 0.251"
  shows "\<exists>A1 A2. calc_reinforcement_area Md1 b d fcd fyd = Inr A1 \<and>
                 calc_reinforcement_area Md2 b d fcd fyd = Inr A2 \<and> A1 \<le> A2"
proof (cases "Md2 \<le> 0.01")
  case True
  then show ?thesis using assms(5) by (simp add: calc_reinforcement_area_def)
next
  case False
  hence m2: "0.01 < Md2" by simp
  let ?k2 = "kmd_of Md2 b d fcd"
  have c2: "calc_reinforcement_area Md2 b d fcd fyd = Inr ((Md2 * 100) / (lever_arm d ?k2 * fyd))"
    using calc_reinforcement_area_closed[OF assms(1-4) m2 assms(7)] .
  have z2: "0 < lever_arm d ?k2" using lever_arm_lower[OF assms(2) assms(7)] assms(2) by linarith
  show ?thesis
  proof (cases "Md1 \<le> 0.01")
    case True
    hence "calc_reinforcement_area Md1 b d fcd fyd = Inr 0"
      by (simp add: calc_reinforcement_area_def)
    moreover have "0 \<le> (Md2 * 100) / (lever_arm d ?k2 * fyd)"
      using m2 z2 assms(4) by simp
    ultimately show ?thesis using c2 by simp
  next
    case False
    hence m1: "0.01 < Md1" by simp
    let ?k1 = "kmd_of Md1 b d fcd"
    have c1: "calc_reinforcement_area Md1 b d fcd fyd = Inr ((Md1 * 100) / (lever_arm d ?k1 * fyd))"
      using calc_reinforcement_area_closed[OF assms(1-4) m1 assms(6)] .
    have "lever_arm d ?k2 \<le> lever_arm d ?k1"
      using lever_arm_antimono[OF assms(2) kmd_of_mono[OF assms(1-3) assms(5)]] .
    hence "lever_arm d ?k2 * fyd \<le> lever_arm d ?k1 * fyd" using assms(4) by simp
    moreover have "0 < lever_arm d ?k2 * fyd" using z2 assms(4) by simp
    moreover have "0 \<le> Md1 * 100" "Md1 * 100 \<le> Md2 * 100" using m1 assms(5) by simp_all
    ultimately have "(Md1 * 100) / (lever_arm d ?k1 * fyd) \<le> (Md2 * 100) / (lever_arm d ?k2 * fyd)"
      by (intro frac_le) simp_all
    thus ?thesis using c1 c2 by simp
  qed
qed

text \<open>A 20 cm wide section of effective depth 46 cm, moments of 50 and 94.5 kNm.\<close>

theorem calc_reinforcement_area_mono_witness:
  "(0::real) < 20 \<and> (0::real) < 46 \<and> (0::real) < 15/7 \<and> (0::real) < 1000/23 \<and>
   (50::real) \<le> 94.5 \<and> kmd_of 50 20 46 (15/7) \<le> 0.251 \<and> kmd_of 94.5 20 46 (15/7) \<le> 0.251 \<and>
   (\<exists>A1 A2. calc_reinforcement_area 50 20 46 (15/7) (1000/23) = Inr A1 \<and>
             calc_reinforcement_area 94.5 20 46 (15/7) (1000/23) = Inr A2 \<and> A1 \<le> A2)"
proof -
  have h: "(0::real) < 20" "(0::real) < 46" "(0::real) < 15/7" "(0::real) < 1000/23"
    "(50::real) \<le> 94.5" by simp_all
  have k1: "kmd_of 50 20 46 (15/7) \<le> 0.251" by (simp add: kmd_of_def)
  have k2: "kmd_of 94.5 20 46 (15/7) \<le> 0.251" by (simp add: kmd_of_def)
  show ?thesis
    using calc_reinforcement_area_mono[OF h k1 k2] h k1 k2 by blast
qed

section \<open>Minimum reinforcement after the design stage\<close>

lemma flexure_results_floor:
  assumes "flexure_results eng sp sec ls = Inr dr"
  shows "flexure_floor_ok eng sp sec dr"
proof -
  from assms obtain a1 a2 a3 where
    "Inr [''As_sup_esq'' \<mapsto> Num (if \<bar>moment_left sp\<bar> * gamma_f eng > 0.1
                                         then max a1 (as_min_of sec) else 0),
               ''As_sup_dir'' \<mapsto> Num (if \<bar>moment_right sp\<bar> * gamma_f eng > 0.1
                                         then max a2 (as_min_of sec) else 0),
               ''As_inf_vao'' \<mapsto> Num (max a3 (as_min_of sec)),
               ''Md_max'' \<mapsto> Num (max (max (\<bar>moment_left sp\<bar> * gamma_f eng)
                                              (\<bar>moment_right sp\<bar> * gamma_f eng))
                                         (midspan_moment sp ls * gamma_f eng))] = (Inr dr :: exn + (string \<rightharpoonup> dval))"
    unfolding flexure_results_def Let_def bindE_Inr_iff by blast
  hence dr: "dr = [''As_sup_esq'' \<mapsto> Num (if \<bar>moment_left sp\<bar> * gamma_f eng > 0.1
                                         then max a1 (as_min_of sec) else 0),
               ''As_sup_dir'' \<mapsto> Num (if \<bar>moment_right sp\<bar> * gamma_f eng > 0.1
                                         then max a2 (as_min_of sec) else 0),
               ''As_inf_vao'' \<mapsto> Num (max a3 (as_min_of sec)),
               ''Md_max'' \<mapsto> Num (max (max (\<bar>moment_left sp\<bar> * gamma_f eng)
                                              (\<bar>moment_right sp\<bar> * gamma_f eng))
                                         (midspan_moment sp ls * gamma_f eng))]"
    by (simp only: sum.inject)
  have 1: "dr ''As_inf_vao'' = Some (Num (max a3 (as_min_of sec)))"
    by (simp add: dr)
  have 2: "dr ''As_sup_esq'' = Some (Num (if \<bar>moment_left sp\<bar> * gamma_f eng > 0.1
                                         then max a1 (as_min_of sec) else 0))"
    by (simp add: dr)
  have 3: "dr ''As_sup_dir'' = Some (Num (if \<bar>moment_right sp\<bar> * gamma_f eng > 0.1
                                         then max a2 (as_min_of sec) else 0))"
    by (simp add: dr)
  show ?thesis unfolding flexure_floor_ok_def
    by (intro exI conjI, rule 1, simp, rule 2, simp, rule 3, simp)
qed

lemma design_frame_refl: "design_frame hp hp"
  unfolding design_frame_def
proof (intro conjI allI)
  fix r
  show "case span_objs hp r of None \<Rightarrow> span_objs hp r = None
           | Some sp \<Rightarrow> (\<exists>dr. span_objs hp r = Some (sp\<lparr>design_results := dr\<rparr>))"
  proof (cases "span_objs hp r")
    case (Some sp)
    have "sp = sp\<lparr>design_results := design_results sp\<rparr>" by simp
    thus ?thesis using Some by (simp, intro exI)
  qed simp
qed simp_all

lemma design_frameD:
  assumes "design_frame a b"
  shows "span_objs a r = None \<Longrightarrow> span_objs b r = None"
    and "span_objs a r = Some sp \<Longrightarrow> \<exists>dr. span_objs b r = Some (sp\<lparr>design_results := dr\<rparr>)"
proof -
  have c: "case span_objs a r of None \<Rightarrow> span_objs b r = None
           | Some sp \<Rightarrow> (\<exists>dr. span_objs b r = Some (sp\<lparr>design_results := dr\<rparr>))"
    using assms unfolding design_frame_def by blast
  show "span_objs a r = None \<Longrightarrow> span_objs b r = None" using c by simp
  show "span_objs a r = Some sp \<Longrightarrow> \<exists>dr. span_objs b r = Some (sp\<lparr>design_results := dr\<rparr>)"
    using c by simp
qed

lemma design_frame_trans:
  assumes "design_frame a b" "design_frame b c"
  shows "design_frame a c"
  unfolding design_frame_def
proof (intro conjI allI)
  fix r
  show "case span_objs a r of None \<Rightarrow> span_objs c r = None
           | Some sp \<Rightarrow> (\<exists>dr. span_objs c r = Some (sp\<lparr>design_results := dr\<rparr>))"
  proof (cases "span_objs a r")
    case None
    hence "span_objs c r = None"
      using design_frameD(1)[OF assms(2)] design_frameD(1)[OF assms(1)] by blast
    thus ?thesis using None by simp
  next
    case (Some sp)
    then obtain d1 where "span_objs b r = Some (sp\<lparr>design_results := d1\<rparr>)"
      using design_frameD(2)[OF assms(1)] by blast
    then obtain d2 where "span_objs c r = Some (sp\<lparr>design_results := d1, design_results := d2\<rparr>)"
      using design_frameD(2)[OF assms(2)] by blast
    hence "\<exists>dr. span_objs c r = Some (sp\<lparr>design_results := dr\<rparr>)"
      by (intro exI[of _ d2]) simp
    thus ?thesis using Some by simp
  qed
qed (use assms in \<open>simp_all add: design_frame_def\<close>)

lemma shear_results_indep:
  "shear_results eng (sp\<lparr>design_results := x\<rparr>) sec = shear_results eng sp sec"
  by (simp add: shear_results_def Let_def)

lemma flexure_floor_ok_indep:
  "flexure_floor_ok eng (sp\<lparr>design_results := x\<rparr>) sec dr = flexure_floor_ok eng sp sec dr"
  by (simp add: flexure_floor_ok_def)

lemma flexure_floor_ok_shear:
  assumes "flexure_floor_ok eng sp sec dr"
  shows "flexure_floor_ok eng sp sec (dr(''V_sd'' \<mapsto> a, ''Asw_s_req'' \<mapsto> b, ''Status_Biela'' \<mapsto> c))"
  using assms unfolding flexure_floor_ok_def by simp

lemma design_span_effect:
  assumes "design_span eng hp s = Inr hp'"
  shows "\<exists>sp sec dr. span_objs hp s = Some sp \<and> section_objs hp (span_section sp) = Some sec \<and>
           flexure_floor_ok eng sp sec dr \<and>
           hp' = hp\<lparr>span_objs := (span_objs hp)(s \<mapsto> sp\<lparr>design_results := Some dr\<rparr>)\<rparr>"
proof -
  from assms obtain hp1 where f: "design_flexure eng hp s = Inr hp1"
    and sh: "design_shear eng hp1 s = Inr hp'"
    unfolding design_span_def bindE_Inr_iff by blast
  from f obtain sp sec ls dr where sp: "span_objs hp s = Some sp"
    and sec: "section_objs hp (span_section sp) = Some sec"
    and fr: "flexure_results eng sp sec ls = Inr dr"
    and hp1: "hp1 = hp\<lparr>span_objs := (span_objs hp)(s \<mapsto> sp\<lparr>design_results := Some dr\<rparr>)\<rparr>"
    unfolding design_flexure_def bindE_Inr_iff deref_Inr_iff by auto
  from sh obtain v a st where
    hp': "hp' = hp1\<lparr>span_objs := (span_objs hp1)(s \<mapsto>
                 sp\<lparr>design_results := Some dr,
                    design_results := Some (dr(''V_sd'' \<mapsto> Num v,
                                              ''Asw_s_req'' \<mapsto> Num a,
                                              ''Status_Biela'' \<mapsto> Str st))\<rparr>)\<rparr>"
    unfolding design_shear_def bindE_Inr_iff deref_Inr_iff hp1 Let_def
    by (auto split: prod.splits)
  have ok: "flexure_floor_ok eng sp sec (dr(''V_sd'' \<mapsto> Num v, ''Asw_s_req'' \<mapsto> Num a,
                                              ''Status_Biela'' \<mapsto> Str st))"
    using flexure_floor_ok_shear[OF flexure_results_floor[OF fr]] .
  show ?thesis
    using sp sec ok by (intro exI conjI) (assumption+, simp add: hp' hp1)
qed

lemma ex_design_results_upd:
  "\<exists>dra. (sp :: BeamSpan)\<lparr>design_results := d\<rparr> = sp\<lparr>design_results := dra\<rparr>"
  by (rule exI[of _ d]) simp

lemma design_span_frame:
  assumes "design_span eng hp s = Inr hp'"
  shows "design_frame hp hp'" and "\<forall>r. r \<noteq> s \<longrightarrow> span_objs hp' r = span_objs hp r"
    and "span_floor_ok eng hp s hp'"
proof -
  from design_span_effect[OF assms] obtain sp sec dr where
    sp: "span_objs hp s = Some sp" and sec: "section_objs hp (span_section sp) = Some sec"
    and ok: "flexure_floor_ok eng sp sec dr"
    and hp': "hp' = hp\<lparr>span_objs := (span_objs hp)(s \<mapsto> sp\<lparr>design_results := Some dr\<rparr>)\<rparr>"
    by blast
  show "\<forall>r. r \<noteq> s \<longrightarrow> span_objs hp' r = span_objs hp r" by (simp add: hp')
  show "span_floor_ok eng hp s hp'"
    unfolding span_floor_ok_def using sp sec ok by (simp add: hp')
  show "design_frame hp hp'"
    unfolding design_frame_def
  proof (intro conjI allI)
    fix r
    show "case span_objs hp r of None \<Rightarrow> span_objs hp' r = None
           | Some sp \<Rightarrow> (\<exists>dr. span_objs hp' r = Some (sp\<lparr>design_results := dr\<rparr>))"
    proof (cases "r = s")
      case True
      then show ?thesis using sp ex_design_results_upd[where sp=sp and d="Some dr"] by (simp add: hp')
    next
      case False
      have "\<exists>dr. x = x\<lparr>design_results := dr\<rparr>" for x :: BeamSpan
        by (rule exI[of _ "design_results x"]) simp
      then show ?thesis using False by (simp add: hp' split: option.splits)
    qed
  qed (simp_all add: hp')
qed

lemma span_floor_ok_frame:
  assumes "design_frame hp hp1" and "span_floor_ok eng hp1 s hp'"
  shows "span_floor_ok eng hp s hp'"
proof -
  from assms(2) obtain sp1 sec sp' dr where
    a: "span_objs hp1 s = Some sp1" "section_objs hp1 (span_section sp1) = Some sec"
       "span_objs hp' s = Some sp'" "design_results sp' = Some dr" "flexure_floor_ok eng sp1 sec dr"
    unfolding span_floor_ok_def by blast
  obtain sp where sp: "span_objs hp s = Some sp"
    using a(1) design_frameD(1)[OF assms(1), of s] by (cases "span_objs hp s") auto
  then obtain d where "span_objs hp1 s = Some (sp\<lparr>design_results := d\<rparr>)"
    using design_frameD(2)[OF assms(1)] by blast
  hence sp1: "sp1 = sp\<lparr>design_results := d\<rparr>" using a(1) by simp
  have sec': "section_objs hp (span_section sp) = Some sec"
    using a(2) assms(1) by (simp add: sp1 design_frame_def)
  have "flexure_floor_ok eng sp sec dr" using a(5) by (simp add: sp1 flexure_floor_ok_indep)
  thus ?thesis unfolding span_floor_ok_def using sp sec' a(3,4) by blast
qed

lemma span_floor_ok_later:
  assumes "span_floor_ok eng hp s hp1" and "span_objs hp' s = span_objs hp1 s"
  shows "span_floor_ok eng hp s hp'"
  using assms unfolding span_floor_ok_def by simp

lemma design_fold_floor:
  assumes "foldE (design_span eng) hp xs = Inr hp'"
  shows "design_frame hp hp' \<and> (\<forall>r. r \<notin> set xs \<longrightarrow> span_objs hp' r = span_objs hp r) \<and>
         (\<forall>s\<in>set xs. span_floor_ok eng hp s hp')"
  using assms
proof (induction xs arbitrary: hp)
  case Nil
  then show ?case by (simp add: design_frame_refl)
next
  case (Cons x xs)
  from Cons.prems obtain hp1 where s1: "design_span eng hp x = Inr hp1"
    and r: "foldE (design_span eng) hp1 xs = Inr hp'"
    by (auto split: sum.splits)
  note st = design_span_frame[OF s1]
  from Cons.IH[OF r] have fr: "design_frame hp1 hp'"
    and un: "\<forall>r. r \<notin> set xs \<longrightarrow> span_objs hp' r = span_objs hp1 r"
    and fl: "\<forall>s\<in>set xs. span_floor_ok eng hp1 s hp'" by auto
  have 1: "design_frame hp hp'" using design_frame_trans[OF st(1) fr] .
  have 2: "\<forall>r. r \<notin> set (x # xs) \<longrightarrow> span_objs hp' r = span_objs hp r"
    using un st(2) by simp
  have 3: "span_floor_ok eng hp s hp'" if "s \<in> set (x # xs)" for s
  proof (cases "s \<in> set xs")
    case True
    then show ?thesis using span_floor_ok_frame[OF st(1)] fl by blast
  next
    case False
    with that have "s = x" by simp
    then show ?thesis using span_floor_ok_later[OF st(3)] un False by simp
  qed
  show ?case using 1 2 3 by blast
qed

text \<open>
  Claim C6. After \<^verbatim>\<open>run_design\<close> has returned, every span of the beam carries a dictionary
  in which the midspan area \<^verbatim>\<open>As_inf_vao\<close> is at least the floor \<open>0.0015 b h\<close> of its
  section, and each support area (\<^verbatim>\<open>As_sup_esq\<close>, \<^verbatim>\<open>As_sup_dir\<close>) is at least the floor
  when its design moment magnitude (end moment magnitude times the load factor) exceeds
  0.1, and is 0 (exempt) otherwise.
\<close>

theorem run_design_min_reinforcement:
  assumes "run_design eng hp beam = Inr hp'" and "beam_objs hp beam = Some B"
    and "s \<in> set (spans B)"
  shows "\<exists>sp sec sp' dr a_inf a_esq a_dir.
           span_objs hp s = Some sp \<and> section_objs hp (span_section sp) = Some sec \<and>
           span_objs hp' s = Some sp' \<and> design_results sp' = Some dr \<and>
           dr ''As_inf_vao'' = Some (Num a_inf) \<and> 0.0015 * sec_bw sec * sec_h sec \<le> a_inf \<and>
           dr ''As_sup_esq'' = Some (Num a_esq) \<and>
           (if \<bar>moment_left sp\<bar> * gamma_f eng > 0.1
            then 0.0015 * sec_bw sec * sec_h sec \<le> a_esq else a_esq = 0) \<and>
           dr ''As_sup_dir'' = Some (Num a_dir) \<and>
           (if \<bar>moment_right sp\<bar> * gamma_f eng > 0.1
            then 0.0015 * sec_bw sec * sec_h sec \<le> a_dir else a_dir = 0)"
proof -
  from assms(1,2) have "foldE (design_span eng) hp (spans B) = Inr hp'"
    by (simp add: run_design_def bindE_def deref_def)
  from design_fold_floor[OF this] assms(3) have "span_floor_ok eng hp s hp'" by blast
  thus ?thesis unfolding span_floor_ok_def flexure_floor_ok_def as_min_of_def by blast
qed

lemma calc_reinforcement_area_ok:
  assumes "0 < b" "0 < d" "0 < fcd" "0 < fyd" "kmd_of Md b d fcd \<le> 0.251"
  shows "\<exists>A. calc_reinforcement_area Md b d fcd fyd = Inr A"
proof (cases "Md \<le> 0.01")
  case True
  then show ?thesis by (simp add: calc_reinforcement_area_def)
next
  case False
  hence "0.01 < Md" by simp
  from calc_reinforcement_area_closed[OF assms(1-4) this assms(5)] show ?thesis by blast
qed

lemma flexure_results_ok:
  assumes "0 < sec_bw sec" and "4 < sec_h sec" and "0 < fck (material sp)"
    and "0 < fyk (material sp)" and "0 < gamma_s eng"
    and "kmd_of (\<bar>moment_left sp\<bar> * gamma_f eng) (sec_bw sec) (sec_h sec - 4) (get_fcd (material sp)) \<le> 0.251"
    and "kmd_of (\<bar>moment_right sp\<bar> * gamma_f eng) (sec_bw sec) (sec_h sec - 4) (get_fcd (material sp)) \<le> 0.251"
    and "kmd_of (midspan_moment sp ls * gamma_f eng) (sec_bw sec) (sec_h sec - 4) (get_fcd (material sp)) \<le> 0.251"
  shows "\<exists>dr. flexure_results eng sp sec ls = Inr dr"
proof -
  let ?fyd = "fyk (material sp) / gamma_s eng / 10"
  have d: "0 < sec_h sec - 4" using assms(2) by simp
  have fcd: "0 < get_fcd (material sp)" using assms(3) by (simp add: get_fcd_def)
  have fyd: "0 < ?fyd" using assms(4,5) by simp
  have q: "py_div (fyk (material sp)) (gamma_s eng) = Inr (fyk (material sp) / gamma_s eng)"
    using assms(5) by (simp add: py_div_def)
  from calc_reinforcement_area_ok[OF assms(1) d fcd fyd assms(6)] obtain a1 where
    a1: "calc_reinforcement_area (\<bar>moment_left sp\<bar> * gamma_f eng) (sec_bw sec) (sec_h sec - 4)
           (get_fcd (material sp)) ?fyd = Inr a1" by blast
  from calc_reinforcement_area_ok[OF assms(1) d fcd fyd assms(7)] obtain a2 where
    a2: "calc_reinforcement_area (\<bar>moment_right sp\<bar> * gamma_f eng) (sec_bw sec) (sec_h sec - 4)
           (get_fcd (material sp)) ?fyd = Inr a2" by blast
  from calc_reinforcement_area_ok[OF assms(1) d fcd fyd assms(8)] obtain a3 where
    a3: "calc_reinforcement_area (midspan_moment sp ls * gamma_f eng) (sec_bw sec) (sec_h sec - 4)
           (get_fcd (material sp)) ?fyd = Inr a3" by blast
  have "flexure_results eng sp sec ls \<noteq> Inl e" for e
    unfolding flexure_results_def Let_def q bindE_def
    using a1 a2 a3 by simp
  thus ?thesis by (cases "flexure_results eng sp sec ls") auto
qed

lemma shear_results_ok:
  assumes "gamma_c eng \<noteq> 0" and "0 \<le> fck (material sp)" and "sec_h sec \<noteq> 4"
  shows "\<exists>r. shear_results eng sp sec = Inr r"
proof -
  have "shear_results eng sp sec \<noteq> Inl e" for e
    unfolding shear_results_def Let_def pow_two_thirds_def bindE_def py_div_def
    using assms by simp
  thus ?thesis by (cases "shear_results eng sp sec") auto
qed

lemma design_span_ok:
  assumes "span_objs hp s = Some sp" and "section_objs hp (span_section sp) = Some sec"
    and "deref_list (load_objs hp) (loads sp) = Inr ls"
    and "\<exists>dr. flexure_results eng sp sec ls = Inr dr"
    and "\<exists>r. shear_results eng sp sec = Inr r"
  shows "\<exists>hp'. design_span eng hp s = Inr hp'"
proof -
  from assms(4) obtain dr where dr: "flexure_results eng sp sec ls = Inr dr" by blast
  from assms(5) obtain v a st where r: "shear_results eng sp sec = Inr (v, a, st)"
    by (metis prod_cases3)
  let ?hp1 = "hp\<lparr>span_objs := (span_objs hp)(s \<mapsto> sp\<lparr>design_results := Some dr\<rparr>)\<rparr>"
  have f: "design_flexure eng hp s = Inr ?hp1"
    using assms(1-3) dr by (simp add: design_flexure_def bindE_def deref_def)
  have "design_shear eng ?hp1 s \<noteq> Inl e" for e
    using assms(2) r
    by (simp add: design_shear_def bindE_def deref_def shear_results_indep Let_def)
  hence "\<exists>hp'. design_shear eng ?hp1 s = Inr hp'"
    by (cases "design_shear eng ?hp1 s") auto
  thus ?thesis using f by (simp add: design_span_def bindE_def)
qed

text \<open>
  The test block of \<^verbatim>\<open>elu_design.py\<close>: both support moments exceed the threshold, so all
  three areas are at least the floor of 1.5 cm2.
\<close>

theorem run_design_min_reinforcement_witness:
  "\<exists>hp'. run_design ELUDesignEngine_default hp_elu_test 3 = Inr hp' \<and>
      (\<exists>sp' dr a_inf a_esq a_dir.
           span_objs hp' 2 = Some sp' \<and> design_results sp' = Some dr \<and>
           dr ''As_inf_vao'' = Some (Num a_inf) \<and> 0.0015 * 20 * 50 \<le> a_inf \<and>
           dr ''As_sup_esq'' = Some (Num a_esq) \<and> 0.0015 * 20 * 50 \<le> a_esq \<and>
           dr ''As_sup_dir'' = Some (Num a_dir) \<and> 0.0015 * 20 * 50 \<le> a_dir)"
proof -
  let ?eng = ELUDesignEngine_default
  have sp: "span_objs hp_elu_test 2 = Some span_elu_test"
    and sec: "section_objs hp_elu_test (span_section span_elu_test) = Some sec_20x50"
    and ls: "deref_list (load_objs hp_elu_test) (loads span_elu_test) = Inr [load_15]"
    and b: "beam_objs hp_elu_test 3 = Some \<lparr>beam_id = ''Test'', spans = [2], nodes = [],
                             direction_vector = (1, 0)\<rparr>"
    by (simp_all add: hp_elu_test_def span_elu_test_def bindE_def deref_def)
  have mid: "midspan_moment span_elu_test [load_15] = 155/8"
    by (simp add: midspan_moment_def q_total_of_def span_elu_test_def load_15_def
        power2_eq_square)
  have fl: "\<exists>dr. flexure_results ?eng span_elu_test sec_20x50 [load_15] = Inr dr"
    by (rule flexure_results_ok)
      (simp_all add: mid, simp_all add: span_elu_test_def sec_20x50_def mat_C25_def
        ELUDesignEngine_default_def kmd_of_def get_fcd_def)
  have sh: "\<exists>r. shear_results ?eng span_elu_test sec_20x50 = Inr r"
    by (rule shear_results_ok)
      (simp_all add: span_elu_test_def sec_20x50_def mat_C25_def ELUDesignEngine_default_def)
  from design_span_ok[OF sp sec ls fl sh] obtain hp' where
    "design_span ?eng hp_elu_test 2 = Inr hp'" by blast
  hence r: "run_design ?eng hp_elu_test 3 = Inr hp'"
    using b by (simp add: run_design_def bindE_def deref_def)
  have s: "2 \<in> set (spans \<lparr>beam_id = ''Test'', spans = [2], nodes = [],
                             direction_vector = (1, 0)\<rparr>)" by simp
  from run_design_min_reinforcement[OF r b s] obtain sp0 sec0 sp' dr a_inf a_esq a_dir where
    o: "span_objs hp_elu_test 2 = Some sp0" "section_objs hp_elu_test (span_section sp0) = Some sec0"
       "span_objs hp' 2 = Some sp'" "design_results sp' = Some dr"
       "dr ''As_inf_vao'' = Some (Num a_inf)" "0.0015 * sec_bw sec0 * sec_h sec0 \<le> a_inf"
       "dr ''As_sup_esq'' = Some (Num a_esq)"
       "if \<bar>moment_left sp0\<bar> * gamma_f ?eng > 0.1
            then 0.0015 * sec_bw sec0 * sec_h sec0 \<le> a_esq else a_esq = 0"
       "dr ''As_sup_dir'' = Some (Num a_dir)"
       "if \<bar>moment_right sp0\<bar> * gamma_f ?eng > 0.1
            then 0.0015 * sec_bw sec0 * sec_h sec0 \<le> a_dir else a_dir = 0"
    by blast
  have sp0: "sp0 = span_elu_test" using o(1) sp by simp
  have sec0: "sec0 = sec_20x50" using o(2) sec by (simp add: sp0)
  have f1: "0.0015 * 20 * 50 \<le> a_inf" using o(6) by (simp add: sec0 sec_20x50_def)
  have f2: "0.0015 * 20 * 50 \<le> a_esq"
    using o(8) by (simp add: sp0 sec0 sec_20x50_def span_elu_test_def ELUDesignEngine_default_def)
  have f3: "0.0015 * 20 * 50 \<le> a_dir"
    using o(10) by (simp add: sp0 sec0 sec_20x50_def span_elu_test_def ELUDesignEngine_default_def)
  have "\<exists>sp' dr a_inf a_esq a_dir.
           span_objs hp' 2 = Some sp' \<and> design_results sp' = Some dr \<and>
           dr ''As_inf_vao'' = Some (Num a_inf) \<and> 0.0015 * 20 * 50 \<le> a_inf \<and>
           dr ''As_sup_esq'' = Some (Num a_esq) \<and> 0.0015 * 20 * 50 \<le> a_esq \<and>
           dr ''As_sup_dir'' = Some (Num a_dir) \<and> 0.0015 * 20 * 50 \<le> a_dir"
    using o(3,4,5,7,9) f1 f2 f3 by blast
  with r show ?thesis by blast
qed

section \<open>Well-definedness of the crack-width computation\<close>

















section \<open>Serviceability checks on a span without design results\<close>

lemma add_spans_one_span: "add_spans hp_fresh 1 [call_6m] = Inr hp_one_span"
  by (simp add: add_spans_def add_span_call_def add_span_def add_span_start_def bindE_def
      deref_def hp_fresh_def new_Beam_def new_CrossSection_def new_Node_def new_BeamSpan_def
      empty_heap_def call_6m_def get_conditions_def hp_one_span_def span_6m_def Let_def
      eval_nat_numeral)

lemma check_span_absent:
  assumes "span_objs hp s = Some sp" and "design_results sp = None"
  shows "check_span eng bid (hp, out) s = Inr (hp, out @ [aviso_sem_elu bid])"
  using assms by (simp add: check_span_def bindE_def deref_def Let_def)

lemma check_span_present:
  assumes "span_objs hp s = Some sp" and "design_results sp = Some dr"
    and "check_span eng bid (hp, out) s = Inr (hp', out')"
  shows "out' = out \<and> (\<exists>r. hp' = hp\<lparr>span_objs := (span_objs hp)(s \<mapsto> sp\<lparr>els_results := Some r\<rparr>)\<rparr>)"
  using assms
  by (auto simp: check_span_def Let_def bindE_Inr_iff deref_Inr_iff)

text \<open>
  Claim C2 fails on the code. \<^verbatim>\<open>design_results\<close> is a dataclass field with a default, so
  \<^verbatim>\<open>hasattr(span, "design_results")\<close> holds for every span, also for one on which the
  design has not run: on the beam of one span that \<^verbatim>\<open>add_span\<close> builds, \<^verbatim>\<open>run_checks\<close>
  prints nothing, skips nothing and attaches a serviceability result (zero crack width
  and deflection, both statuses OK) to the span.
\<close>

theorem run_checks_without_design:
  "add_spans hp_fresh 1 [call_6m] = Inr hp_one_span \<and>
   span_objs hp_one_span 4 = Some span_6m \<and>
   design_results span_6m = Some Map.empty \<and> els_results span_6m = None \<and>
   run_checks ELSCheckerEngine_default hp_one_span 1 =
     Inr (hp_one_span\<lparr>span_objs := [4 \<mapsto> span_6m\<lparr>els_results := Some
            \<lparr>wk_calc = 0, wk_limit = 0.3, deflection_inst = 0, deflection_total = 0,
             deflection_limit = 24, status_crack = ''OK'', status_deflection = ''OK''\<rparr>\<rparr>]\<rparr>, [])"
proof -
  have r0: "py_round 0 2 = 0" by (simp add: py_round_def round_half_even_def)
  have cr: "check_cracking ELSCheckerEngine_default span_6m sec_20x50 Map.empty
              = Inr \<lparr>cr_wk = 0, cr_limit = 0.3, cr_status = ''OK''\<rparr>"
    by (simp add: check_cracking_def get_num_def bindE_def crack_limits_def
        ELSCheckerEngine_default_def Let_def)
  have df: "check_deflection span_6m sec_20x50 []
              = Inr \<lparr>df_inst = 0, df_total = 0, df_limit = 24, df_status = ''OK''\<rparr>"
    by (simp add: check_deflection_def q_total_of_def py_div_def bindE_def r0 inertia_def
        sec_20x50_def span_6m_def mat_C30_def Let_def)
  have sp: "span_objs hp_one_span 4 = Some span_6m"
    and sec: "section_objs hp_one_span (span_section span_6m) = Some sec_20x50"
    and ls: "deref_list (load_objs hp_one_span) (loads span_6m) = Inr []"
    and dr: "design_results span_6m = Some Map.empty" "els_results span_6m = None"
    and b: "beam_objs hp_one_span 1 = Some \<lparr>beam_id = ''V1'', spans = [4], nodes = [2, 3],
                             direction_vector = (1, 0)\<rparr>"
    by (simp_all add: hp_one_span_def span_6m_def)
  have "run_checks ELSCheckerEngine_default hp_one_span 1 =
     Inr (hp_one_span\<lparr>span_objs := (span_objs hp_one_span)(4 \<mapsto> span_6m\<lparr>els_results := Some
            \<lparr>wk_calc = 0, wk_limit = 0.3, deflection_inst = 0, deflection_total = 0,
             deflection_limit = 24, status_crack = ''OK'', status_deflection = ''OK''\<rparr>\<rparr>)\<rparr>, [])"
    using b by (simp add: run_checks_def check_span_def bindE_def deref_def sp sec ls dr cr df Let_def)
  moreover have "(span_objs hp_one_span)(4 \<mapsto> x) = [4 \<mapsto> x]" for x
    by (simp add: hp_one_span_def)
  ultimately show ?thesis using add_spans_one_span sp dr by simp
qed

section \<open>End-to-end scenario: one simply supported span\<close>

lemma append_load_loaded: "append_load hp_one_span 4 load_15_6m = Inr hp_loaded"
  by (simp add: append_load_def bindE_def deref_def new_Load_def hp_one_span_def hp_loaded_def
      span_6m_def Let_def)

lemma B_one_simps: "nodes B_one = [2, 3]" "spans B_one = [4]" "beam_id B_one = ''V1''"
  by (simp_all add: B_one_def)

lemma hp_loaded_simps:
  "beam_objs hp_loaded (Suc 0) = Some B_one"
  "span_objs hp_loaded 4 = Some (span_6m\<lparr>loads := [5]\<rparr>)"
  "section_objs hp_loaded 0 = Some sec_20x50"
  "load_objs hp_loaded 5 = Some load_15_6m"
  "node_objs hp_loaded 2 = Some \<lparr>node_id = 0, node_x = 0, node_y = 0, node_z = 0,
                           support_conditions = [True, False]\<rparr>"
  "node_objs hp_loaded 3 = Some \<lparr>node_id = 1, node_x = 6, node_y = 0, node_z = 0,
                           support_conditions = [True, False]\<rparr>"
  by (simp_all add: hp_loaded_def hp_one_span_def B_one_def)

lemma span_loaded_simps:
  "span_section (span_6m\<lparr>loads := [5]\<rparr>) = 0"
  "loads (span_6m\<lparr>loads := [5]\<rparr>) = [5]"
  "span_length (span_6m\<lparr>loads := [5]\<rparr>) = 6"
  by (simp_all add: span_6m_def)

lemma EIL_6m: "span_EIL (span_6m\<lparr>loads := [5]\<rparr>) sec_20x50 = (26000000, 1/480, 6)"
  by (simp add: span_EIL_def span_6m_def sec_20x50_def mat_C30_def inertia_def)

lemma k_6m: "local_stiffness 26000000 (1/480) 6 =
   Inr (map (map (\<lambda>x. (40625/162) * x))
              [[12, 36, - 12, 36],
               [36, 144, - 36, 72],
               [- 12, - 36, 12, - 36],
               [36, 72, - 36, 144]])"
  by (simp add: local_stiffness_def py_div_def bindE_def)

lemma list4_update:
  "[a, b, c, d][2 := x] = [a, b, x, d]"
  "[a, b, c, d][3 := x] = [a, b, c, x]"
  by (simp_all add: eval_nat_numeral)

lemma zeros_4: "zeros 4 = [0, 0, 0, 0]"
  by (simp add: zeros_def eval_nat_numeral)

lemma zeros2_4: "zeros2 4 4 = [[0, 0, 0, 0], [0, 0, 0, 0], [0, 0, 0, 0], [0, 0, 0, 0]]"
  by (simp add: zeros2_def zeros_4) (simp add: eval_nat_numeral)

lemma indices_of_0: "indices_of 0 = [0, 1, 2, 3]"
  by (simp add: indices_of_def)

lemma K_6m: "assemble_stiffness_matrix hp_loaded B_one =
   Inr (map (map (\<lambda>x. (40625/162) * x))
              [[12, 36, - 12, 36],
               [36, 144, - 36, 72],
               [- 12, - 36, 12, - 36],
               [36, 72, - 36, 144]])"
  by (simp add: assemble_stiffness_matrix_def stiffness_step_def hp_loaded_simps EIL_6m k_6m
      span_loaded_simps
      B_one_def bindE_def deref_def add_local_def add_row_def mat_add_at_def
      indices_of_0 zeros2_4 list4_update Let_def)

lemma fixed_end_6m: "fixed_end_reactions 6 [load_15_6m] = [45, 45, 45, - 45]"
  by (simp add: fixed_end_reactions_def add_fixed_end_def load_15_6m_def zeros_4 Let_def)

lemma F_6m: "assemble_load_vector hp_loaded B_one = Inr [- 45, - 45, - 45, 45]"
  by (simp add: assemble_load_vector_def load_step_def hp_loaded_simps span_loaded_simps
      fixed_end_6m B_one_def bindE_def deref_def vec_sub_at_def indices_of_0 zeros_4
      list4_update Let_def)

lemma free_6m: "free_dofs_of hp_loaded B_one = Inr [1, 3]"
  by (simp add: free_dofs_of_def free_dofs_step_def hp_loaded_simps B_one_def bindE_def
      deref_def py_index_def Let_def)

lemma reduced_6m:
  "reduced_system hp_loaded 1 =
     Inr ([[(40625/162) * 144, (40625/162) * 72], [(40625/162) * 72, (40625/162) * 144]],
          [- 45, 45], [1, 3])"
  using hp_loaded_simps(1)
  by (simp add: reduced_system_def K_6m F_6m free_6m bindE_def deref_def K_reduced_of_def
      F_reduced_of_def B_one_simps)

lemma solve_6m:
  "solve_system 4 ([[(40625/162) * 144, (40625/162) * 72], [(40625/162) * 72, (40625/162) * 144]],
          [- 45, 45], [1, 3]) = Inr [0, - (81/32500), 0, 81/32500]"
  by (simp add: solve_system_def linalg_solve_def eliminate_def np_put_def zeros_4 list4_update
      Let_def)

lemma forces_6m:
  "compute_internal_forces hp_loaded B_one [0, - (81/32500), 0, 81/32500] = Inr hp_solved"
proof -
  have s: "(span_objs hp_loaded)(4 \<mapsto> x) = [4 \<mapsto> x]" for x
    by (simp add: hp_loaded_def)
  show ?thesis
    by (simp add: compute_internal_forces_def internal_step_def hp_loaded_simps
        span_loaded_simps EIL_6m k_6m fixed_end_6m B_one_simps bindE_def deref_def py_index_def
        indices_of_0 mat_vec_def hp_solved_def span_solved_def s Let_def)
qed

lemma hp_loaded_beam: "beam_objs hp_loaded 1 = Some B_one"
  using hp_loaded_simps(1) by simp

lemma n_dofs_one: "length (nodes B_one) * 2 = 4"
  by (simp add: B_one_simps)

lemma solve_6m_beam: "MatrixSolver_solve hp_loaded 1 = Inr hp_solved"
  by (simp only: MatrixSolver_solve_def reduced_6m bindE_def sum.case deref_def hp_loaded_beam
      option.case n_dofs_one solve_6m forces_6m)

lemma lever_arm_upper:
  assumes "0 < d" and "0 \<le> k"
  shows "lever_arm d k \<le> d"
proof -
  have "0.68 ^ 2 - 4 * 0.272 * k \<le> (0.68::real) ^ 2" using assms(2) by simp
  hence "sqrt (0.68 ^ 2 - 4 * 0.272 * k) \<le> 0.68" by (intro real_le_lsqrt) simp_all
  hence "0 \<le> (0.68 - sqrt (0.68 ^ 2 - 4 * 0.272 * k)) / (2 * 0.272)" by simp
  hence "1 - 0.4 * ((0.68 - sqrt (0.68 ^ 2 - 4 * 0.272 * k)) / (2 * 0.272)) \<le> 1" by simp
  hence "d * (1 - 0.4 * ((0.68 - sqrt (0.68 ^ 2 - 4 * 0.272 * k)) / (2 * 0.272))) \<le> d * 1"
    using assms(1) by (intro mult_left_mono) simp_all
  thus ?thesis by (simp add: lever_arm_def)
qed

lemma span_solved_simps:
  "moment_left span_solved = 0" "moment_right span_solved = 0"
  "shear_left span_solved = 45" "shear_right span_solved = - 45"
  "span_length span_solved = 6" "material span_solved = mat_C30"
  "span_section span_solved = 0" "loads span_solved = [5]"
  "design_results span_solved = Some Map.empty"
  by (simp_all add: span_solved_def span_6m_def)

lemma hp_solved_simps:
  "beam_objs hp_solved 1 = Some B_one"
  "span_objs hp_solved 4 = Some span_solved"
  "section_objs hp_solved 0 = Some sec_20x50"
  "load_objs hp_solved 5 = Some load_15_6m"
  using hp_loaded_beam hp_loaded_simps by (simp_all add: hp_solved_def)

lemma midspan_6m: "midspan_moment span_solved [load_15_6m] = 67.5"
  by (simp add: midspan_moment_def q_total_of_def load_15_6m_def span_solved_simps Let_def)

lemma As_6m_calc: "calc_reinforcement_area (189/2) 20 46 (15/7) (1000/23) = Inr As_6m"
proof -
  have "calc_reinforcement_area 94.5 20 46 (15/7) (1000/23) = Inr As_6m"
    unfolding As_6m_def
    by (rule calc_reinforcement_area_closed) (simp_all add: kmd_of_def)
  thus ?thesis by simp
qed

lemma As_6m_lower: "4.7 < As_6m"
proof -
  have k: "0 \<le> kmd_of 94.5 20 46 (15/7)" "kmd_of 94.5 20 46 (15/7) \<le> 0.251"
    by (simp_all add: kmd_of_def)
  have u: "lever_arm 46 (kmd_of 94.5 20 46 (15/7)) \<le> 46"
    by (rule lever_arm_upper[OF _ k(1)]) simp
  have l: "0 < lever_arm 46 (kmd_of 94.5 20 46 (15/7))"
    using lever_arm_lower[of 46, OF _ k(2)] by simp
  have "(94.5 * 100) / (46 * (1000/23)) \<le> As_6m"
    unfolding As_6m_def using u l by (intro divide_left_mono mult_right_mono mult_pos_pos) simp_all
  thus ?thesis by simp
qed

lemma flexure_6m:
  "flexure_results ELUDesignEngine_default span_solved sec_20x50 [load_15_6m] =
     Inr [''As_sup_esq'' \<mapsto> Num 0, ''As_sup_dir'' \<mapsto> Num 0,
          ''As_inf_vao'' \<mapsto> Num As_6m, ''Md_max'' \<mapsto> Num 94.5]"
proof -
  have c0: "calc_reinforcement_area 0 20 46 (15/7) (1000/23) = Inr 0"
    by (simp add: calc_reinforcement_area_def)
  have m: "max As_6m (3/2) = As_6m" using As_6m_lower by simp
  show ?thesis
    by (simp add: flexure_results_def ELUDesignEngine_default_def span_solved_simps midspan_6m
        sec_20x50_def mat_C30_def get_fcd_def py_div_def bindE_def c0 As_6m_calc as_min_of_def
        m Let_def)
qed

lemma run_design_6m:
  "\<exists>hp3 sp dr. run_design ELUDesignEngine_default hp_solved 1 = Inr hp3 \<and>
      span_objs hp3 4 = Some sp \<and> design_results sp = Some dr \<and>
      dr ''As_inf_vao'' = Some (Num As_6m)"
proof -
  let ?eng = ELUDesignEngine_default
  let ?dr = "[''As_sup_esq'' \<mapsto> Num 0, ''As_sup_dir'' \<mapsto> Num 0,
          ''As_inf_vao'' \<mapsto> Num As_6m, ''Md_max'' \<mapsto> Num 94.5]"
  have "\<exists>r. shear_results ?eng span_solved sec_20x50 = Inr r"
    by (rule shear_results_ok)
      (simp_all add: ELUDesignEngine_default_def span_solved_simps mat_C30_def sec_20x50_def)
  then obtain v a st where sh: "shear_results ?eng span_solved sec_20x50 = Inr (v, a, st)"
    by (metis prod_cases3)
  let ?dr2 = "?dr(''V_sd'' \<mapsto> Num v, ''Asw_s_req'' \<mapsto> Num a, ''Status_Biela'' \<mapsto> Str st)"
  let ?hp1 = "hp_solved\<lparr>span_objs := (span_objs hp_solved)(4 \<mapsto>
                  span_solved\<lparr>design_results := Some ?dr\<rparr>)\<rparr>"
  let ?hp3 = "?hp1\<lparr>span_objs := (span_objs ?hp1)(4 \<mapsto>
                  span_solved\<lparr>design_results := Some ?dr2\<rparr>)\<rparr>"
  have ls: "deref_list (load_objs hp_solved) [5] = Inr [load_15_6m]"
    by (simp add: hp_solved_simps bindE_def deref_def)
  have f: "design_flexure ?eng hp_solved 4 = Inr ?hp1"
    by (simp add: design_flexure_def hp_solved_simps span_solved_simps ls flexure_6m bindE_def
        deref_def)
  have s: "design_shear ?eng ?hp1 4 = Inr ?hp3"
    by (simp add: design_shear_def hp_solved_simps span_solved_simps shear_results_indep sh
        bindE_def deref_def Let_def)
  have d: "design_span ?eng hp_solved 4 = Inr ?hp3"
    by (simp only: design_span_def f s bindE_def sum.case)
  have r: "run_design ?eng hp_solved 1 = Inr ?hp3"
    by (simp only: run_design_def deref_def hp_solved_simps option.case bindE_def sum.case
        B_one_simps foldE.simps d)
  have l: "?dr2 ''As_inf_vao'' = Some (Num As_6m)" by simp
  show ?thesis
    by (intro exI[of _ ?hp3] exI[of _ "span_solved\<lparr>design_results := Some ?dr2\<rparr>"]
        exI[of _ ?dr2] conjI r l) simp_all
qed

text \<open>
  Claim C1. The beam built by one \<^verbatim>\<open>add_span\<close> of 6 m (section 20x50, \<open>fck = 30\<close>,
  \<open>Ecs = 26000\<close>, both ends pinned) with one distributed load of 15 kN/m: after
  \<^verbatim>\<open>MatrixSolver.solve\<close> the span has end shears of 45 and -45 kN (and zero end moments),
  the midspan moment estimate before amplification is 67.5 kNm, and after
  \<^verbatim>\<open>run_design\<close> with the load factor 1.4 the stored \<^verbatim>\<open>As_inf_vao\<close> is strictly above the
  minimum of \<open>0.0015 b h = 1.5\<close> cm2 (it is above 4.7 cm2).
\<close>

theorem end_to_end_single_span:
  "add_spans hp_fresh 1 [call_6m] = Inr hp_one_span \<and>
   append_load hp_one_span 4 load_15_6m = Inr hp_loaded \<and>
   MatrixSolver_solve hp_loaded 1 = Inr hp_solved \<and>
   span_objs hp_solved 4 = Some span_solved \<and>
   shear_left span_solved = 45 \<and> shear_right span_solved = - 45 \<and>
   moment_left span_solved = 0 \<and> moment_right span_solved = 0 \<and>
   midspan_moment span_solved [load_15_6m] = 67.5 \<and>
   gamma_f ELUDesignEngine_default = 1.4 \<and>
   (\<exists>hp3 sp dr a. run_design ELUDesignEngine_default hp_solved 1 = Inr hp3 \<and>
      span_objs hp3 4 = Some sp \<and> design_results sp = Some dr \<and>
      dr ''As_inf_vao'' = Some (Num a) \<and> 0.0015 * sec_bw sec_20x50 * sec_h sec_20x50 < a \<and>
      0.0015 * sec_bw sec_20x50 * sec_h sec_20x50 = 1.5 \<and> 4.7 < a)"
proof -
  have m: "0.0015 * sec_bw sec_20x50 * sec_h sec_20x50 = 1.5" by (simp add: sec_20x50_def)
  have "0.0015 * sec_bw sec_20x50 * sec_h sec_20x50 < As_6m" using As_6m_lower m by simp
  with run_design_6m m As_6m_lower
  have "\<exists>hp3 sp dr a. run_design ELUDesignEngine_default hp_solved 1 = Inr hp3 \<and>
      span_objs hp3 4 = Some sp \<and> design_results sp = Some dr \<and>
      dr ''As_inf_vao'' = Some (Num a) \<and> 0.0015 * sec_bw sec_20x50 * sec_h sec_20x50 < a \<and>
      0.0015 * sec_bw sec_20x50 * sec_h sec_20x50 = 1.5 \<and> 4.7 < a"
    by blast
  moreover have "gamma_f ELUDesignEngine_default = 1.4" by (simp add: ELUDesignEngine_default_def)
  ultimately show ?thesis
    using add_spans_one_span append_load_loaded solve_6m_beam hp_solved_simps(2)
      span_solved_simps(1-4) midspan_6m by blast
qed

section \<open>Singular structures\<close>

lemma pivot_split_set:
  assumes "pivot_split rows = Some (p, rest)"
  shows "p \<in> set rows \<and> set rest \<subseteq> set rows"
  using assms
proof (induction rows arbitrary: p rest)
  case Nil
  then show ?case by simp
next
  case (Cons r rs)
  show ?case
  proof (cases "pivot_split rs")
    case None
    with Cons.prems show ?thesis by simp
  next
    case (Some a)
    obtain q rest' where a: "a = (q, rest')" by (cases a)
    from Cons.IH[OF Some[unfolded a]] have "q \<in> set rs" "set rest' \<subseteq> set rs" by auto
    with Cons.prems Some a show ?thesis by (auto split: if_splits)
  qed
qed

lemma dot_zeros: "dot xs (replicate n 0) = 0"
proof (induction xs arbitrary: n)
  case Nil
  then show ?case by simp
next
  case (Cons x xs)
  then show ?case by (cases n) simp_all
qed

lemma dot_eliminate:
  assumes "length (fst r) = Suc n" and "length (fst p) = Suc n" and "length v = n"
    and "hd (fst p) \<noteq> 0"
    and "dot (fst r) (v0 # v) = 0" and "dot (fst p) (v0 # v) = 0"
  shows "dot (fst (eliminate p r)) v = 0"
proof -
  obtain a as where r: "fst r = a # as" using assms(1) by (cases "fst r") auto
  obtain b bs where p: "fst p = b # bs" using assms(2) by (cases "fst p") auto
  have la: "length as = n" and lb: "length bs = n" using assms(1,2) r p by auto
  have gen: "dot (map (\<lambda>(x, y). x - m * y) (zip as bs)) v = dot as v - m * dot bs v"
    if "length as = length v" "length bs = length v" for as bs m and v :: "real list"
    using that
  proof (induction as arbitrary: bs v)
    case Nil
    then show ?case by simp
  next
    case (Cons x xs)
    then obtain y ys where "bs = y # ys" by (cases bs) auto
    moreover from Cons.prems obtain w ws where "v = w # ws" by (cases v) auto
    ultimately show ?case using Cons by (simp add: algebra_simps)
  qed
  have b0: "b \<noteq> 0" using assms(4) p by simp
  have ra: "a * v0 + dot as v = 0" using assms(5) r by simp
  have rb: "b * v0 + dot bs v = 0" using assms(6) p by simp
  have "dot (fst (eliminate p r)) v = dot as v - (a / b) * dot bs v"
    using gen[of as v bs "a / b"] la lb assms(3) by (simp add: eliminate_def r p Let_def)
  also have "\<dots> = - (a * v0) - (a / b) * (- (b * v0))"
  proof -
    have "dot as v = - (a * v0)" "dot bs v = - (b * v0)" using ra rb by linarith+
    thus ?thesis by simp
  qed
  also have "\<dots> = 0" using b0 by simp
  finally show ?thesis .
qed

lemma eliminate_length:
  assumes "length (fst r) = Suc n" and "length (fst p) = Suc n"
  shows "length (fst (eliminate p r)) = n"
  using assms by (simp add: eliminate_def Let_def)

lemma gauss_trivial_kernel:
  assumes "gauss n rows = Some xs" and "\<forall>r\<in>set rows. length (fst r) = n"
    and "length v = n" and "\<forall>r\<in>set rows. dot (fst r) v = 0"
  shows "v = replicate n 0"
  using assms
proof (induction n arbitrary: rows xs v)
  case 0
  then show ?case by simp
next
  case (Suc n)
  from Suc.prems(1) obtain p rest ys where ps: "pivot_split rows = Some (p, rest)"
    and p0: "hd (fst p) \<noteq> 0"
    and g: "gauss n (map (eliminate p) rest) = Some ys"
    by (auto split: option.splits if_splits prod.splits)
  from pivot_split_set[OF ps] have pin: "p \<in> set rows" and rin: "set rest \<subseteq> set rows" by auto
  obtain v0 vt where v: "v = v0 # vt" and lv: "length vt = n"
    using Suc.prems(3) by (cases v) auto
  have lp: "length (fst p) = Suc n" using Suc.prems(2) pin by blast
  have dp: "dot (fst p) (v0 # vt) = 0" using Suc.prems(4) pin v by blast
  have 1: "\<forall>r\<in>set (map (eliminate p) rest). length (fst r) = n"
    using rin Suc.prems(2) lp by (auto intro!: eliminate_length)
  have 2: "\<forall>r\<in>set (map (eliminate p) rest). dot (fst r) vt = 0"
  proof
    fix r' assume "r' \<in> set (map (eliminate p) rest)"
    then obtain r where r: "r \<in> set rest" "r' = eliminate p r" by auto
    hence "r \<in> set rows" using rin by blast
    hence "length (fst r) = Suc n" "dot (fst r) (v0 # vt) = 0"
      using Suc.prems(2,4) v by auto
    thus "dot (fst r') vt = 0" using dot_eliminate[OF _ lp lv p0 _ dp] r(2) by simp
  qed
  from Suc.IH[OF g 1 lv 2] have vt: "vt = replicate n 0" .
  obtain b bs where p: "fst p = b # bs" using lp by (cases "fst p") auto
  have "b * v0 = 0" using dp p vt by (simp add: dot_zeros)
  moreover have "b \<noteq> 0" using p0 p by simp
  ultimately have "v0 = 0" by simp
  thus ?case using v vt by simp
qed

lemma linalg_solve_singular:
  assumes "singular A" and "\<forall>row\<in>set A. length row = length A"
  shows "linalg_solve A b = None"
proof (rule ccontr)
  assume "linalg_solve A b \<noteq> None"
  then obtain xs where g: "gauss (length A) (zip A b) = Some xs"
    by (auto simp: linalg_solve_def)
  from assms(1) obtain v where v: "length v = length A" "v \<noteq> zeros (length A)"
    "\<forall>row\<in>set A. dot row v = 0" unfolding singular_def by blast
  have 1: "\<forall>r\<in>set (zip A b). length (fst r) = length A"
    using assms(2) by (auto dest: set_zip_leftD)
  have 2: "\<forall>r\<in>set (zip A b). dot (fst r) v = 0"
    using v(3) by (auto dest: set_zip_leftD)
  from gauss_trivial_kernel[OF g 1 v(1) 2] v(2) show False by (simp add: zeros_def)
qed

lemma reduced_system_Inr:
  assumes "reduced_system hp beam = Inr (Kr, Fr, fd)"
  shows "\<exists>B K F. beam_objs hp beam = Some B \<and> nodes B \<noteq> [] \<and> spans B \<noteq> [] \<and>
           assemble_stiffness_matrix hp B = Inr K \<and> assemble_load_vector hp B = Inr F \<and>
           free_dofs_of hp B = Inr fd \<and> Kr = K_reduced_of K fd \<and> Fr = F_reduced_of F fd"
  using assms
  by (auto simp: reduced_system_def bindE_Inr_iff deref_Inr_iff split: if_splits)

lemma reduced_system_square:
  assumes "reduced_system hp beam = Inr (Kr, Fr, fd)"
  shows "\<forall>row\<in>set Kr. length row = length Kr"
proof -
  from reduced_system_Inr[OF assms] obtain K where "Kr = K_reduced_of K fd" by blast
  thus ?thesis by (auto simp: K_reduced_of_def)
qed

lemma solve_singular_general:
  assumes "reduced_system hp beam = Inr (Kr, Fr, fd)" and "singular Kr"
  shows "MatrixSolver_solve hp beam = Inl SingularMatrixException"
proof -
  from reduced_system_Inr[OF assms(1)] obtain B where B: "beam_objs hp beam = Some B" by blast
  have "linalg_solve Kr Fr = None"
    using linalg_solve_singular[OF assms(2) reduced_system_square[OF assms(1)]] .
  thus ?thesis
    by (simp add: MatrixSolver_solve_def assms(1) B bindE_def deref_def solve_system_def)
qed

subsection \<open>Rounding to double precision\<close>

lemma round_half_even_near:
  assumes "\<bar>z - of_int M\<bar> < 1/2 \<or> (\<bar>z - of_int M\<bar> = 1/2 \<and> even M)"
  shows "round_half_even z = M"
proof -
  from assms have le: "\<bar>z - of_int M\<bar> \<le> 1/2" by auto
  hence c: "\<lfloor>z\<rfloor> = M \<or> \<lfloor>z\<rfloor> = M - 1" by linarith
  show ?thesis
  proof (cases "\<bar>z - of_int M\<bar> < 1/2")
    case True
    from c show ?thesis
    proof
      assume f: "\<lfloor>z\<rfloor> = M"
      hence "z - of_int \<lfloor>z\<rfloor> < 1/2" using True by linarith
      thus ?thesis using f by (simp add: round_half_even_def Let_def)
    next
      assume f: "\<lfloor>z\<rfloor> = M - 1"
      hence "z - of_int \<lfloor>z\<rfloor> > 1/2" using True by linarith
      thus ?thesis using f by (simp add: round_half_even_def Let_def)
    qed
  next
    case False
    with assms have t: "\<bar>z - of_int M\<bar> = 1/2" and ev: "even M" by auto
    from c show ?thesis
    proof
      assume f: "\<lfloor>z\<rfloor> = M"
      hence "z - of_int \<lfloor>z\<rfloor> = 1/2" using t by linarith
      thus ?thesis using f ev by (simp add: round_half_even_def Let_def)
    next
      assume f: "\<lfloor>z\<rfloor> = M - 1"
      hence "z - of_int \<lfloor>z\<rfloor> = 1/2" using t by linarith
      moreover have "odd \<lfloor>z\<rfloor>" using f ev by simp
      ultimately show ?thesis using f by (simp add: round_half_even_def Let_def)
    qed
  qed
qed

lemma fl_eqI:
  fixes x :: real and M e :: int
  assumes lo: "2 ^ 52 * 2 powr (of_int e) \<le> \<bar>x\<bar>" and hi: "\<bar>x\<bar> < 2 ^ 53 * 2 powr (of_int e)"
    and near: "\<bar>x / 2 powr (of_int e) - of_int M\<bar> < 1/2 \<or>
               (\<bar>x / 2 powr (of_int e) - of_int M\<bar> = 1/2 \<and> even M)"
  shows "fl x = of_int M * 2 powr (of_int e)"
proof -
  have p: "(0::real) < 2 powr (of_int e)" by simp
  have x0: "x \<noteq> 0" using lo p by (smt (verit) mult_pos_pos zero_less_power)
  have a: "2 powr (52 + of_int e) \<le> \<bar>x\<bar>"
    using lo by (simp add: powr_add)
  have b: "\<bar>x\<bar> < 2 powr (53 + of_int e)"
    using hi by (simp add: powr_add)
  have "\<lfloor>log 2 \<bar>x\<bar>\<rfloor> = 52 + e"
  proof (rule floor_unique)
    show "of_int (52 + e) \<le> log 2 \<bar>x\<bar>"
      using a x0 by (simp add: le_log_iff)
    show "log 2 \<bar>x\<bar> < of_int (52 + e) + 1"
      using b x0 by (simp add: log_less_iff)
  qed
  hence e: "\<lfloor>log 2 \<bar>x\<bar>\<rfloor> - 52 = e" by simp
  show ?thesis
    using x0 by (simp add: fl_def Let_def e round_half_even_near[OF near])
qed

lemma fl_down:
  fixes x :: real and M :: int and k :: nat
  assumes "2 ^ 52 \<le> \<bar>x\<bar> * 2 ^ k" and "\<bar>x\<bar> * 2 ^ k < 2 ^ 53"
    and "\<bar>x * 2 ^ k - of_int M\<bar> < 1/2 \<or> (\<bar>x * 2 ^ k - of_int M\<bar> = 1/2 \<and> even M)"
  shows "fl x = of_int M / 2 ^ k"
proof -
  have p: "2 powr (of_int (- int k)) = 1 / (2::real) ^ k"
    by (simp add: powr_minus powr_realpow divide_inverse)
  have "fl x = of_int M * 2 powr (of_int (- int k))"
  proof (rule fl_eqI)
    show "2 ^ 52 * 2 powr (of_int (- int k)) \<le> \<bar>x\<bar>"
      unfolding p using assms(1) by (simp add: field_simps)
    show "\<bar>x\<bar> < 2 ^ 53 * 2 powr (of_int (- int k))"
      unfolding p using assms(2) by (simp add: field_simps)
    show "\<bar>x / 2 powr (of_int (- int k)) - of_int M\<bar> < 1/2 \<or>
          (\<bar>x / 2 powr (of_int (- int k)) - of_int M\<bar> = 1/2 \<and> even M)"
      unfolding p using assms(3) by simp
  qed
  thus ?thesis unfolding p by simp
qed

lemma fl_up:
  fixes x :: real and M :: int and k :: nat
  assumes "2 ^ 52 * 2 ^ k \<le> \<bar>x\<bar>" and "\<bar>x\<bar> < 2 ^ 53 * 2 ^ k"
    and "\<bar>x / 2 ^ k - of_int M\<bar> < 1/2 \<or> (\<bar>x / 2 ^ k - of_int M\<bar> = 1/2 \<and> even M)"
  shows "fl x = of_int M * 2 ^ k"
proof -
  have "fl x = of_int M * 2 powr (of_int (int k))"
    by (rule fl_eqI) (use assms in \<open>simp_all add: powr_realpow\<close>)
  thus ?thesis by (simp add: powr_realpow)
qed

lemma fl_0: "fl 0 = 0"
  by (simp add: fl_def)

lemma fl_v_1: "fl (125000) = 125000"
  using fl_down[where x="125000" and k=36 and M="8589934592000000"] by simp

lemma fl_v_2: "fl (2500000) = 2500000"
  using fl_down[where x="2500000" and k=31 and M="5368709120000000"] by simp

lemma fl_v_3: "fl (625000 / 3) = 7158278826666667 / 34359738368"
  using fl_down[where x="625000 / 3" and k=35 and M="7158278826666667"] by simp

lemma fl_v_4: "fl (1 / 100000000) = 3022314549036573 / 302231454903657293676544"
  using fl_down[where x="1 / 100000000" and k=79 and M="6044629098073146"] by simp

lemma fl_v_5: "fl (21634570243895116578965863012191 / 10384593717069655257060992658440192) = 4803839602528529 / 2305843009213693952"
  using fl_down[where x="21634570243895116578965863012191 / 10384593717069655257060992658440192" and k=61 and M="4803839602528529"] by simp

lemma fl_v_6: "fl (26000000) = 26000000"
  using fl_down[where x="26000000" and k=28 and M="6979321856000000"] by simp

lemma fl_v_7: "fl (125) = 125"
  using fl_down[where x="125" and k=46 and M="8796093022208000"] by simp

lemma fl_v_8: "fl (975779919263607453125 / 18014398509481984) = 7444609979733333 / 137438953472"
  using fl_down[where x="975779919263607453125 / 18014398509481984" and k=37 and M="7444609979733333"] by simp

lemma fl_v_9: "fl (7444609979733333 / 17179869184000) = 7623280619246933 / 17592186044416"
  using fl_down[where x="7444609979733333 / 17179869184000" and k=44 and M="7623280619246933"] by simp

lemma fl_v_10: "fl (25) = 25"
  using fl_down[where x="25" and k=48 and M="7036874417766400"] by simp

lemma fl_v_11: "fl (30) = 30"
  using fl_down[where x="30" and k=48 and M="8444249301319680"] by simp

lemma fl_v_12: "fl (- 30) = - 30"
  using fl_down[where x="- 30" and k=48 and M="- 8444249301319680"] by simp

lemma fl_v_13: "fl (100) = 100"
  using fl_down[where x="100" and k=46 and M="7036874417766400"] by simp

lemma fl_v_14: "fl (50) = 50"
  using fl_down[where x="50" and k=47 and M="7036874417766400"] by simp

lemma fl_v_15: "fl (22869841857740799 / 4398046511104) = 5200"
  using fl_down[where x="22869841857740799 / 4398046511104" and k=40 and M="5717460464435200"] by simp

lemma fl_v_16: "fl (114349209288703995 / 8796093022208) = 13000"
  using fl_down[where x="114349209288703995 / 8796093022208" and k=39 and M="7146825580544000"] by simp

lemma fl_v_17: "fl (- (22869841857740799 / 4398046511104)) = - 5200"
  using fl_down[where x="- (22869841857740799 / 4398046511104)" and k=40 and M="- 5717460464435200"] by simp

lemma fl_v_18: "fl (190582015481173325 / 4398046511104) = 2977843991893333 / 68719476736"
  using fl_down[where x="190582015481173325 / 4398046511104" and k=37 and M="5955687983786666"] by simp

lemma fl_v_19: "fl (- (114349209288703995 / 8796093022208)) = - 13000"
  using fl_down[where x="- (114349209288703995 / 8796093022208)" and k=39 and M="- 7146825580544000"] by simp

lemma fl_v_20: "fl (190582015481173325 / 8796093022208) = 2977843991893333 / 137438953472"
  using fl_down[where x="190582015481173325 / 8796093022208" and k=38 and M="5955687983786666"] by simp

lemma fl_v_21: "fl (5200) = 5200"
  using fl_down[where x="5200" and k=40 and M="5717460464435200"] by simp

lemma fl_v_22: "fl (13000) = 13000"
  using fl_down[where x="13000" and k=39 and M="7146825580544000"] by simp

lemma fl_v_23: "fl (- 5200) = - 5200"
  using fl_down[where x="- 5200" and k=40 and M="- 5717460464435200"] by simp

lemma fl_v_24: "fl (2977843991893333 / 68719476736) = 2977843991893333 / 68719476736"
  using fl_down[where x="2977843991893333 / 68719476736" and k=37 and M="5955687983786666"] by simp

lemma fl_v_25: "fl (- 13000) = - 13000"
  using fl_down[where x="- 13000" and k=39 and M="- 7146825580544000"] by simp

lemma fl_v_26: "fl (2977843991893333 / 137438953472) = 2977843991893333 / 137438953472"
  using fl_down[where x="2977843991893333 / 137438953472" and k=38 and M="5955687983786666"] by simp

lemma fl_v_27: "fl (75) = 75"
  using fl_down[where x="75" and k=46 and M="5277655813324800"] by simp

lemma fl_v_28: "fl (75 / 2) = 75 / 2"
  using fl_down[where x="75 / 2" and k=47 and M="5277655813324800"] by simp

lemma fl_v_29: "fl (375) = 375"
  using fl_down[where x="375" and k=44 and M="6597069766656000"] by simp

lemma fl_v_30: "fl (125 / 4) = 125 / 4"
  using fl_down[where x="125 / 4" and k=48 and M="8796093022208000"] by simp

lemma fl_v_31: "fl (- 375) = - 375"
  using fl_down[where x="- 375" and k=44 and M="- 6597069766656000"] by simp

lemma fl_v_32: "fl (- (125 / 4)) = - (125 / 4)"
  using fl_down[where x="- (125 / 4)" and k=48 and M="- 8796093022208000"] by simp

lemma fl_v_33: "fl (- (75 / 2)) = - (75 / 2)"
  using fl_down[where x="- (75 / 2)" and k=47 and M="- 5277655813324800"] by simp

lemma fl_v_34: "fl (- (893353197568000 / 2977843991893333)) = - (1351079888211149 / 4503599627370496)"
  using fl_down[where x="- (893353197568000 / 2977843991893333)" and k=54 and M="- 5404319552844596"] by simp

lemma fl_v_35: "fl (2195504818343117125 / 562949953421312) = 8576190696652801 / 2199023255552"
  using fl_down[where x="2195504818343117125 / 562949953421312" and k=41 and M="8576190696652801"] by simp

lemma fl_v_36: "fl (2858730232217599 / 2199023255552) = 2858730232217599 / 2199023255552"
  using fl_down[where x="2858730232217599 / 2199023255552" and k=42 and M="5717460464435198"] by simp

lemma fl_v_37: "fl (- (4023305127677486038630989369617 / 618970019642690137449562112)) = - 6500"
  using fl_down[where x="- (4023305127677486038630989369617 / 618970019642690137449562112)" and k=40 and M="- 7146825580544000"] by simp

lemma fl_v_38: "fl (- 6500) = - 6500"
  using fl_down[where x="- 6500" and k=40 and M="- 7146825580544000"] by simp

lemma fl_v_39: "fl (168884986026393625 / 18014398509481984) = 5277655813324801 / 562949953421312"
  using fl_down[where x="168884986026393625 / 18014398509481984" and k=49 and M="5277655813324801"] by simp

lemma fl_v_40: "fl (- (26388279066624001 / 562949953421312)) = - (375 / 8)"
  using fl_down[where x="- (26388279066624001 / 562949953421312)" and k=47 and M="- 6597069766656000"] by simp

lemma fl_v_41: "fl (1 / 2) = 1 / 2"
  using fl_down[where x="1 / 2" and k=53 and M="4503599627370496"] by simp

lemma fl_v_42: "fl (2977843991893333 / 274877906944) = 2977843991893333 / 274877906944"
  using fl_down[where x="2977843991893333 / 274877906944" and k=39 and M="5955687983786666"] by simp

lemma fl_v_43: "fl (8933531975679999 / 274877906944) = 8933531975679999 / 274877906944"
  using fl_down[where x="8933531975679999 / 274877906944" and k=38 and M="8933531975679999"] by simp

lemma fl_v_44: "fl (- (125 / 8)) = - (125 / 8)"
  using fl_down[where x="- (125 / 8)" and k=49 and M="- 8796093022208000"] by simp

lemma fl_v_45: "fl (375 / 8) = 375 / 8"
  using fl_down[where x="375 / 8" and k=47 and M="6597069766656000"] by simp

lemma fl_v_46: "fl (- (2858730232217599 / 14293651161088000)) = - (7205759403792791 / 36028797018963968)"
  using fl_down[where x="- (2858730232217599 / 14293651161088000)" and k=55 and M="- 7205759403792791"] by simp

lemma fl_v_47: "fl (- (64372882042839743861811919087209 / 9903520314283042199192993792)) = - (7146825580543997 / 1099511627776)"
  using fl_down[where x="- (64372882042839743861811919087209 / 9903520314283042199192993792)" and k=40 and M="- 7146825580543997"] by simp

lemma fl_v_48: "fl (- (3 / 1099511627776)) = - (3 / 1099511627776)"
  using fl_down[where x="- (3 / 1099511627776)" and k=91 and M="- 6755399441055744"] by simp

lemma fl_v_49: "fl (- (2702159776422296625 / 288230376151711744)) = - (2638827906662399 / 281474976710656)"
  using fl_down[where x="- (2702159776422296625 / 288230376151711744)" and k=49 and M="- 5277655813324798"] by simp

lemma fl_v_50: "fl (- (10555311626649601 / 281474976710656)) = - (75 / 2)"
  using fl_down[where x="- (10555311626649601 / 281474976710656)" and k=47 and M="- 5277655813324800"] by simp

lemma fl_v_51: "fl (13743895347200) = 13743895347200"
  using fl_down[where x="13743895347200" and k=9 and M="7036874417766400"] by simp

lemma fl_v_52: "fl (446676598783999950) = 446676598783999936"
  using fl_up[where x="446676598783999950" and k=6 and M="6979321855999999"] by simp

lemma fl_v_53: "fl (446676598783999936) = 446676598783999936"
  using fl_up[where x="446676598783999936" and k=6 and M="6979321855999999"] by simp

lemma fl_v_54: "fl (- (3573412790271999113 / 8)) = - 446676598783999872"
  using fl_up[where x="- (3573412790271999113 / 8)" and k=6 and M="- 6979321855999998"] by simp

lemma fl_v_55: "fl (111669149695999968 / 1625) = 8796093022207997 / 128"
  using fl_down[where x="111669149695999968 / 1625" and k=7 and M="8796093022207997"] by simp

lemma fl_v_56: "fl (- (14293651161087995125 / 16)) = - 893353197567999744"
  using fl_up[where x="- (14293651161087995125 / 16)" and k=7 and M="- 6979321855999998"] by simp

lemma fl_v_57: "fl (297784399189333300) = 297784399189333312"
  using fl_up[where x="297784399189333300" and k=6 and M="4652881237333333"] by simp

lemma fl_v_58: "fl (297784399189333312) = 297784399189333312"
  using fl_up[where x="297784399189333312" and k=6 and M="4652881237333333"] by simp

lemma fl_v_59: "fl (- 595568798378666432) = - 595568798378666496"
  using fl_up[where x="- 595568798378666432" and k=7 and M="- 4652881237333332"] by simp

lemma fl_v_60: "fl (2382275193514665859 / 4) = 595568798378666496"
  using fl_up[where x="2382275193514665859 / 4" and k=7 and M="4652881237333332"] by simp

lemma fl_v_61: "fl (40927176184870246790574637056 / 2977843991893333) = 7036874417766399 / 512"
  using fl_down[where x="40927176184870246790574637056 / 2977843991893333" and k=9 and M="7036874417766399"] by simp

lemma fl_v_62: "fl (11434920928870398375 / 64) = 178670639513599968"
  using fl_up[where x="11434920928870398375 / 64" and k=5 and M="5583457484799999"] by simp

lemma fl_v_63: "fl (- (2858730232217599025 / 8)) = - 357341279027199872"
  using fl_up[where x="- (2858730232217599025 / 8)" and k=6 and M="- 5583457484799998"] by simp

lemma fl_v_64: "fl (178670639513600000) = 178670639513600000"
  using fl_up[where x="178670639513600000" and k=5 and M="5583457484800000"] by simp

lemma fl_v_65: "fl (- 178670639513599872) = - 178670639513599872"
  using fl_up[where x="- 178670639513599872" and k=5 and M="- 5583457484799996"] by simp

lemma fl_v_66: "fl (96) = 96"
  using fl_down[where x="96" and k=46 and M="6755399441055744"] by simp

lemma fl_v_67: "fl (20954714206653567038104919517867 / 35184372088832) = 595568798378666496"
  using fl_up[where x="20954714206653567038104919517867 / 35184372088832" and k=7 and M="4652881237333332"] by simp

lemma fl_v_68: "fl (- (11434920928870398375 / 64)) = - 178670639513599968"
  using fl_up[where x="- (11434920928870398375 / 64)" and k=5 and M="- 5583457484799999"] by simp

lemma fl_v_69: "fl (2858730232217599025 / 8) = 357341279027199872"
  using fl_up[where x="2858730232217599025 / 8" and k=6 and M="5583457484799998"] by simp

lemma fl_v_70: "fl (- 178670639513600000) = - 178670639513600000"
  using fl_up[where x="- 178670639513600000" and k=5 and M="- 5583457484800000"] by simp

lemma fl_v_71: "fl (178670639513599872) = 178670639513599872"
  using fl_up[where x="178670639513599872" and k=5 and M="5583457484799996"] by simp

lemma fl_v_72: "fl (- 96) = - 96"
  using fl_down[where x="- 96" and k=46 and M="- 6755399441055744"] by simp

lemma fl_v_73: "fl (20954714206653567038104919517867 / 70368744177664) = 297784399189333248"
  using fl_up[where x="20954714206653567038104919517867 / 70368744177664" and k=6 and M="4652881237333332"] by simp

lemma fl_v_74: "fl (595568798378666600) = 595568798378666624"
  using fl_up[where x="595568798378666600" and k=7 and M="4652881237333333"] by simp

lemma fl_v_75: "fl (595568798378666624) = 595568798378666624"
  using fl_up[where x="595568798378666624" and k=7 and M="4652881237333333"] by simp

lemma fl_v_76: "fl (- 297784399189333120) = - 297784399189333120"
  using fl_up[where x="- 297784399189333120" and k=6 and M="- 4652881237333330"] by simp

lemma fl_v_77: "fl (128) = 128"
  using fl_down[where x="128" and k=45 and M="4503599627370496"] by simp

lemma fl_v_78: "fl (267 / 2) = 267 / 2"
  using fl_down[where x="267 / 2" and k=45 and M="4697113673859072"] by simp

lemma fl_v_79: "fl (- (117 / 2)) = - (117 / 2)"
  using fl_down[where x="- (117 / 2)" and k=47 and M="- 8233143068786688"] by simp

lemma fl_v_80: "fl (387 / 4) = 387 / 4"
  using fl_down[where x="387 / 4" and k=46 and M="6808175999188992"] by simp


lemmas fl_facts = fl_v_1 fl_v_2 fl_v_3 fl_v_4 fl_v_5 fl_v_6 fl_v_7 fl_v_8 fl_v_9 fl_v_10 fl_v_11 fl_v_12 fl_v_13 fl_v_14 fl_v_15 fl_v_16 fl_v_17 fl_v_18 fl_v_19 fl_v_20 fl_v_21 fl_v_22 fl_v_23 fl_v_24 fl_v_25 fl_v_26 fl_v_27 fl_v_28 fl_v_29 fl_v_30 fl_v_31 fl_v_32 fl_v_33 fl_v_34 fl_v_35 fl_v_36 fl_v_37 fl_v_38 fl_v_39 fl_v_40 fl_v_41 fl_v_42 fl_v_43 fl_v_44 fl_v_45 fl_v_46 fl_v_47 fl_v_48 fl_v_49 fl_v_50 fl_v_51 fl_v_52 fl_v_53 fl_v_54 fl_v_55 fl_v_56 fl_v_57 fl_v_58 fl_v_59 fl_v_60 fl_v_61 fl_v_62 fl_v_63 fl_v_64 fl_v_65 fl_v_66 fl_v_67 fl_v_68 fl_v_69 fl_v_70 fl_v_71 fl_v_72 fl_v_73 fl_v_74 fl_v_75 fl_v_76 fl_v_77 fl_v_78 fl_v_79 fl_v_80

subsection \<open>The pinned-free span in double precision\<close>

lemma hp_pf_simps:
  "beam_objs hp_pinned_free (Suc 0) = Some B_one"
  "span_objs hp_pinned_free 4 = Some (span_5m\<lparr>loads := [5]\<rparr>)"
  "section_objs hp_pinned_free 0 = Some sec_20x50"
  "load_objs hp_pinned_free 5 = Some load_15_5m"
  "node_objs hp_pinned_free 2 = Some \<lparr>node_id = 0, node_x = 0, node_y = 0, node_z = 0,
                           support_conditions = [True, False]\<rparr>"
  "node_objs hp_pinned_free 3 = Some \<lparr>node_id = 1, node_x = 5, node_y = 0, node_z = 0,
                           support_conditions = [False, False]\<rparr>"
  by (simp_all add: hp_pinned_free_def)

lemma span_5m_simps:
  "span_section (span_5m\<lparr>loads := [5]\<rparr>) = 0"
  "loads (span_5m\<lparr>loads := [5]\<rparr>) = [5]"
  "span_length (span_5m\<lparr>loads := [5]\<rparr>) = 5"
  by (simp_all add: span_5m_def span_6m_def)

lemma EIL_fl_5m:
  "span_EIL_fl (span_5m\<lparr>loads := [5]\<rparr>) sec_20x50 = (26000000, 4803839602528529 / 2305843009213693952, 5)"
  by (simp add: span_EIL_fl_def inertia_fl_def span_5m_def span_6m_def sec_20x50_def mat_C30_def
      fl_facts)

lemma k_fl_5m:
  "local_stiffness_fl 26000000 (4803839602528529 / 2305843009213693952) 5 =
   Inr [[5200, 13000, - 5200, 13000],
        [13000, 2977843991893333 / 68719476736, - 13000, 2977843991893333 / 137438953472],
        [- 5200, - 13000, 5200, - 13000],
        [13000, 2977843991893333 / 137438953472, - 13000, 2977843991893333 / 68719476736]]"
  by (simp add: local_stiffness_fl_def Let_def fl_facts)

lemma K_fl_5m:
  "assemble_stiffness_matrix_fl hp_pinned_free B_one =
   Inr [[5200, 13000, - 5200, 13000],
        [13000, 2977843991893333 / 68719476736, - 13000, 2977843991893333 / 137438953472],
        [- 5200, - 13000, 5200, - 13000],
        [13000, 2977843991893333 / 137438953472, - 13000, 2977843991893333 / 68719476736]]"
  by (simp add: assemble_stiffness_matrix_fl_def stiffness_step_fl_def hp_pf_simps EIL_fl_5m
      k_fl_5m span_5m_simps B_one_def bindE_def deref_def add_local_fl_def add_row_fl_def
      mat_add_at_fl_def indices_of_0 zeros2_4 list4_update Let_def fl_facts)

lemma fixed_fl_5m: "fixed_end_reactions_fl 5 [load_15_5m] = [75 / 2, 125 / 4, 75 / 2, - (125 / 4)]"
  by (simp add: fixed_end_reactions_fl_def add_fixed_end_fl_def load_15_5m_def zeros_4 Let_def
      fl_facts)

lemma F_fl_5m: "assemble_load_vector_fl hp_pinned_free B_one = Inr [- (75 / 2), - (125 / 4), - (75 / 2), 125 / 4]"
  by (simp add: assemble_load_vector_fl_def load_step_fl_def hp_pf_simps span_5m_simps
      fixed_fl_5m B_one_def bindE_def deref_def vec_sub_at_fl_def indices_of_0 zeros_4
      list4_update Let_def fl_facts)

lemma free_pf: "free_dofs_of hp_pinned_free B_one = Inr [1, 2, 3]"
  by (simp add: free_dofs_of_def free_dofs_step_def hp_pf_simps B_one_def bindE_def
      deref_def py_index_def Let_def)

lemma reduced_fl_5m:
  "reduced_system_fl hp_pinned_free 1 =
     Inr ([[2977843991893333 / 68719476736, - 13000, 2977843991893333 / 137438953472],
        [- 13000, 5200, - 13000],
        [2977843991893333 / 137438953472, - 13000, 2977843991893333 / 68719476736]],
          [- (125 / 4), - (75 / 2), 125 / 4], [1, 2, 3])"
  using hp_pf_simps(1)
  by (simp add: reduced_system_fl_def K_fl_5m F_fl_5m free_pf bindE_def deref_def K_reduced_of_def
      F_reduced_of_def B_one_simps)

lemma solve_fl_5m:
  "solve_system_fl 4 ([[2977843991893333 / 68719476736, - 13000, 2977843991893333 / 137438953472],
        [- 13000, 5200, - 13000],
        [2977843991893333 / 137438953472, - 13000, 2977843991893333 / 68719476736]],
          [- (125 / 4), - (75 / 2), 125 / 4], [1, 2, 3]) = Inr [0, 7036874417766399 / 512, 8796093022207997 / 128, 13743895347200]"
  by (simp add: solve_system_fl_def linalg_solve_fl_def eliminate_fl_def np_put_def zeros_4
      list4_update Let_def fl_facts)

lemma forces_fl_5m:
  "compute_internal_forces_fl hp_pinned_free B_one [0, 7036874417766399 / 512, 8796093022207997 / 128, 13743895347200] = Inr hp_pinned_free_solved"
proof -
  have s: "(span_objs hp_pinned_free)(4 \<mapsto> x) = [4 \<mapsto> x]" for x
    by (simp add: hp_pinned_free_def)
  show ?thesis
    by (simp add: compute_internal_forces_fl_def internal_step_fl_def hp_pf_simps
        span_5m_simps EIL_fl_5m k_fl_5m fixed_fl_5m B_one_simps bindE_def deref_def py_index_def
        indices_of_0 hp_pinned_free_solved_def span_5m_solved_def s Let_def fl_0 fl_facts)
qed

lemma hp_pf_beam: "beam_objs hp_pinned_free 1 = Some B_one"
  using hp_pf_simps(1) by simp

lemma n_dofs_B_one: "length (nodes B_one) * 2 = 4"
  by (simp add: B_one_simps)

lemma solve_fl_pinned_free: "MatrixSolver_solve_fl hp_pinned_free 1 = Inr hp_pinned_free_solved"
  by (simp only: MatrixSolver_solve_fl_def reduced_fl_5m bindE_def sum.case deref_def hp_pf_beam
      option.case n_dofs_B_one solve_fl_5m forces_fl_5m)

subsection \<open>The same span over the reals\<close>

lemma EIL_5m: "span_EIL (span_5m\<lparr>loads := [5]\<rparr>) sec_20x50 = (26000000, 1/480, 5)"
  by (simp add: span_EIL_def span_5m_def span_6m_def sec_20x50_def mat_C30_def inertia_def)

lemma k_5m: "local_stiffness 26000000 (1/480) 5 =
   Inr (map (map (\<lambda>x. (1300/3) * x))
              [[12, 30, - 12, 30],
               [30, 100, - 30, 50],
               [- 12, - 30, 12, - 30],
               [30, 50, - 30, 100]])"
  by (simp add: local_stiffness_def py_div_def bindE_def)

lemma K_5m: "assemble_stiffness_matrix hp_pinned_free B_one =
   Inr (map (map (\<lambda>x. (1300/3) * x))
              [[12, 30, - 12, 30],
               [30, 100, - 30, 50],
               [- 12, - 30, 12, - 30],
               [30, 50, - 30, 100]])"
  by (simp add: assemble_stiffness_matrix_def stiffness_step_def hp_pf_simps EIL_5m k_5m
      span_5m_simps
      B_one_def bindE_def deref_def add_local_def add_row_def mat_add_at_def
      indices_of_0 zeros2_4 list4_update Let_def)

lemma fixed_end_5m: "fixed_end_reactions 5 [load_15_5m] = [75/2, 125/4, 75/2, - (125/4)]"
  by (simp add: fixed_end_reactions_def add_fixed_end_def load_15_5m_def zeros_4 Let_def)

lemma F_5m: "assemble_load_vector hp_pinned_free B_one = Inr [- (75/2), - (125/4), - (75/2), 125/4]"
  by (simp add: assemble_load_vector_def load_step_def hp_pf_simps span_5m_simps
      fixed_end_5m B_one_def bindE_def deref_def vec_sub_at_def indices_of_0 zeros_4
      list4_update Let_def)

lemma reduced_5m:
  "reduced_system hp_pinned_free 1 =
     Inr ([[(1300/3) * 100, (1300/3) * - 30, (1300/3) * 50],
           [(1300/3) * - 30, (1300/3) * 12, (1300/3) * - 30],
           [(1300/3) * 50, (1300/3) * - 30, (1300/3) * 100]],
          [- (125/4), - (75/2), 125/4], [1, 2, 3])"
  using hp_pf_simps(1)
  by (simp add: reduced_system_def K_5m F_5m free_pf bindE_def deref_def K_reduced_of_def
      F_reduced_of_def B_one_simps)

lemma singular_5m:
  "singular [[(1300/3) * 100, (1300/3) * - 30, (1300/3) * 50],
           [(1300/3) * - 30, (1300/3) * 12, (1300/3) * - 30],
           [(1300/3) * 50, (1300/3) * - 30, (1300/3) * 100]]"
  unfolding singular_def
  by (rule exI[of _ "[1, 5, 1]"]) (simp add: zeros_def eval_nat_numeral)

lemma regular_fl_5m:
  "\<not> singular [[2977843991893333 / 68719476736, - 13000, 2977843991893333 / 137438953472],
        [- 13000, 5200, - 13000],
        [2977843991893333 / 137438953472, - 13000, 2977843991893333 / 68719476736]]"
proof
  assume s: "singular [[2977843991893333 / 68719476736, - 13000, 2977843991893333 / 137438953472],
        [- 13000, 5200, - 13000],
        [2977843991893333 / 137438953472, - 13000, 2977843991893333 / 68719476736]]"
  have "linalg_solve [[2977843991893333 / 68719476736, - 13000, 2977843991893333 / 137438953472],
        [- 13000, 5200, - 13000],
        [2977843991893333 / 137438953472, - 13000, 2977843991893333 / 68719476736]] [0, 0, 0] = None"
    by (rule linalg_solve_singular[OF s]) simp
  thus False
    by (simp add: linalg_solve_def eliminate_def Let_def)
qed

lemma build_pinned_free:
  "bindE (add_spans hp_fresh 1 [call_pinned_free]) (\<lambda>hp. append_load hp 4 load_15_5m)
     = Inr hp_pinned_free"
  by (simp add: add_spans_def add_span_call_def add_span_def add_span_start_def bindE_def
      deref_def hp_fresh_def new_Beam_def new_CrossSection_def new_Node_def new_BeamSpan_def
      empty_heap_def call_6m_def call_pinned_free_def get_conditions_def hp_pinned_free_def
      span_5m_def span_6m_def B_one_def append_load_def new_Load_def Let_def eval_nat_numeral)

text \<open>
  Claim C3 does not hold of the code. The span of 5 m that is pinned at one end and free
  at the other is a mechanism: over the reals its reduced stiffness matrix is singular,
  and a solver that computes exactly raises the singular-structure exception, which is
  what the claim requires. In double arithmetic the entries \<open>12c\<close> and \<open>30c\<close> of the matrix
  round to 5200 and 13000 while \<open>100c\<close> rounds below 130000/3, the matrix that
  \<^verbatim>\<open>np.linalg.solve\<close> receives is regular, the elimination meets the pivots 43333.3, -6500
  and \<open>-3 / 2^40\<close> and no zero, and \<^verbatim>\<open>solve\<close> returns without an exception: it assigns
  displacements of the order of \<open>10^13\<close> and the end forces 133.5, 31.25, 58.5 and -96.75
  to the span.
\<close>

theorem solve_misses_mechanism:
  "bindE (add_spans hp_fresh 1 [call_pinned_free]) (\<lambda>hp. append_load hp 4 load_15_5m)
     = Inr hp_pinned_free \<and>
   (\<exists>Kr Fr fd. reduced_system hp_pinned_free 1 = Inr (Kr, Fr, fd) \<and> singular Kr) \<and>
   MatrixSolver_solve hp_pinned_free 1 = Inl SingularMatrixException \<and>
   (\<exists>Kr Fr fd. reduced_system_fl hp_pinned_free 1 = Inr (Kr, Fr, fd) \<and> \<not> singular Kr) \<and>
   MatrixSolver_solve_fl hp_pinned_free 1 = Inr hp_pinned_free_solved \<and>
   span_objs hp_pinned_free_solved 4 = Some span_5m_solved \<and>
   shear_left span_5m_solved = 133.5 \<and> shear_right span_5m_solved = 58.5"
proof -
  have 1: "\<exists>Kr Fr fd. reduced_system hp_pinned_free 1 = Inr (Kr, Fr, fd) \<and> singular Kr"
    using reduced_5m singular_5m by blast
  have 2: "MatrixSolver_solve hp_pinned_free 1 = Inl SingularMatrixException"
    using solve_singular_general[OF reduced_5m singular_5m] .
  have 3: "\<exists>Kr Fr fd. reduced_system_fl hp_pinned_free 1 = Inr (Kr, Fr, fd) \<and> \<not> singular Kr"
    using reduced_fl_5m regular_fl_5m by blast
  have 4: "span_objs hp_pinned_free_solved 4 = Some span_5m_solved"
    by (simp add: hp_pinned_free_solved_def)
  have 5: "shear_left span_5m_solved = 133.5 \<and> shear_right span_5m_solved = 58.5"
    by (simp add: span_5m_solved_def)
  show ?thesis
    using build_pinned_free 1 2 3 solve_fl_pinned_free 4 5 by blast
qed

text \<open>The two evaluations of \<^verbatim>\<open>solve\<close> on that span, side by side.\<close>

theorem solve_misses_mechanism_witness:
  "MatrixSolver_solve hp_pinned_free 1 = Inl SingularMatrixException \<and>
   MatrixSolver_solve_fl hp_pinned_free 1 = Inr hp_pinned_free_solved \<and>
   span_objs hp_pinned_free_solved 4 = Some span_5m_solved \<and>
   shear_left span_5m_solved = 133.5"
  using solve_misses_mechanism by blast

end
